(* ===== verification/Prelude.thy ===== *)
theory Prelude
  imports Main "HOL-Library.Sublist" "HOL-Library.Word" "HOL-Library.Code_Target_Numeral"
begin

text \<open>
  Shared vocabulary of the development. The scripts of the repository are Python programs
  that raise exceptions and print to standard output. Here an exception is a value of
  \<open>error\<close>, a computation that may raise is an \<open>'a result\<close> (\<open>Inl\<close> the exception),
  and a computation that prints and may raise is an \<open>'a io\<close>: the lines printed so far
  together with the outcome. Sequencing is \<open>ebind\<close> and \<open>iobind\<close>; their characteristic
  equations are in the simpset, so a model unfolds by \<open>simp\<close> along the code's order.
\<close>

named_theorems py_simps "evaluation rules of the Python builtins model"
named_theorems model_simps "unfolding rules of the script definitions"

section \<open>Exceptions\<close>

text \<open>
  The exceptions the modelled code can raise. \<open>IndexError\<close> and \<open>ValueError\<close> come from
  Python itself (\<open>xs[i]\<close> out of range, \<open>int(s, 16)\<close> on a malformed string);
  \<open>EOFError\<close> is \<open>input()\<close> at the end of standard input, \<open>FileNotFoundError\<close> a
  missing file opened or run, \<open>AttributeError\<close> a method called on a failed
  \<open>re.match\<close> (\<open>None.group\<close>). \<open>UnsureReloc\<close> is the \<open>Exception(f"unsure why {symbol} in line: {line}")\<close> of the
  relocation scan, \<open>RelocShape\<close> the \<open>Exception("wasn't able to find both hi and lo
  offsets")\<close>, \<open>NoTools\<close> the \<open>Exception("define SM64_TOOLS as an env var")\<close>,
  \<open>ToolsEnvError\<close> \<open>add_nonmatching.py\<close>'s \<open>EnvironmentError\<close> for the same variable,
  \<open>FirstDiffMismatch\<close> its \<open>Exception("first-diff.py output didn't match expectations")\<close>.
\<close>

datatype error =
    IndexError
  | ValueError
  | UnsureReloc string string
  | RelocShape
  | NoTools
  | EOFError
  | FileNotFoundError string
  | AttributeError
  | ToolsEnvError
  | FirstDiffMismatch

type_synonym 'a result = "error + 'a"

definition ebind :: "'a result \<Rightarrow> ('a \<Rightarrow> 'b result) \<Rightarrow> 'b result" where
  "ebind r f = (case r of Inl e \<Rightarrow> Inl e | Inr a \<Rightarrow> f a)"

section \<open>Printing computations\<close>

text \<open>
  \<open>'a io\<close>: the lines written by \<open>print\<close>, in order, and the outcome. An exception keeps
  what was printed before it, as a Python traceback follows the output already written.
\<close>

type_synonym 'a io = "string list \<times> 'a result"

definition iobind :: "'a io \<Rightarrow> ('a \<Rightarrow> 'b io) \<Rightarrow> 'b io" where
  "iobind m f = (case snd m of
      Inl e \<Rightarrow> (fst m, Inl e)
    | Inr a \<Rightarrow> (fst m @ fst (f a), snd (f a)))"

definition io_return :: "'a \<Rightarrow> 'a io" where
  "io_return a = ([], Inr a)"

definition io_print :: "string \<Rightarrow> unit io" where
  "io_print s = ([s], Inr ())"

definition io_lift :: "'a result \<Rightarrow> 'a io" where
  "io_lift r = ([], r)"

section \<open>Lists\<close>

text \<open>Python's \<open>xs[i]\<close> for a non-negative index: \<open>IndexError\<close> out of range.\<close>

definition py_index :: "'a list \<Rightarrow> nat \<Rightarrow> 'a result" where
  "py_index xs i = (if i < length xs then Inr (xs ! i) else Inl IndexError)"

text \<open>Python's \<open>xs[-1]\<close>: the last element, \<open>IndexError\<close> on the empty list.\<close>

definition py_last :: "'a list \<Rightarrow> 'a result" where
  "py_last xs = (if xs = [] then Inl IndexError else Inr (last xs))"

text \<open>
  A list comprehension \<open>[f(x) for x in xs]\<close> whose element expression may raise: the
  elements are computed left to right and the first exception ends it.
\<close>

fun map_res :: "('a \<Rightarrow> 'b result) \<Rightarrow> 'a list \<Rightarrow> 'b list result" where
  "map_res f [] = Inr []"
| "map_res f (x # xs) = ebind (f x) (\<lambda>y. ebind (map_res f xs) (\<lambda>ys. Inr (y # ys)))"

section \<open>Characteristic equations\<close>

lemma ebind_Inl [simp]: "ebind (Inl e) f = Inl e"
  and ebind_Inr [simp]: "ebind (Inr a) f = f a"
  by (simp_all add: ebind_def)

lemma ebind_eq_Inr:
  "ebind r f = Inr b \<longleftrightarrow> (\<exists>a. r = Inr a \<and> f a = Inr b)"
  by (cases r) simp_all

lemma ebind_eq_Inl:
  "ebind r f = Inl e \<longleftrightarrow> r = Inl e \<or> (\<exists>a. r = Inr a \<and> f a = Inl e)"
  by (cases r) simp_all

lemma iobind_simps [simp]:
  "iobind (out, Inl e) f = (out, Inl e)"
  "iobind (out, Inr a) f = (out @ fst (f a), snd (f a))"
  by (simp_all add: iobind_def)

lemma io_unit_simps [simp]:
  "io_return a = ([], Inr a)"
  "io_print s = ([s], Inr ())"
  "io_lift r = ([], r)"
  by (simp_all add: io_return_def io_print_def io_lift_def)

lemma iobind_return_left: "iobind (io_return a) f = f a"
  by simp

lemma snd_iobind_Inr:
  "snd (iobind m f) = Inr b \<longleftrightarrow> (\<exists>a. snd m = Inr a \<and> snd (f a) = Inr b)"
  by (cases m; cases "snd m") (auto simp: iobind_def)

lemma py_index_simps [simp, py_simps]:
  "py_index [] i = Inl IndexError"
  "py_index (x # xs) 0 = Inr x"
  "py_index (x # xs) (Suc i) = py_index xs i"
  by (simp_all add: py_index_def)

lemma py_last_simps [simp, py_simps]:
  "py_last [] = Inl IndexError"
  "py_last (x # xs) = Inr (last (x # xs))"
  by (simp_all add: py_last_def)

lemma py_index_numeral [simp, py_simps]:
  "py_index (x # xs) (numeral n) = py_index xs (pred_numeral n)"
  by (simp add: numeral_eq_Suc)

lemma map_res_Inr:
  "(\<forall>x \<in> set xs. f x = Inr (g x)) \<Longrightarrow> map_res f xs = Inr (map g xs)"
  by (induction xs) simp_all

lemma map_res_length: "map_res f xs = Inr ys \<Longrightarrow> length ys = length xs"
  by (induction xs arbitrary: ys) (auto simp: ebind_eq_Inr)

lemma map_res_Inl:
  "x \<in> set xs \<Longrightarrow> f x = Inl e \<Longrightarrow> \<exists>e'. map_res f xs = Inl e'"
  by (induction xs) (auto simp: ebind_def split: sum.split)

lemma snd_iobind: "snd (iobind m f) = ebind (snd m) (\<lambda>a. snd (f a))"
  by (cases m; cases "snd m") (simp_all add: iobind_def)

lemma ebind_raises:
  "(\<And>a. r = Inr a \<Longrightarrow> \<exists>e. f a = Inl e) \<Longrightarrow> \<exists>e. ebind r f = Inl e"
  by (cases r) simp_all

lemma ebind_assoc [simp]: "ebind (ebind m f) g = ebind m (\<lambda>a. ebind (f a) g)"
  by (cases m) simp_all

end
