(* ===== verification/PyStr.thy ===== *)
theory PyStr
  imports Prelude
begin

text \<open>
  The Python string builtins the scripts call, as executable HOL functions over
  \<open>string\<close> (a list of bytes): \<open>str.split(sep)\<close>, \<open>str.split()\<close>, \<open>str.strip()\<close>,
  \<open>int(s, 16)\<close>, \<open>hex(n)\<close>, \<open>str.replace\<close>. \<open>x in s\<close>, \<open>s.startswith(x)\<close> and
  \<open>s.endswith(x)\<close> are \<open>sublist\<close>, \<open>prefix\<close> and \<open>suffix\<close> of HOL-Library.Sublist.
  Whitespace is Python's \<open>str.isspace\<close> restricted to ASCII (tab to carriage return and
  the separators 0x1C to 0x20). These functions model the interpreter, not the repository.
  The lemmas say what each one returns on the shapes of text the scripts meet.
\<close>

section \<open>Whitespace, strip, split()\<close>

definition py_space :: "char \<Rightarrow> bool" where
  "py_space c \<longleftrightarrow> (let n = (of_char c :: nat) in (9 \<le> n \<and> n \<le> 13) \<or> (28 \<le> n \<and> n \<le> 32))"

definition py_strip :: "string \<Rightarrow> string" where
  "py_strip s = rev (dropWhile py_space (rev (dropWhile py_space s)))"

text \<open>\<open>s.split()\<close>: maximal runs of non-whitespace, no empty strings.\<close>

fun ws_acc :: "string \<Rightarrow> string \<Rightarrow> string list" where
  "ws_acc cur [] = (if cur = [] then [] else [cur])"
| "ws_acc cur (c # cs) =
     (if py_space c then (if cur = [] then ws_acc [] cs else cur # ws_acc [] cs)
      else ws_acc (cur @ [c]) cs)"

definition py_split_ws :: "string \<Rightarrow> string list" where
  "py_split_ws s = ws_acc [] s"

section \<open>split(sep)\<close>

text \<open>
  \<open>s.split(sep)\<close> (of a \<open>str\<close> or of \<open>bytes\<close>, hence over any element type) scans left to right and cuts at every non-overlapping occurrence of
  \<open>sep\<close>; the result is never empty. The scripts only pass non-empty literal separators
  (Python raises \<open>ValueError\<close> on the empty one, which never occurs).
\<close>

function split_acc :: "'a list \<Rightarrow> 'a list \<Rightarrow> 'a list \<Rightarrow> 'a list list" where
  "split_acc sep cur [] = [cur]"
| "split_acc sep cur (c # cs) =
     (if sep \<noteq> [] \<and> prefix sep (c # cs)
      then cur # split_acc sep [] (drop (length sep) (c # cs))
      else split_acc sep (cur @ [c]) cs)"
  by pat_completeness auto
termination
  by (relation "measure (\<lambda>(sep, cur, s). length s)") auto

definition py_split :: "'a list \<Rightarrow> 'a list \<Rightarrow> 'a list list" where
  "py_split sep s = split_acc sep [] s"

section \<open>Hexadecimal: int(s, 16) and hex(n)\<close>

definition hex_digit_val :: "char \<Rightarrow> nat option" where
  "hex_digit_val c = (let n = (of_char c :: nat) in
     if 48 \<le> n \<and> n \<le> 57 then Some (n - 48)
     else if 97 \<le> n \<and> n \<le> 102 then Some (n - 87)
     else if 65 \<le> n \<and> n \<le> 70 then Some (n - 55)
     else None)"

text \<open>
  Digits with single underscores between them, as \<open>int()\<close> accepts (\<open>"8034_0000"\<close>);
  \<open>acc\<close> is the value read so far.
\<close>

fun hex_groups :: "nat \<Rightarrow> string \<Rightarrow> nat option" where
  "hex_groups acc [] = Some acc"
| "hex_groups acc (c # cs) =
     (if c = CHR ''_''
      then (case cs of [] \<Rightarrow> None
            | d # ds \<Rightarrow> (case hex_digit_val d of None \<Rightarrow> None
                        | Some v \<Rightarrow> hex_groups (16 * acc + v) ds))
      else (case hex_digit_val c of None \<Rightarrow> None
            | Some v \<Rightarrow> hex_groups (16 * acc + v) cs))"

definition hex_body :: "string \<Rightarrow> nat option" where
  "hex_body s = (case s of [] \<Rightarrow> None
     | c # cs \<Rightarrow> (case hex_digit_val c of None \<Rightarrow> None | Some v \<Rightarrow> hex_groups v cs))"

text \<open>
  \<open>int(s, 16)\<close>: surrounding whitespace, an optional sign, an optional \<open>0x\<close>/\<open>0X\<close>
  prefix followed by at most one underscore, then the digits; anything else raises
  \<open>ValueError\<close>.
\<close>

definition py_int16 :: "string \<Rightarrow> int result" where
  "py_int16 s = (let t = py_strip s;
      (neg, u) = (case t of CHR ''-'' # r \<Rightarrow> (True, r) | CHR ''+'' # r \<Rightarrow> (False, r)
                  | _ \<Rightarrow> (False, t));
      v = (if prefix ''0x'' u \<or> prefix ''0X'' u
           then (let w = drop 2 u in if prefix ''_'' w then drop 1 w else w) else u)
    in case hex_body v of None \<Rightarrow> Inl ValueError
       | Some n \<Rightarrow> Inr (if neg then - int n else int n))"

fun hex_digits :: "nat \<Rightarrow> nat list" where
  "hex_digits n = (if n < 16 then [n] else hex_digits (n div 16) @ [n mod 16])"

definition hex_char :: "nat \<Rightarrow> char" where
  "hex_char d = ''0123456789abcdef'' ! d"

definition hex_str :: "nat \<Rightarrow> string" where
  "hex_str n = map hex_char (hex_digits n)"

text \<open>\<open>hex(i)\<close>: lower-case digits without leading zeros, \<open>-0x\<close> for negatives.\<close>

definition py_hex :: "int \<Rightarrow> string" where
  "py_hex i = (if i < 0 then ''-0x'' @ hex_str (nat (- i)) else ''0x'' @ hex_str (nat i))"

text \<open>\<open>str(i)\<close> of an int: decimal digits without leading zeros, \<open>-\<close> for negatives.\<close>

fun dec_digits :: "nat \<Rightarrow> nat list" where
  "dec_digits n = (if n < 10 then [n] else dec_digits (n div 10) @ [n mod 10])"

definition py_str_int :: "int \<Rightarrow> string" where
  "py_str_int i = (if i < 0 then ''-'' else []) @ map (\<lambda>d. ''0123456789'' ! d) (dec_digits (nat \<bar>i\<bar>))"

section \<open>replace, and pathlib joins\<close>

text \<open>
  \<open>s.replace(old, new)\<close> for a non-empty \<open>old\<close> is \<open>new.join(s.split(old))\<close>: every
  non-overlapping occurrence, left to right, is replaced.
\<close>

fun py_join :: "'a list \<Rightarrow> 'a list list \<Rightarrow> 'a list" where
  "py_join sep [] = []"
| "py_join sep [x] = x"
| "py_join sep (x # y # ys) = x @ sep @ py_join sep (y # ys)"

definition py_replace :: "'a list \<Rightarrow> 'a list \<Rightarrow> 'a list \<Rightarrow> 'a list" where
  "py_replace old new s = py_join new (py_split old s)"

text \<open>
  \<open>Path(a) / b\<close> and \<open>Path(p).name\<close> on plain relative paths: an absolute \<open>b\<close> replaces
  \<open>a\<close>; the name is the last component. (pathlib's normalisation of repeated or trailing
  slashes and of \<open>.\<close> components is not modelled.)
\<close>

definition path_div :: "string \<Rightarrow> string \<Rightarrow> string" where
  "path_div a b = (if prefix ''/'' b then b else a @ ''/'' @ b)"

definition path_name :: "string \<Rightarrow> string" where
  "path_name p = last (py_split ''/'' p)"

text \<open>
  \<open>repr(b)\<close> of a \<open>bytes\<close> object (what \<open>print\<close> writes for it): \<open>b\<close>, a quote (the double
  one when the bytes hold a single quote and no double one), the bytes with the quote,
  the backslash, tab, newline and return escaped and other bytes outside
  \<open>0x20\<close>-\<open>0x7E\<close> as \<open>\\xhh\<close>, and the quote again. \<open>CHR 0x5C\<close> is the backslash.
\<close>

definition py_byte_esc :: "char \<Rightarrow> char \<Rightarrow> string" where
  "py_byte_esc q c = (let n = (of_char c :: nat) in
     if c = q \<or> c = CHR 0x5C then [CHR 0x5C, c]
     else if c = CHR 0x09 then [CHR 0x5C, CHR ''t'']
     else if c = CHR 0x0A then [CHR 0x5C, CHR ''n'']
     else if c = CHR 0x0D then [CHR 0x5C, CHR ''r'']
     else if n < 32 \<or> 127 \<le> n then [CHR 0x5C, CHR ''x'', hex_char (n div 16), hex_char (n mod 16)]
     else [c])"

definition py_bytes_repr :: "string \<Rightarrow> string" where
  "py_bytes_repr s = (let q = (if CHR 0x27 \<in> set s \<and> CHR 0x22 \<notin> set s then CHR 0x22 else CHR 0x27) in
     [CHR ''b'', q] @ concat (map (py_byte_esc q) s) @ [q])"

text \<open>The value of a string of hex digits (any case, leading zeros allowed).\<close>

definition hex_text :: "string \<Rightarrow> bool" where
  "hex_text ds \<longleftrightarrow> ds \<noteq> [] \<and> (\<forall>c \<in> set ds. hex_digit_val c \<noteq> None)"

definition hex_val :: "string \<Rightarrow> nat" where
  "hex_val ds = foldl (\<lambda>a c. 16 * a + case_option 0 id (hex_digit_val c)) 0 ds"

section \<open>Lemmas: the shapes of text the scripts meet\<close>

declare hex_digits.simps [simp del] dec_digits.simps [simp del]

declare split_acc.simps [simp del]

lemma split_acc_Nil [simp]: "split_acc sep cur [] = [cur]"
  by (simp add: split_acc.simps)

lemma split_acc_not_Nil [simp]: "split_acc sep cur s \<noteq> []"
  by (induction sep cur s rule: split_acc.induct) (simp_all add: split_acc.simps)

lemma split_acc_at_sep:
  "sep \<noteq> [] \<Longrightarrow> split_acc sep cur (sep @ r) = cur # split_acc sep [] r"
  by (cases sep) (simp_all add: split_acc.simps)

lemma split_acc_skip:
  "(\<forall>k < length w. \<not> prefix sep (drop k w @ r)) \<Longrightarrow>
   split_acc sep cur (w @ r) = split_acc sep (cur @ w) r"
proof (induction w arbitrary: cur)
  case Nil
  then show ?case by simp
next
  case (Cons c w)
  from Cons.prems have "\<not> prefix sep (c # w @ r)" by (metis drop0 length_Cons zero_less_Suc append_Cons)
  moreover from Cons.prems have "\<forall>k < length w. \<not> prefix sep (drop k w @ r)" by fastforce
  ultimately show ?case using Cons.IH by (simp add: split_acc.simps)
qed

lemma split_acc_no_sublist:
  "\<not> sublist sep s \<Longrightarrow> split_acc sep cur s = [cur @ s]"
proof (induction s arbitrary: cur)
  case Nil
  then show ?case by simp
next
  case (Cons c s)
  from Cons.prems have "\<not> prefix sep (c # s)" by (metis sublist_Cons_right)
  moreover from Cons.prems have "\<not> sublist sep s" by (metis sublist_Cons_right)
  ultimately show ?case using Cons.IH by (simp add: split_acc.simps)
qed

lemma hd_split_acc:
  "r = [] \<or> (sep \<noteq> [] \<and> prefix sep r) \<Longrightarrow> hd (split_acc sep cur r) = cur"
  by (cases r) (auto simp: split_acc.simps)

lemma no_match_single:
  "c \<notin> set w \<Longrightarrow> \<forall>k < length w. \<not> prefix [c] (drop k w @ r)"
  by (auto simp: Cons_nth_drop_Suc [symmetric] dest: nth_mem)

lemma no_match_pair:
  assumes "x \<noteq> y" and "\<not> sublist [x, y] w"
  shows "\<forall>k < length w. \<not> prefix [x, y] (drop k w @ x # r)"
proof (intro allI impI notI)
  fix k assume k: "k < length w" and p: "prefix [x, y] (drop k w @ x # r)"
  show False
  proof (cases "Suc k < length w")
    case True
    with p have "w ! k = x" "w ! Suc k = y"
      by (auto simp: Cons_nth_drop_Suc [symmetric])
    then have "sublist [x, y] w"
      using True by (metis Cons_nth_drop_Suc Suc_lessD append_Cons append_Nil
          append_take_drop_id sublist_appendI)
    with assms(2) show False ..
  next
    case False
    with k have "drop k w = [w ! k]"
      by (metis Cons_nth_drop_Suc drop_all leI)
    with p assms(1) show False by simp
  qed
qed


lemma last_split_acc_pair:
  assumes "x \<noteq> y" and "\<not> sublist [x, y] q"
  shows "last (split_acc [x, y] cur (p @ x # y # q)) = q"
  using assms
proof (induction "length p" arbitrary: p cur rule: less_induct)
  case less
  show ?case
  proof (cases p)
    case Nil
    with less.prems show ?thesis
      by (simp add: split_acc.simps split_acc_no_sublist)
  next
    case (Cons c p')
    show ?thesis
    proof (cases "prefix [x, y] (p @ x # y # q)")
      case True
      with Cons less.prems(1) obtain p'' where p: "p = x # y # p''"
        by (cases p') auto
      then have "split_acc [x, y] cur (p @ x # y # q) = cur # split_acc [x, y] [] (p'' @ x # y # q)"
        by (simp add: split_acc.simps)
      then show ?thesis
        using less p by simp
    next
      case False
      with Cons have nc: "\<not> ([x, y] \<noteq> [] \<and> prefix [x, y] (c # (p' @ x # y # q)))"
        by simp
      have "split_acc [x, y] cur (c # (p' @ x # y # q)) = split_acc [x, y] (cur @ [c]) (p' @ x # y # q)"
        using nc by (simp only: split_acc.simps(2) if_False)
      then show ?thesis
        using less Cons by simp
    qed
  qed
qed

lemma ws_acc_word:
  "\<forall>c \<in> set w. \<not> py_space c \<Longrightarrow> ws_acc cur (w @ r) = ws_acc (cur @ w) r"
  by (induction w arbitrary: cur) simp_all

lemma hd_ws_acc:
  "cur \<noteq> [] \<Longrightarrow> r = [] \<or> py_space (hd r) \<Longrightarrow> ws_acc cur r \<noteq> [] \<and> hd (ws_acc cur r) = cur"
  by (cases r) auto

lemma py_strip_id:
  assumes "\<forall>c \<in> set s. \<not> py_space c"
  shows "py_strip s = s"
proof -
  have "dropWhile py_space s = s"
    using assms by (cases s) simp_all
  moreover have "dropWhile py_space (rev s) = rev s"
    using assms by (auto simp: dropWhile_eq_self_iff hd_rev)
  ultimately show ?thesis by (simp add: py_strip_def)
qed

lemma hex_digit_val_underscore [simp]: "hex_digit_val CHR ''_'' = None"
  by (simp add: hex_digit_val_def)

lemma hex_groups_digits:
  "\<forall>c \<in> set ds. hex_digit_val c \<noteq> None \<Longrightarrow>
   hex_groups acc ds = Some (foldl (\<lambda>a c. 16 * a + case_option 0 id (hex_digit_val c)) acc ds)"
proof (induction ds arbitrary: acc)
  case Nil
  then show ?case by simp
next
  case (Cons c ds)
  then obtain v where "hex_digit_val c = Some v" by auto
  moreover from this have "c \<noteq> CHR ''_''" by auto
  ultimately show ?case using Cons by simp
qed

lemma hex_body_text: "hex_text ds \<Longrightarrow> hex_body ds = Some (hex_val ds)"
  by (cases ds) (auto simp: hex_text_def hex_val_def hex_body_def hex_groups_digits split: option.split)


lemma hex_digit_not_space: "hex_digit_val c \<noteq> None \<Longrightarrow> \<not> py_space c"
  by (auto simp: hex_digit_val_def py_space_def Let_def split: if_splits)

lemma hex_char_val: "d < 16 \<Longrightarrow> hex_digit_val (hex_char d) = Some d"
proof -
  have "\<forall>d < 16. hex_digit_val (hex_char d) = Some d"
    by code_simp
  then show "d < 16 \<Longrightarrow> hex_digit_val (hex_char d) = Some d" by blast
qed

lemma hex_digits_bound: "d \<in> set (hex_digits n) \<Longrightarrow> d < 16"
proof (induction n rule: hex_digits.induct)
  case (1 n)
  then show ?case
    by (cases "n < 16") (auto simp: hex_digits.simps [of n])
qed

lemma hex_digits_not_Nil: "hex_digits n \<noteq> []"
  by (simp add: hex_digits.simps [of n])

lemma horner_hex_digits: "foldl (\<lambda>a d. 16 * a + d) 0 (hex_digits n) = n"
proof (induction n rule: hex_digits.induct)
  case (1 n)
  then show ?case
    by (cases "n < 16") (simp_all add: hex_digits.simps [of n])
qed

lemma hex_val_map_hex_char:
  "\<forall>d \<in> set ds. d < 16 \<Longrightarrow>
   foldl (\<lambda>a c. 16 * a + case_option 0 id (hex_digit_val c)) acc (map hex_char ds) =
   foldl (\<lambda>a d. 16 * a + d) acc ds"
  by (induction ds arbitrary: acc) (simp_all add: hex_char_val)

lemma hex_text_hex_str: "hex_text (hex_str n)"
  by (auto simp: hex_text_def hex_str_def hex_digits_not_Nil hex_char_val hex_digits_bound)

lemma hex_val_hex_str: "hex_val (hex_str n) = n"
  by (simp add: hex_val_def hex_str_def hex_val_map_hex_char hex_digits_bound horner_hex_digits)

lemma hex_val_append: "hex_val (ds @ es) = foldl (\<lambda>a c. 16 * a + case_option 0 id (hex_digit_val c)) (hex_val ds) es"
  by (simp add: hex_val_def)

lemma hex_text_not_underscore: "hex_text ds \<Longrightarrow> \<not> prefix ''_'' ds"
  by (cases ds) (auto simp: hex_text_def)

lemma hex_text_no_space: "hex_text ds \<Longrightarrow> \<forall>c \<in> set ds. \<not> py_space c"
  by (auto simp: hex_text_def hex_digit_not_space)

lemma py_int16_0x:
  assumes "hex_text ds"
  shows "py_int16 (''0x'' @ ds) = Inr (int (hex_val ds))"
proof -
  have "py_strip (''0x'' @ ds) = ''0x'' @ ds"
    using hex_text_no_space [OF assms] by (intro py_strip_id) (simp add: py_space_def)
  with assms show ?thesis
    by (simp add: py_int16_def hex_body_text hex_text_not_underscore)
qed


lemma py_int16_neg0x:
  assumes "hex_text ds"
  shows "py_int16 (''-0x'' @ ds) = Inr (- int (hex_val ds))"
proof -
  have "py_strip (''-0x'' @ ds) = ''-0x'' @ ds"
    using hex_text_no_space [OF assms] by (intro py_strip_id) (simp add: py_space_def)
  with assms show ?thesis
    by (simp add: py_int16_def hex_body_text hex_text_not_underscore)
qed

lemma hex_text_append: "hex_text ds \<Longrightarrow> hex_text es \<Longrightarrow> hex_text (ds @ es)"
  by (auto simp: hex_text_def)

lemma hex_val_shift16: "hex_val (ds @ ''0000'') = hex_val ds * 65536"
  by (simp add: hex_val_append hex_digit_val_def)

lemma py_int16_0x_shift16:
  "hex_text ds \<Longrightarrow> py_int16 (''0x'' @ ds @ ''0000'') = Inr (int (hex_val ds) * 65536)"
proof -
  assume ds: "hex_text ds"
  have "hex_text (ds @ ''0000'')"
    using ds by (intro hex_text_append) (simp_all add: hex_text_def hex_digit_val_def)
  then show ?thesis
    using py_int16_0x [of "ds @ ''0000''"] by (simp add: hex_val_shift16)
qed

theorem py_int16_py_hex: "py_int16 (py_hex i) = Inr i"
proof (cases "i < 0")
  case True
  then show ?thesis
    using py_int16_neg0x [OF hex_text_hex_str [of "nat (- i)"]]
    by (simp add: py_hex_def hex_val_hex_str)
next
  case False
  then show ?thesis
    using py_int16_0x [OF hex_text_hex_str [of "nat i"]]
    by (simp add: py_hex_def hex_val_hex_str)
qed

lemma hd_py_split_char:
  assumes "c \<notin> set w" and "t = [] \<or> hd t = c"
  shows "hd (py_split [c] (w @ t)) = w"
proof -
  have "split_acc [c] [] (w @ t) = split_acc [c] w t"
    using no_match_single [OF assms(1), of t] by (simp add: split_acc_skip)
  moreover have "hd (split_acc [c] w t) = w"
    using assms(2) by (intro hd_split_acc) (cases t; auto)
  ultimately show ?thesis by (simp add: py_split_def)
qed

lemma py_strip_lead:
  assumes "\<forall>c \<in> set ws. py_space c" and "\<forall>c \<in> set s. \<not> py_space c"
  shows "py_strip (ws @ s) = s"
proof -
  have "dropWhile py_space (ws @ s) = dropWhile py_space s"
    using assms(1) by (induction ws) simp_all
  moreover have "py_strip s = s" using assms(2) by (rule py_strip_id)
  ultimately show ?thesis by (simp add: py_strip_def)
qed

section \<open>join after split\<close>

lemma py_join_Cons: "ys \<noteq> [] \<Longrightarrow> py_join sep (x # ys) = x @ sep @ py_join sep ys"
  by (cases ys) simp_all

lemma py_join_split_acc: "sep \<noteq> [] \<Longrightarrow> py_join sep (split_acc sep cur s) = cur @ s"
proof (induction sep cur s rule: split_acc.induct)
  case (1 sep cur)
  then show ?case by simp
next
  case (2 sep cur c cs)
  show ?case
  proof (cases "prefix sep (c # cs)")
    case True
    then have "c # cs = sep @ drop (length sep) (c # cs)"
      by (metis append_take_drop_id prefix_def take_append append_eq_conv_conj)
    with True 2 show ?thesis
      by (simp add: split_acc.simps [of sep cur] py_join_Cons)
  next
    case False
    with 2 show ?thesis by (simp add: split_acc.simps [of sep cur])
  qed
qed

text \<open>\<open>sep.join(s.split(sep)) == s\<close>.\<close>

lemma py_join_py_split [simp]: "sep \<noteq> [] \<Longrightarrow> py_join sep (py_split sep s) = s"
  by (simp add: py_split_def py_join_split_acc)

lemma py_join_append:
  "xs \<noteq> [] \<Longrightarrow> ys \<noteq> [] \<Longrightarrow> py_join sep (xs @ ys) = py_join sep xs @ sep @ py_join sep ys"
  by (induction sep xs rule: py_join.induct) (simp_all add: py_join_Cons)

lemma py_split_not_Nil [simp]: "py_split sep s \<noteq> []"
  by (simp add: py_split_def)

lemma split_acc_py_join_char:
  "\<forall>l \<in> set ls. c \<notin> set l \<Longrightarrow> ls \<noteq> [] \<Longrightarrow>
   split_acc [c] cur (py_join [c] ls) = (cur @ hd ls) # tl ls"
proof (induction "[c]" ls arbitrary: cur rule: py_join.induct)
  case (2 x)
  then have "\<not> sublist [c] x" by (auto simp: sublist_def)
  then show ?case by (simp add: split_acc_no_sublist)
next
  case (3 x y ys)
  have "split_acc [c] cur (x @ [c] @ py_join [c] (y # ys)) = split_acc [c] (cur @ x) ([c] @ py_join [c] (y # ys))"
    using no_match_single [of c x] "3.prems"(1) by (simp add: split_acc_skip)
  also have "\<dots> = (cur @ x) # split_acc [c] [] (py_join [c] (y # ys))"
    by (rule split_acc_at_sep) simp
  finally show ?case using "3.hyps" [of "[]"] "3.prems"(1) by simp
qed simp

text \<open>\<open>sep.join(parts).split(sep) == parts\<close> for a one-character separator that no part
  contains.\<close>

lemma py_split_py_join_char:
  "\<forall>l \<in> set ls. c \<notin> set l \<Longrightarrow> ls \<noteq> [] \<Longrightarrow> py_split [c] (py_join [c] ls) = ls"
  by (simp add: py_split_def split_acc_py_join_char)

lemma py_join_Nil_sep: "py_join [] xs = concat xs"
  by (induction "[] :: 'a list" xs rule: py_join.induct) simp_all

lemma py_join_map_filter:
  "\<forall>y \<in> set sep. P y \<Longrightarrow> py_join sep (map (filter P) xs) = filter P (py_join sep xs)"
  by (induction sep xs rule: py_join.induct) simp_all

lemma concat_split_acc_single:
  "concat (split_acc [x] cur s) = cur @ filter (\<lambda>y. y \<noteq> x) s"
  by (induction "[x]" cur s rule: split_acc.induct) (auto simp: split_acc.simps [of "[x]"])

text \<open>\<open>s.replace(x, "")\<close> for a one-element \<open>x\<close> deletes its occurrences.\<close>

lemma py_replace_delete: "py_replace [x] [] s = filter (\<lambda>y. y \<noteq> x) s"
  by (simp add: py_replace_def py_join_Nil_sep py_split_def concat_split_acc_single)

lemma split_acc_single_free:
  "x \<notin> set cur \<Longrightarrow> p \<in> set (split_acc [x] cur s) \<Longrightarrow> x \<notin> set p"
  by (induction "[x]" cur s rule: split_acc.induct) (auto simp: split_acc.simps [of "[x]"] split: if_splits)

end
