(* ===== verification/Disasm.thy ===== *)
theory Disasm
  imports PyStr
begin

text \<open>
  The Address Reconstructor (\<open>src/order_bss.py\<close> lines 10-39 and 69-91, and its copy in
  \<open>src/order_data.py\<close> lines 7-23 and 26-69). The disassembler \<open>mipsdisasm\<close> is
  an oracle: \<open>D rom arg\<close> is its standard output for the ROM image \<open>rom\<close> and the range
  argument \<open>arg\<close>. From the disassembly of the \<open>%hi\<close> instruction and of the \<open>%lo\<close>
  instruction the scripts read the two immediates as text and add them as Python integers.
\<close>

datatype rom = BaseRom | BuiltRom

type_synonym disasm = "rom \<Rightarrow> string \<Rightarrow> string"

section \<open>Reading one instruction\<close>

text \<open>\<open>get_asm_line\<close>: the last line of \<open>mipsdisasm -p ROM 0x80200000:OFFSET+0x4\<close>.\<close>

definition get_asm_line :: "disasm \<Rightarrow> rom \<Rightarrow> string \<Rightarrow> string" where
  "get_asm_line D rom offset =
     last (py_split ''\<newline>'' (py_strip (D rom (''0x80200000:'' @ offset @ ''+0x4''))))"

definition get_baserom_asm_line :: "disasm \<Rightarrow> string \<Rightarrow> string" where
  "get_baserom_asm_line D offset = get_asm_line D BaseRom offset"

definition get_builtrom_asm_line :: "disasm \<Rightarrow> string \<Rightarrow> string" where
  "get_builtrom_asm_line D offset = get_asm_line D BuiltRom offset"

text \<open>\<open>order_data.py\<close> has its own copy, inlined, for the base ROM only.\<close>

definition get_baserom_asm_line_data :: "disasm \<Rightarrow> string \<Rightarrow> string" where
  "get_baserom_asm_line_data D offset =
     last (py_split ''\<newline>'' (py_strip (D BaseRom (''0x80200000:'' @ offset @ ''+0x4''))))"

section \<open>The two immediates and their sum\<close>

text \<open>\<open>hex(int(file_rom_start, 16) + int(offset, 16))\<close>: where the instruction is in the ROM.\<close>

definition rom_address :: "string \<Rightarrow> string \<Rightarrow> string result" where
  "rom_address file_rom_start offset =
     ebind (py_int16 file_rom_start) (\<lambda>s. ebind (py_int16 offset) (\<lambda>off. Inr (py_hex (s + off))))"

text \<open>\<open>"0x" + line.split("0x")[-1].split()[0]\<close>: the text after the last \<open>0x\<close>.\<close>

definition hi_operand :: "string \<Rightarrow> string result" where
  "hi_operand line =
     ebind (py_index (py_split_ws (last (py_split ''0x'' line))) 0) (\<lambda>w. Inr (''0x'' @ w))"

text \<open>
  \<open>thing = line.split("0x")\<close>; \<open>negate = thing[0][-1] == "-"\<close>;
  \<open>("-" if negate else "") + "0x" + thing[-1].split()[0].split("(")[0]\<close>.
\<close>

definition lo_operand :: "string \<Rightarrow> string result" where
  "lo_operand line = (let thing = py_split ''0x'' line in
     ebind (py_last (hd thing)) (\<lambda>c. let negate = (c = CHR ''-'') in
     ebind (py_index (py_split_ws (last thing)) 0) (\<lambda>w.
     Inr ((if negate then ''-'' else '''') @ ''0x'' @ hd (py_split ''('' w)))))"

text \<open>\<open>hex(int(real_hi_offset + "0000", 16) + int(real_lo_offset, 16))\<close>.\<close>

definition ram_addr_of :: "string \<Rightarrow> string \<Rightarrow> string result" where
  "ram_addr_of real_hi real_lo =
     ebind (py_int16 (real_hi @ ''0000'')) (\<lambda>h. ebind (py_int16 real_lo) (\<lambda>l. Inr (py_hex (h + l))))"

text \<open>One pass of the \<open>for rom_func in (...)\<close> loop of \<open>get_real_ram_addrs\<close>.\<close>

definition real_ram_addr :: "disasm \<Rightarrow> rom \<Rightarrow> string \<Rightarrow> string \<Rightarrow> string \<Rightarrow> string result" where
  "real_ram_addr D rom file_rom_start hi_offset lo_offset =
     ebind (rom_address file_rom_start hi_offset) (\<lambda>hi_asm_line.
     ebind (hi_operand (get_asm_line D rom hi_asm_line)) (\<lambda>real_hi.
     ebind (rom_address file_rom_start lo_offset) (\<lambda>lo_asm_line.
     ebind (lo_operand (get_asm_line D rom lo_asm_line)) (\<lambda>real_lo.
     ram_addr_of real_hi real_lo))))"

section \<open>What the instruction pair computes\<close>

text \<open>
  The abstract specification: on the MIPS R4300, \<open>lui r, hi\<close> followed by an instruction
  with a sign-extended 16-bit immediate \<open>lo\<close> (\<open>addiu\<close>, loads and stores) addresses
  \<open>(hi << 16) + sext(lo)\<close> modulo \<open>2^32\<close>.
\<close>

definition lui_addiu :: "16 word \<Rightarrow> 16 word \<Rightarrow> 32 word" where
  "lui_addiu hi lo = push_bit 16 (ucast hi) + scast lo"

section \<open>Lemmas\<close>

lemma hd_ws_acc_take:
  "cur \<noteq> [] \<Longrightarrow> ws_acc cur r \<noteq> [] \<and> hd (ws_acc cur r) = cur @ takeWhile (\<lambda>c. \<not> py_space c) r"
  by (induction r arbitrary: cur) auto

lemma py_split_ws_word:
  assumes "w \<noteq> []" and "\<forall>c \<in> set w. \<not> py_space c"
  shows "py_index (py_split_ws (w @ r)) 0 = Inr (w @ takeWhile (\<lambda>c. \<not> py_space c) r)"
proof -
  have "py_split_ws (w @ r) = ws_acc w r"
    using assms(2) by (simp add: py_split_ws_def ws_acc_word)
  with hd_ws_acc_take [of w r] assms(1) show ?thesis
    by (cases "ws_acc w r") simp_all
qed



lemma hex_text_no_char:
  "hex_text ds \<Longrightarrow> hex_digit_val c = None \<Longrightarrow> c \<notin> set ds"
  by (auto simp: hex_text_def)

lemma no_0x_after_hex:
  assumes ds: "hex_text ds" and sfx: "sfx = [] \<or> hd sfx \<noteq> CHR ''x''"
    and no: "\<not> sublist ''0x'' sfx"
  shows "\<not> sublist ''0x'' (ds @ sfx)"
proof
  assume "sublist ''0x'' (ds @ sfx)"
  moreover have "\<not> sublist ''0x'' ds"
  proof
    assume "sublist ''0x'' ds"
    then have "CHR ''x'' \<in> set ds" using set_mono_sublist by fastforce
    with ds show False by (simp add: hex_text_no_char hex_digit_val_def)
  qed
  moreover have "\<not> (suffix ''0'' ds \<and> prefix ''x'' sfx)"
    using sfx by (cases sfx) auto
  moreover have "\<not> suffix ''0x'' ds"
    using \<open>\<not> sublist ''0x'' ds\<close> suffix_imp_sublist by blast
  ultimately show False
    using no by (auto simp: sublist_append Cons_eq_append_conv append_eq_Cons_conv)
qed

lemma py_split_0x_two:
  assumes "\<not> sublist ''0x'' p" and "\<not> sublist ''0x'' q"
  shows "py_split ''0x'' (p @ ''0x'' @ q) = [p, q]"
proof -
  have "split_acc ''0x'' [] (p @ ''0x'' @ q) = split_acc ''0x'' p (''0x'' @ q)"
    using no_match_pair [of "CHR ''0''" "CHR ''x''" p "CHR ''x'' # q"] assms(1)
    by (simp add: split_acc_skip)
  also have "\<dots> = p # split_acc ''0x'' [] q"
    by (rule split_acc_at_sep) simp
  finally show ?thesis
    using assms(2) by (simp add: py_split_def split_acc_no_sublist)
qed

lemma last_py_split_0x:
  "\<not> sublist ''0x'' q \<Longrightarrow> last (py_split ''0x'' (p @ ''0x'' @ q)) = q"
  using last_split_acc_pair [of "CHR ''0''" "CHR ''x''" q "[]" p] by (simp add: py_split_def)

lemma takeWhile_not_space:
  "sfx = [] \<or> py_space (hd sfx) \<Longrightarrow> takeWhile (\<lambda>c. \<not> py_space c) sfx = []"
  by (cases sfx) auto

lemma hi_operand_shape:
  assumes ds: "hex_text ds" and sfx: "sfx = [] \<or> py_space (hd sfx)"
    and no: "\<not> sublist ''0x'' sfx"
  shows "hi_operand (p @ ''0x'' @ ds @ sfx) = Inr (''0x'' @ ds)"
proof -
  have h: "sfx = [] \<or> hd sfx \<noteq> CHR ''x''" using sfx by (auto simp: py_space_def)
  have "\<not> sublist ''0x'' (ds @ sfx)" using no_0x_after_hex [OF ds h no] .
  then have "last (py_split ''0x'' (p @ ''0x'' @ ds @ sfx)) = ds @ sfx"
    by (rule last_py_split_0x)
  moreover have "py_index (py_split_ws (ds @ sfx)) 0 = Inr ds"
    using py_split_ws_word [of ds sfx] ds sfx
    by (simp add: hex_text_no_space takeWhile_not_space) (simp add: hex_text_def)
  ultimately show ?thesis by (simp add: hi_operand_def)
qed


lemma hd_py_split_paren:
  "CHR ''('' \<notin> set w \<Longrightarrow> t = [] \<or> hd t = CHR ''('' \<Longrightarrow> hd (py_split ''('' (w @ t)) = w"
  by (rule hd_py_split_char)

lemma takeWhile_paren:
  "sfx = [] \<or> py_space (hd sfx) \<or> hd sfx = CHR ''('' \<Longrightarrow>
   takeWhile (\<lambda>c. \<not> py_space c) sfx = [] \<or> hd (takeWhile (\<lambda>c. \<not> py_space c) sfx) = CHR ''(''"
  by (cases sfx) (auto simp: py_space_def)

lemma lo_operand_shape:
  assumes ds: "hex_text ds" and p: "p \<noteq> []" "\<not> sublist ''0x'' p"
    and sfx: "sfx = [] \<or> py_space (hd sfx) \<or> hd sfx = CHR ''(''"
    and no: "\<not> sublist ''0x'' sfx"
  shows "lo_operand (p @ ''0x'' @ ds @ sfx) =
         Inr ((if last p = CHR ''-'' then ''-'' else '''') @ ''0x'' @ ds)"
proof -
  have h: "sfx = [] \<or> hd sfx \<noteq> CHR ''x''" using sfx by (auto simp: py_space_def)
  have "\<not> sublist ''0x'' (ds @ sfx)" using no_0x_after_hex [OF ds h no] .
  with p have thing: "py_split ''0x'' (p @ ''0x'' @ ds @ sfx) = [p, ds @ sfx]"
    using py_split_0x_two [of p "ds @ sfx"] by simp
  let ?t = "takeWhile (\<lambda>c. \<not> py_space c) sfx"
  have w: "py_index (py_split_ws (ds @ sfx)) 0 = Inr (ds @ ?t)"
    using py_split_ws_word [of ds sfx] ds by (simp add: hex_text_no_space) (simp add: hex_text_def)
  have "CHR ''('' \<notin> set ds" using ds by (simp add: hex_text_no_char hex_digit_val_def)
  then have "hd (py_split ''('' (ds @ ?t)) = ds"
    using takeWhile_paren [OF sfx] by (rule hd_py_split_paren)
  with thing w p show ?thesis
    by (simp add: lo_operand_def Let_def py_last_def)
qed


lemma ram_addr_of_shape:
  assumes "hex_text H" and "hex_text L"
  shows "ram_addr_of (''0x'' @ H) ((if neg then ''-'' else '''') @ ''0x'' @ L) =
         Inr (py_hex (int (hex_val H) * 65536 + (if neg then - int (hex_val L) else int (hex_val L))))"
  using assms py_int16_0x_shift16 [OF assms(1)] py_int16_0x [OF assms(2)] py_int16_neg0x [OF assms(2)]
  by (simp add: ram_addr_of_def)

text \<open>
  Claim C1. For one ROM image, when the disassembly of the \<open>%hi\<close> instruction ends in
  \<open>0x\<close>, a string \<open>H\<close> of hex digits and a blank-led tail, and the disassembly of the
  \<open>%lo\<close> instruction has its only \<open>0x\<close> right before the digits \<open>L\<close>, optionally
  preceded by a minus sign and followed by a blank or \<open>(base)\<close>, the reconstructed
  address is \<open>hex((int(H,16) << 16) + signed(L))\<close>.
\<close>

theorem real_ram_addr_reconstructs:
  assumes offs: "py_int16 file_rom_start = Inr s" "py_int16 hi_offset = Inr h"
      "py_int16 lo_offset = Inr l"
    and hi_line: "get_asm_line D rom (py_hex (s + h)) = hp @ ''0x'' @ H @ hs"
    and H: "hex_text H" "hs = [] \<or> py_space (hd hs)" "\<not> sublist ''0x'' hs"
    and lo_line: "get_asm_line D rom (py_hex (s + l)) = lp @ ''0x'' @ L @ ls"
    and L: "hex_text L" "lp \<noteq> []" "\<not> sublist ''0x'' lp"
      "ls = [] \<or> py_space (hd ls) \<or> hd ls = CHR ''(''" "\<not> sublist ''0x'' ls"
  shows "real_ram_addr D rom file_rom_start hi_offset lo_offset =
         Inr (py_hex (int (hex_val H) * 65536 +
              (if last lp = CHR ''-'' then - int (hex_val L) else int (hex_val L))))"
proof -
  have "hi_operand (get_asm_line D rom (py_hex (s + h))) = Inr (''0x'' @ H)"
    using hi_line hi_operand_shape [OF H] by simp
  moreover have "lo_operand (get_asm_line D rom (py_hex (s + l))) =
      Inr ((if last lp = CHR ''-'' then ''-'' else '''') @ ''0x'' @ L)"
    using lo_line lo_operand_shape [OF L(1-5)] by simp
  ultimately show ?thesis
    using offs ram_addr_of_shape [OF H(1) L(1)]
    by (simp add: real_ram_addr_def rom_address_def)
qed

lemma word_hi_lo:
  "(word_of_int (uint hi * 65536 + sint lo) :: 32 word) = push_bit 16 (ucast (hi :: 16 word)) + scast (lo :: 16 word)"
proof -
  have "(scast lo :: 32 word) = word_of_int (sint lo)" by (rule scast_eq)
  moreover have "(ucast hi :: 32 word) = word_of_int (uint hi)" by (rule ucast_eq)
  ultimately show ?thesis by (simp only: push_bit_eq_mult of_int_add of_int_mult) simp
qed

lemma py_split_0x_three:
  assumes "\<not> sublist ''0x'' a" "\<not> sublist ''0x'' b" "\<not> sublist ''0x'' q"
  shows "py_split ''0x'' (a @ ''0x'' @ b @ ''0x'' @ q) = [a, b, q]"
proof -
  have "split_acc ''0x'' [] (a @ ''0x'' @ b @ ''0x'' @ q) = split_acc ''0x'' a (''0x'' @ b @ ''0x'' @ q)"
    using no_match_pair [of "CHR ''0''" "CHR ''x''" a "CHR ''x'' # b @ ''0x'' @ q"] assms(1)
    by (simp add: split_acc_skip)
  also have "\<dots> = a # split_acc ''0x'' [] (b @ ''0x'' @ q)"
    by (rule split_acc_at_sep) simp
  also have "split_acc ''0x'' [] (b @ ''0x'' @ q) = split_acc ''0x'' b (''0x'' @ q)"
    using no_match_pair [of "CHR ''0''" "CHR ''x''" b "CHR ''x'' # q"] assms(2)
    by (simp add: split_acc_skip)
  also have "\<dots> = b # split_acc ''0x'' [] q"
    by (rule split_acc_at_sep) simp
  finally show ?thesis
    using assms(3) by (simp add: py_split_def split_acc_no_sublist)
qed

text \<open>
  Claim C33. The sign of the \<open>%lo\<close> immediate is read from the character before the first
  \<open>0x\<close> of the line while the digits are read after the last one: with two markers on
  the line, the minus sign in front of the immediate is ignored.
\<close>

theorem lo_operand_sign_before_first_0x:
  assumes ds: "hex_text ds" and a: "a \<noteq> []" "\<not> sublist ''0x'' a" and b: "\<not> sublist ''0x'' b"
    and sfx: "sfx = [] \<or> py_space (hd sfx) \<or> hd sfx = CHR ''(''" "\<not> sublist ''0x'' sfx"
  shows "lo_operand (a @ ''0x'' @ b @ ''0x'' @ ds @ sfx) =
         Inr ((if last a = CHR ''-'' then ''-'' else '''') @ ''0x'' @ ds)"
proof -
  have h: "sfx = [] \<or> hd sfx \<noteq> CHR ''x''" using sfx(1) by (auto simp: py_space_def)
  have "\<not> sublist ''0x'' (ds @ sfx)" using no_0x_after_hex [OF ds h sfx(2)] .
  then have thing: "py_split ''0x'' (a @ ''0x'' @ b @ ''0x'' @ ds @ sfx) = [a, b, ds @ sfx]"
    using py_split_0x_three [OF a(2) b] by simp
  let ?t = "takeWhile (\<lambda>c. \<not> py_space c) sfx"
  have w: "py_index (py_split_ws (ds @ sfx)) 0 = Inr (ds @ ?t)"
    using py_split_ws_word [of ds sfx] ds by (simp add: hex_text_no_space) (simp add: hex_text_def)
  have "CHR ''('' \<notin> set ds" using ds by (simp add: hex_text_no_char hex_digit_val_def)
  then have "hd (py_split ''('' (ds @ ?t)) = ds"
    using takeWhile_paren [OF sfx(1)] by (rule hd_py_split_paren)
  with thing w a show ?thesis
    by (simp add: lo_operand_def Let_def py_last_def)
qed

text \<open>
  A \<open>%lo\<close> line that starts with \<open>0x\<close> makes \<open>thing[0][-1]\<close> raise
  \<open>IndexError\<close>.
\<close>

theorem lo_operand_leading_0x:
  "lo_operand (''0x'' @ q) = Inl IndexError"
proof -
  have "py_split ''0x'' (''0x'' @ q) = [] # py_split ''0x'' q"
    using split_acc_at_sep [of "''0x''" "[]" q] by (simp add: py_split_def)
  then show ?thesis by (simp add: lo_operand_def)
qed

text \<open>
  Claim C40. A \<open>%hi\<close> line whose last \<open>0x\<close> is followed only by blanks makes
  \<open>split()[0]\<close> raise \<open>IndexError\<close>.
\<close>

theorem hi_operand_blank_tail:
  assumes "\<forall>c \<in> set q. py_space c" and "\<not> sublist ''0x'' q"
  shows "hi_operand (p @ ''0x'' @ q) = Inl IndexError"
proof -
  have "py_split_ws q = []"
    using assms(1) unfolding py_split_ws_def by (induction q) auto
  moreover have "last (py_split ''0x'' (p @ ''0x'' @ q)) = q"
    by (rule last_py_split_0x [OF assms(2)])
  ultimately show ?thesis
    by (simp add: hi_operand_def)
qed



lemma ram_addr_of_hex_imms:
  "ram_addr_of (''0x'' @ hex_str (unat hi)) (py_hex (sint lo)) = Inr (py_hex (uint hi * 65536 + sint lo))"
proof (cases "sint lo < 0")
  case True
  then have "py_hex (sint lo) = (if True then ''-'' else '''') @ ''0x'' @ hex_str (nat (- sint lo))"
    by (simp add: py_hex_def)
  with True show ?thesis
    using ram_addr_of_shape [OF hex_text_hex_str hex_text_hex_str, of "unat hi" True "nat (- sint lo)"]
    by (simp add: hex_val_hex_str)
next
  case False
  then have "py_hex (sint lo) = (if False then ''-'' else '''') @ ''0x'' @ hex_str (nat (sint lo))"
    by (simp add: py_hex_def)
  with False show ?thesis
    using ram_addr_of_shape [OF hex_text_hex_str hex_text_hex_str, of "unat hi" False "nat (sint lo)"]
    by (simp add: hex_val_hex_str)
qed

text \<open>
  Claim C15. Adding the two immediates as Python integers never wraps: the sum lies in
  \<open>[-0x8000, 2^32)\<close> and is congruent modulo \<open>2^32\<close> to the address the MIPS pair
  computes, but it is negative exactly when the \<open>lui\<close> immediate is zero and the \<open>%lo\<close>
  immediate negative (a 32-bit machine would give \<open>2^32\<close> more).
\<close>

theorem ram_addr_of_bounds:
  "\<exists>a. ram_addr_of (''0x'' @ hex_str (unat hi)) (py_hex (sint lo)) = Inr (py_hex a) \<and>
       - 32768 \<le> a \<and> a < 4294967296 \<and> word_of_int a = lui_addiu hi lo \<and>
       (a < 0 \<longleftrightarrow> hi = 0 \<and> sint lo < 0)"
proof (intro exI conjI)
  show "ram_addr_of (''0x'' @ hex_str (unat hi)) (py_hex (sint lo)) = Inr (py_hex (uint hi * 65536 + sint lo))"
    by (rule ram_addr_of_hex_imms)
  have "0 \<le> uint hi" "uint hi < 65536" "- 32768 \<le> sint lo" "sint lo < 32768"
    using uint_lt2p [of hi] sint_ge [of lo] sint_lt [of lo] by simp_all
  then show "- 32768 \<le> uint hi * 65536 + sint lo" "uint hi * 65536 + sint lo < 4294967296"
    by linarith+
  show "word_of_int (uint hi * 65536 + sint lo) = lui_addiu hi lo"
    unfolding lui_addiu_def by (rule word_hi_lo)
  show "uint hi * 65536 + sint lo < 0 \<longleftrightarrow> hi = 0 \<and> sint lo < 0"
  proof (cases "hi = 0")
    case False
    then have "uint hi \<noteq> 0" by (simp add: uint_0_iff)
    then have "1 \<le> uint hi" using \<open>0 \<le> uint hi\<close> by linarith
    then show ?thesis using False \<open>- 32768 \<le> sint lo\<close> by simp
  qed simp
qed

section \<open>Witnesses\<close>

theorem real_ram_addr_reconstructs_witness:
  "real_ram_addr (\<lambda>rom arg. if arg = ''0x80200000:0x1010+0x4'' then ''  lui   $at, 0x8034\<newline>''
                  else ''lw    $t6, -0x10($at)'') BaseRom ''0x1000'' ''0x10'' ''0x14'' = Inr ''0x8033fff0''"
proof -
  let ?D = "\<lambda>rom arg. if arg = ''0x80200000:0x1010+0x4'' then ''  lui   $at, 0x8034\<newline>''
                     else ''lw    $t6, -0x10($at)''"
  have o: "py_int16 ''0x1000'' = Inr 4096" "py_int16 ''0x10'' = Inr 16" "py_int16 ''0x14'' = Inr 20"
    by code_simp+
  have hi: "get_asm_line ?D BaseRom (py_hex (4096 + 16)) = ''lui   $at, '' @ ''0x'' @ ''8034'' @ ''''"
    by code_simp
  have lo: "get_asm_line ?D BaseRom (py_hex (4096 + 20)) = ''lw    $t6, -'' @ ''0x'' @ ''10'' @ ''($at)''"
    by code_simp
  have t: "hex_text ''8034''" "hex_text ''10''" by code_simp+
  have "real_ram_addr ?D BaseRom ''0x1000'' ''0x10'' ''0x14'' =
        Inr (py_hex (int (hex_val ''8034'') * 65536 +
             (if last ''lw    $t6, -'' = CHR ''-'' then - int (hex_val ''10'') else int (hex_val ''10''))))"
    by (rule real_ram_addr_reconstructs [OF o hi t(1) _ _ lo t(2)]) code_simp+
  also have "\<dots> = Inr ''0x8033fff0''" by code_simp
  finally show ?thesis .
qed

theorem ram_addr_of_bounds_witness:
  "\<exists>a. ram_addr_of ''0x0'' ''-0x10'' = Inr (py_hex a) \<and> a < 0"
proof -
  obtain a where a: "ram_addr_of (''0x'' @ hex_str (unat (0 :: 16 word))) (py_hex (sint (0xfff0 :: 16 word)))
      = Inr (py_hex a)" and n: "a < 0 \<longleftrightarrow> (0 :: 16 word) = 0 \<and> sint (0xfff0 :: 16 word) < 0"
    using ram_addr_of_bounds [of 0 "0xfff0"] by blast
  have "''0x'' @ hex_str (unat (0 :: 16 word)) = ''0x0''"
    "py_hex (sint (0xfff0 :: 16 word)) = ''-0x10''" "sint (0xfff0 :: 16 word) < 0" by code_simp+
  with a n show ?thesis by auto
qed

theorem lo_operand_sign_before_first_0x_witness:
  "lo_operand ''/* 0x4 */ addiu $a0, $a0, -0x10'' = Inr ''0x10''"
proof -
  have "lo_operand (''/* '' @ ''0x'' @ ''4 */ addiu $a0, $a0, -'' @ ''0x'' @ ''10'' @ '''') =
        Inr ((if last ''/* '' = CHR ''-'' then ''-'' else '''') @ ''0x'' @ ''10'')"
    by (rule lo_operand_sign_before_first_0x) code_simp+
  then show ?thesis by simp
qed

theorem hi_operand_blank_tail_witness:
  "hi_operand ''lui $at, 0x  '' = Inl IndexError"
proof -
  have "hi_operand (''lui $at, '' @ ''0x'' @ ''  '') = Inl IndexError"
    by (rule hi_operand_blank_tail) code_simp+
  then show ?thesis by simp
qed

end
