(* ===== verification/Reloc.thy ===== *)
theory Reloc
  imports Disasm "HOL-Library.Multiset"
begin

text \<open>
  The Relocation Locator (\<open>src/order_bss.py\<close> lines 42-67 and 93, \<open>src/order_data.py\<close>
  lines 26-51 and 53-69). \<open>mips-linux-gnu-objdump -rd\<close> is an oracle: \<open>OD o_file\<close> is
  its standard output. The scan keeps, for the symbol, the offset of the last
  \<open>R_MIPS_HI16\<close> line and of the last \<open>R_MIPS_LO16\<close> line that mention it; a line that
  mentions it with neither tag raises. The pair is then handed to the Address
  Reconstructor for both ROM images (\<open>get_real_ram_addrs\<close>) or for the base ROM only
  (\<open>get_real_ram_addr\<close> of \<open>order_data.py\<close>, which also prints \<open>"... is gone"\<close>).
\<close>

type_synonym objdump = "string \<Rightarrow> string"

section \<open>The scan\<close>

text \<open>\<open>line.split(":")[0].strip()\<close>: the offset field of a relocation line.\<close>

definition reloc_offset :: "string \<Rightarrow> string" where
  "reloc_offset line = py_strip (hd (py_split '':'' line))"

text \<open>The \<open>for line in objdump_output\<close> loop; the pair is \<open>(hi_offset, lo_offset)\<close>.\<close>

fun scan_relocs :: "string \<Rightarrow> string list \<Rightarrow> string \<times> string \<Rightarrow> (string \<times> string) result" where
  "scan_relocs symbol [] acc = Inr acc"
| "scan_relocs symbol (line # lines) (hi, lo) =
     (if sublist symbol line then
        (if sublist ''R_MIPS_HI16'' line then scan_relocs symbol lines (reloc_offset line, lo)
         else if sublist ''R_MIPS_LO16'' line then scan_relocs symbol lines (hi, reloc_offset line)
         else Inl (UnsureReloc symbol line))
      else scan_relocs symbol lines (hi, lo))"

text \<open>Lines 53-67: the scan and the checks after it.\<close>

definition find_hi_lo :: "string \<Rightarrow> string list \<Rightarrow> (string \<times> string) option result" where
  "find_hi_lo symbol lines =
     ebind (scan_relocs symbol lines ('''', '''')) (\<lambda>(hi, lo).
       if hi = [] \<and> lo = [] then Inr None
       else if hi = [] \<or> lo = [] then Inl RelocShape
       else Inr (Some (hi, lo)))"

definition objdump_lines :: "objdump \<Rightarrow> string \<Rightarrow> string list" where
  "objdump_lines OD o_file = py_split ''\<newline>'' (OD o_file)"

section \<open>Both ROMs (order_bss) and the base ROM (order_data)\<close>

definition get_real_ram_addrs ::
  "objdump \<Rightarrow> disasm \<Rightarrow> string \<Rightarrow> string \<Rightarrow> string \<Rightarrow> (string \<times> string) option result" where
  "get_real_ram_addrs OD D symbol o_file file_rom_start =
     ebind (find_hi_lo symbol (objdump_lines OD o_file)) (\<lambda>r. case r of
        None \<Rightarrow> Inr None
      | Some (hi_offset, lo_offset) \<Rightarrow>
          ebind (real_ram_addr D BaseRom file_rom_start hi_offset lo_offset) (\<lambda>b.
          ebind (real_ram_addr D BuiltRom file_rom_start hi_offset lo_offset) (\<lambda>u.
          Inr (Some (b, u)))))"

text \<open>\<open>order_data.py\<close> lines 53-69: the same steps against its own base-ROM reader.\<close>

definition real_ram_addr_data :: "disasm \<Rightarrow> string \<Rightarrow> string \<Rightarrow> string \<Rightarrow> string result" where
  "real_ram_addr_data D file_rom_start hi_offset lo_offset =
     ebind (rom_address file_rom_start hi_offset) (\<lambda>hi_asm_line.
     ebind (hi_operand (get_baserom_asm_line_data D hi_asm_line)) (\<lambda>real_hi.
     ebind (rom_address file_rom_start lo_offset) (\<lambda>lo_asm_line.
     ebind (lo_operand (get_baserom_asm_line_data D lo_asm_line)) (\<lambda>real_lo.
     ram_addr_of real_hi real_lo))))"

definition get_real_ram_addr ::
  "objdump \<Rightarrow> disasm \<Rightarrow> string \<Rightarrow> string \<Rightarrow> string \<Rightarrow> string option io" where
  "get_real_ram_addr OD D symbol o_file file_rom_start =
     (case find_hi_lo symbol (objdump_lines OD o_file) of
        Inl e \<Rightarrow> ([], Inl e)
      | Inr None \<Rightarrow> ([symbol @ '' is gone''], Inr None)
      | Inr (Some (hi_offset, lo_offset)) \<Rightarrow>
          ([], map_sum id Some (real_ram_addr_data D file_rom_start hi_offset lo_offset)))"

section \<open>A declarative specification of the scan\<close>

text \<open>
  The relocation lines of the symbol, the first of them that carries neither tag, and
  the offsets of the \<open>%hi\<close> and \<open>%lo\<close> lines, in order.
\<close>

definition last_or :: "'a \<Rightarrow> 'a list \<Rightarrow> 'a" where
  "last_or d xs = (if xs = [] then d else last xs)"

definition untagged :: "string \<Rightarrow> bool" where
  "untagged line \<longleftrightarrow> \<not> sublist ''R_MIPS_HI16'' line \<and> \<not> sublist ''R_MIPS_LO16'' line"

definition reloc_spec :: "string \<Rightarrow> string list \<Rightarrow> (string \<times> string) option result" where
  "reloc_spec symbol lines =
     (let mine = filter (sublist symbol) lines in
      case find untagged mine of
        Some l \<Rightarrow> Inl (UnsureReloc symbol l)
      | None \<Rightarrow>
          (let hi = last_or '''' (map reloc_offset (filter (sublist ''R_MIPS_HI16'') mine));
               lo = last_or '''' (map reloc_offset (filter (\<lambda>l. \<not> sublist ''R_MIPS_HI16'' l) mine))
           in if hi = [] \<and> lo = [] then Inr None
              else if hi = [] \<or> lo = [] then Inl RelocShape
              else Inr (Some (hi, lo))))"

text \<open>
  A relocation entry as \<open>objdump -rd\<close> prints it between the instructions: offset, tag,
  symbol (\<open>"\\t\\t\\t10: R_MIPS_HI16\\tgCamera"\<close>). Used to state what the scan returns on
  synthetic dumps.
\<close>

definition reloc_line :: "string \<Rightarrow> string \<Rightarrow> string \<Rightarrow> string" where
  "reloc_line off kind name = [CHR 0x09, CHR 0x09, CHR 0x09] @ off @ '': '' @ kind @ CHR 0x09 # name"

section \<open>Lemmas\<close>

lemma last_or_simps [simp]:
  "last_or d [] = d"
  "last_or d (x # xs) = last_or x xs"
  by (simp_all add: last_or_def)

lemma scan_relocs_spec:
  "scan_relocs symbol lines (hi, lo) =
     (let mine = filter (sublist symbol) lines in
      case find untagged mine of
        Some l \<Rightarrow> Inl (UnsureReloc symbol l)
      | None \<Rightarrow> Inr (last_or hi (map reloc_offset (filter (sublist ''R_MIPS_HI16'') mine)),
                    last_or lo (map reloc_offset (filter (\<lambda>l. \<not> sublist ''R_MIPS_HI16'' l) mine))))"
proof (induction lines arbitrary: hi lo)
  case Nil
  then show ?case by simp
next
  case (Cons line lines)
  then show ?case
    by (cases "sublist symbol line"; cases "sublist ''R_MIPS_HI16'' line";
        cases "sublist ''R_MIPS_LO16'' line") (simp_all add: untagged_def Let_def split: option.split)
qed

lemma sublist_sep:
  "c \<notin> set pat \<Longrightarrow> sublist pat (u @ c # v) \<longleftrightarrow> sublist pat u \<or> sublist pat v"
proof
  assume c: "c \<notin> set pat" and "sublist pat (u @ c # v)"
  then consider "sublist pat u" | "sublist pat (c # v)"
    | xs1 xs2 where "pat = xs1 @ xs2" "suffix xs1 u" "prefix xs2 (c # v)"
    by (auto simp: sublist_append)
  then show "sublist pat u \<or> sublist pat v"
  proof cases
    case 2
    with c show ?thesis by (cases pat) (auto simp: sublist_Cons_right)
  next
    case 3
    with c show ?thesis by (cases xs2) (auto intro: suffix_imp_sublist)
  qed simp
next
  show "sublist pat u \<or> sublist pat v \<Longrightarrow> sublist pat (u @ c # v)"
    by (auto simp: sublist_append sublist_Cons_right)
qed

lemma reloc_line_mentions: "sublist name (reloc_line off kind name)"
  unfolding reloc_line_def
  using sublist_append_leftI [of name "[CHR 0x09, CHR 0x09, CHR 0x09] @ off @ '': '' @ kind @ [CHR 0x09]"]
  by simp

lemma R_not_hex: "hex_text off \<Longrightarrow> CHR ''R'' \<notin> set ([CHR 0x09, CHR 0x09, CHR 0x09] @ off)"
  by (auto simp: hex_text_def hex_digit_val_def)

lemma reloc_line_tag:
  assumes off: "hex_text off" and name: "\<not> sublist ''R_MIPS'' name"
    and pat: "pat \<in> {''R_MIPS_HI16'', ''R_MIPS_LO16''}"
  shows "sublist pat (reloc_line off kind name) \<longleftrightarrow> sublist pat (CHR '' '' # kind)"
proof -
  have split: "reloc_line off kind name =
      ([CHR 0x09, CHR 0x09, CHR 0x09] @ off) @ CHR '':'' # ((CHR '' '' # kind) @ CHR 0x09 # name)"
    by (simp add: reloc_line_def)
  have c: "CHR '':'' \<notin> set pat" "CHR 0x09 \<notin> set pat" "CHR ''R'' \<in> set pat"
    using pat by auto
  have s1: "sublist pat (reloc_line off kind name) \<longleftrightarrow>
      sublist pat ([CHR 0x09, CHR 0x09, CHR 0x09] @ off) \<or> sublist pat ((CHR '' '' # kind) @ CHR 0x09 # name)"
    unfolding split by (rule sublist_sep [OF c(1)])
  have s2: "sublist pat ((CHR '' '' # kind) @ CHR 0x09 # name) \<longleftrightarrow>
      sublist pat (CHR '' '' # kind) \<or> sublist pat name"
    by (rule sublist_sep [OF c(2)])
  have "\<not> sublist pat ([CHR 0x09, CHR 0x09, CHR 0x09] @ off)"
    using R_not_hex [OF off] c(3) set_mono_sublist by blast
  moreover have "\<not> sublist pat name"
  proof
    assume "sublist pat name"
    moreover have "sublist ''R_MIPS'' pat" using pat by auto
    ultimately show False using name sublist_order.order_trans by blast
  qed
  ultimately show ?thesis
    using s1 s2 by blast
qed

lemma reloc_line_offset:
  assumes "hex_text off"
  shows "reloc_offset (reloc_line off kind name) = off"
proof -
  have "CHR '':'' \<notin> set ([CHR 0x09, CHR 0x09, CHR 0x09] @ off)"
    using assms by (auto simp: hex_text_def hex_digit_val_def)
  then have "hd (py_split '':'' (([CHR 0x09, CHR 0x09, CHR 0x09] @ off) @ CHR '':'' # CHR '' '' # kind @ CHR 0x09 # name))
      = [CHR 0x09, CHR 0x09, CHR 0x09] @ off"
    by (intro hd_py_split_char) simp_all
  moreover have "py_strip ([CHR 0x09, CHR 0x09, CHR 0x09] @ off) = off"
    using hex_text_no_space [OF assms] by (intro py_strip_lead) (simp_all add: py_space_def)
  ultimately show ?thesis by (simp add: reloc_offset_def reloc_line_def)
qed

lemma find_hi_lo_filter:
  "find_hi_lo name lines = find_hi_lo name (filter (sublist name) lines)"
  by (simp add: find_hi_lo_def scan_relocs_spec)

lemma find_hi_lo_via:
  "filter (sublist name) lines = ys \<Longrightarrow> find_hi_lo name lines = find_hi_lo name ys"
  by (metis find_hi_lo_filter)

lemma HI_line_tags:
  "hex_text off \<Longrightarrow> \<not> sublist ''R_MIPS'' name \<Longrightarrow>
   sublist ''R_MIPS_HI16'' (reloc_line off ''R_MIPS_HI16'' name)"
  by (subst reloc_line_tag) (simp_all add: sublist_Cons_right)

lemma LO_line_tags:
  "hex_text off \<Longrightarrow> \<not> sublist ''R_MIPS'' name \<Longrightarrow>
   \<not> sublist ''R_MIPS_HI16'' (reloc_line off ''R_MIPS_LO16'' name) \<and>
   sublist ''R_MIPS_LO16'' (reloc_line off ''R_MIPS_LO16'' name)"
  by (simp add: reloc_line_tag) code_simp

lemma hex_text_not_Nil: "hex_text off \<Longrightarrow> off \<noteq> []"
  by (simp add: hex_text_def)

lemmas reloc_line_facts = reloc_line_mentions reloc_line_offset HI_line_tags LO_line_tags hex_text_not_Nil

lemma mset_eq_pair: "mset xs = {#a, b#} \<Longrightarrow> xs = [a, b] \<or> xs = [b, a]"
proof -
  assume m: "mset xs = {#a, b#}"
  then have "length xs = 2" by (metis size_mset size_add_mset size_empty One_nat_def numeral_2_eq_2)
  then obtain x y where xs: "xs = [x, y]" by (auto simp: numeral_2_eq_2 length_Suc_conv)
  with m show ?thesis by (auto simp: add_eq_conv_ex)
qed

text \<open>
  Claim C14. The scan loop of lines 53-67 computes exactly the declarative specification: the
  first line that names the symbol without a relocation tag raises; otherwise the offsets
  of the last \<open>R_MIPS_HI16\<close> line and the last \<open>R_MIPS_LO16\<close> line naming it are kept,
  and the empty/half/full outcome is decided from them.
\<close>

theorem find_hi_lo_eq_spec: "find_hi_lo name lines = reloc_spec name lines"
  by (simp add: find_hi_lo_def reloc_spec_def scan_relocs_spec Let_def split: option.split)

text \<open>
  Claim C2. A dump in which exactly one \<open>R_MIPS_HI16\<close> entry and one \<open>R_MIPS_LO16\<close>
  entry name the symbol, in either order and among any other lines that do not name it,
  yields the pair of their offsets.
\<close>

theorem find_hi_lo_pair:
  assumes "hex_text h" "hex_text l" "\<not> sublist ''R_MIPS'' name"
    and "mset (filter (sublist name) lines) =
         {#reloc_line h ''R_MIPS_HI16'' name, reloc_line l ''R_MIPS_LO16'' name#}"
  shows "find_hi_lo name lines = Inr (Some (h, l))"
proof -
  obtain ys where ys: "filter (sublist name) lines = ys"
    and "ys = [reloc_line h ''R_MIPS_HI16'' name, reloc_line l ''R_MIPS_LO16'' name] \<or>
         ys = [reloc_line l ''R_MIPS_LO16'' name, reloc_line h ''R_MIPS_HI16'' name]"
    using mset_eq_pair [OF assms(4)] by blast
  then have "find_hi_lo name ys = Inr (Some (h, l))"
    by (auto simp: find_hi_lo_def assms reloc_line_facts)
  with find_hi_lo_via [OF ys] show ?thesis by simp
qed

text \<open>
  Claim C3. A dump in which only one entry, \<open>R_MIPS_HI16\<close> or \<open>R_MIPS_LO16\<close>, names the
  symbol raises the relocation-shape exception ("wasn't able to find both hi and lo
  offsets").
\<close>

theorem find_hi_lo_half:
  assumes "hex_text off" "\<not> sublist ''R_MIPS'' name" "kind \<in> {''R_MIPS_HI16'', ''R_MIPS_LO16''}"
    and "filter (sublist name) lines = [reloc_line off kind name]"
  shows "find_hi_lo name lines = Inl RelocShape"
proof -
  have "find_hi_lo name [reloc_line off kind name] = Inl RelocShape"
    using assms(3) by (auto simp: find_hi_lo_def assms(1,2) reloc_line_facts)
  with find_hi_lo_via [OF assms(4)] show ?thesis by simp
qed

text \<open>
  Claim C6. A dump in which no line names the symbol returns "absent" (\<open>None\<close>) without
  an exception.
\<close>

theorem find_hi_lo_absent:
  assumes "\<forall>x \<in> set lines. \<not> sublist name x"
  shows "find_hi_lo name lines = Inr None"
proof -
  have "filter (sublist name) lines = []" using assms by (simp add: filter_empty_conv)
  from find_hi_lo_via [OF this] show ?thesis by (simp add: find_hi_lo_def)
qed

text \<open>
  Claim C35. When the symbol is relocated several times, the offsets of the last
  \<open>R_MIPS_HI16\<close> entry and of the last \<open>R_MIPS_LO16\<close> entry win; earlier ones are
  silently overwritten.
\<close>

theorem find_hi_lo_last_wins:
  assumes "\<forall>h \<in> set hs. hex_text h" "\<forall>l \<in> set ls. hex_text l" "hs \<noteq> []" "ls \<noteq> []"
    and "\<not> sublist ''R_MIPS'' name"
    and "filter (sublist name) lines =
         map (\<lambda>h. reloc_line h ''R_MIPS_HI16'' name) hs @ map (\<lambda>l. reloc_line l ''R_MIPS_LO16'' name) ls"
  shows "find_hi_lo name lines = Inr (Some (last hs, last ls))"
proof -
  let ?ys = "map (\<lambda>h. reloc_line h ''R_MIPS_HI16'' name) hs @ map (\<lambda>l. reloc_line l ''R_MIPS_LO16'' name) ls"
  have "filter (sublist name) ?ys = ?ys" by (simp add: reloc_line_mentions)
  moreover have "find untagged ?ys = None"
    using assms(1,2,5) by (auto simp: find_None_iff untagged_def reloc_line_facts)
  moreover have "map reloc_offset (filter (sublist ''R_MIPS_HI16'') ?ys) = hs"
    using assms(1,2,5) by (simp add: filter_map o_def reloc_line_facts cong: map_cong filter_cong)
  moreover have "map reloc_offset (filter (\<lambda>l. \<not> sublist ''R_MIPS_HI16'' l) ?ys) = ls"
    using assms(1,2,5) by (simp add: filter_map o_def reloc_line_facts cong: map_cong filter_cong)
  moreover have "last hs \<noteq> []" "last ls \<noteq> []"
    using assms(1-4) by (simp_all add: hex_text_not_Nil)
  ultimately have "find_hi_lo name ?ys = Inr (Some (last hs, last ls))"
    using assms(3,4) by (simp add: find_hi_lo_def scan_relocs_spec last_or_def)
  with find_hi_lo_via [OF assms(6)] show ?thesis by simp
qed

text \<open>
  Claim C34. Symbols are matched as substrings of the dump line: the relocation pair of any
  symbol whose name contains the requested one is reported for it.
\<close>

theorem find_hi_lo_substring:
  assumes "sublist name other" "hex_text h" "hex_text l" "\<not> sublist ''R_MIPS'' other"
  shows "find_hi_lo name [reloc_line h ''R_MIPS_HI16'' other, reloc_line l ''R_MIPS_LO16'' other] =
         Inr (Some (h, l))"
proof -
  have "sublist name (reloc_line off kind other)" for off kind
    using assms(1) reloc_line_mentions sublist_order.order_trans by blast
  then show ?thesis
    by (simp add: find_hi_lo_def assms reloc_line_facts)
qed

section \<open>Witnesses\<close>

theorem find_hi_lo_pair_witness:
  "find_hi_lo ''gCamera'' [''00000000 <func_80241000>:'', reloc_line ''10'' ''R_MIPS_HI16'' ''gCamera'',
     ''  10:  3c010000  lui at,0x0'', reloc_line ''14'' ''R_MIPS_LO16'' ''gCamera''] = Inr (Some (''10'', ''14''))"
proof -
  have f: "filter (sublist ''gCamera'') [''00000000 <func_80241000>:'', reloc_line ''10'' ''R_MIPS_HI16'' ''gCamera'',
     ''  10:  3c010000  lui at,0x0'', reloc_line ''14'' ''R_MIPS_LO16'' ''gCamera''] =
     [reloc_line ''10'' ''R_MIPS_HI16'' ''gCamera'', reloc_line ''14'' ''R_MIPS_LO16'' ''gCamera'']"
    by code_simp
  show ?thesis
    by (rule find_hi_lo_pair) (code_simp, code_simp, code_simp, subst f, simp)
qed

theorem find_hi_lo_half_witness:
  "find_hi_lo ''gCamera'' [''00000000 <func_80241000>:'', reloc_line ''10'' ''R_MIPS_HI16'' ''gCamera''] =
   Inl RelocShape"
  by (rule find_hi_lo_half [where off = "''10''" and kind = "''R_MIPS_HI16''"]) code_simp+

theorem find_hi_lo_absent_witness:
  "find_hi_lo ''gCamera'' [''00000000 <func_80241000>:'', ''  10:  3c010000  lui at,0x0''] = Inr None"
  by (rule find_hi_lo_absent) code_simp

theorem find_hi_lo_last_wins_witness:
  "find_hi_lo ''gCamera'' [reloc_line ''10'' ''R_MIPS_HI16'' ''gCamera'', reloc_line ''20'' ''R_MIPS_HI16'' ''gCamera'',
     reloc_line ''24'' ''R_MIPS_LO16'' ''gCamera''] = Inr (Some (''20'', ''24''))"
proof -
  have "find_hi_lo ''gCamera'' [reloc_line ''10'' ''R_MIPS_HI16'' ''gCamera'', reloc_line ''20'' ''R_MIPS_HI16'' ''gCamera'',
     reloc_line ''24'' ''R_MIPS_LO16'' ''gCamera''] = Inr (Some (last [''10'', ''20''], last [''24'']))"
    by (rule find_hi_lo_last_wins) code_simp+
  then show ?thesis by simp
qed

theorem find_hi_lo_substring_witness:
  "find_hi_lo ''gCamera'' [reloc_line ''10'' ''R_MIPS_HI16'' ''gCameraState'',
     reloc_line ''14'' ''R_MIPS_LO16'' ''gCameraState''] = Inr (Some (''10'', ''14''))"
  by (rule find_hi_lo_substring) code_simp+

end
