(* ===== verification/Symbols.thy ===== *)
theory Symbols
  imports PyStr
begin

text \<open>
  The Symbol Enumerator (\<open>src/order_bss.py\<close> lines 96-106, \<open>src/order_data.py\<close> lines
  72-82). \<open>mips-linux-gnu-objdump -t\<close> is an oracle: \<open>OT o_file\<close> is the symbol table it
  prints. A row is kept when it contains the segment tag and does not end with it (the
  section symbol itself); the symbol is the row's last whitespace-separated field.
\<close>

type_synonym symtab = "string \<Rightarrow> string"

definition symbol_row :: "string \<Rightarrow> string \<Rightarrow> bool" where
  "symbol_row segment line \<longleftrightarrow> sublist segment line \<and> \<not> suffix segment line"

definition get_symbols :: "symtab \<Rightarrow> string \<Rightarrow> string \<Rightarrow> string list result" where
  "get_symbols OT o_file segment =
     map_res (\<lambda>line. py_last (py_split_ws line))
       (filter (symbol_row segment) (py_split ''\<newline>'' (OT o_file)))"

text \<open>\<open>order_data.py\<close>'s copy, with the tag \<open>.data\<close> written in.\<close>

definition get_symbols_data :: "symtab \<Rightarrow> string \<Rightarrow> string list result" where
  "get_symbols_data OT o_file =
     map_res (\<lambda>line. py_last (py_split_ws line))
       (filter (\<lambda>line. sublist ''.data'' line \<and> \<not> suffix ''.data'' line) (py_split ''\<newline>'' (OT o_file)))"

section \<open>Lemmas\<close>

lemma ws_acc_Nil_iff: "ws_acc cur s = [] \<longleftrightarrow> cur = [] \<and> (\<forall>c \<in> set s. py_space c)"
  by (induction s arbitrary: cur) auto

lemma py_split_ws_Nil_iff: "py_split_ws s = [] \<longleftrightarrow> (\<forall>c \<in> set s. py_space c)"
  by (simp add: py_split_ws_def ws_acc_Nil_iff)

lemma symbol_row_fields:
  "symbol_row segment line \<Longrightarrow> \<exists>c \<in> set segment. \<not> py_space c \<Longrightarrow> py_split_ws line \<noteq> []"
  by (auto simp: symbol_row_def py_split_ws_Nil_iff dest: set_mono_sublist)

lemma data_tag_visible: "\<exists>c \<in> set ''.data''. \<not> py_space c"
  by (simp add: py_space_def)

lemma get_symbols_data_total:
  "get_symbols_data OT o_file =
   Inr (map (\<lambda>line. last (py_split_ws line))
     (filter (\<lambda>line. sublist ''.data'' line \<and> \<not> suffix ''.data'' line) (py_split ''\<newline>'' (OT o_file))))"
proof -
  have "py_split_ws line \<noteq> []" if "sublist ''.data'' line \<and> \<not> suffix ''.data'' line" for line
    using symbol_row_fields [OF _ data_tag_visible] that by (simp add: symbol_row_def)
  then show ?thesis
    unfolding get_symbols_data_def by (intro map_res_Inr) (simp add: py_last_def)
qed

text \<open>
  Claim C11. For a segment tag with a non-blank character (every tag the scripts pass),
  \<open>get_symbols\<close> never raises: every selected row contains the tag, so \<open>line.split()\<close> is
  non-empty, and the result is the last field of each selected row, in table order.
\<close>

theorem get_symbols_total:
  assumes "\<exists>c \<in> set segment. \<not> py_space c"
  shows "get_symbols OT o_file segment =
         Inr (map (\<lambda>line. last (py_split_ws line)) (filter (symbol_row segment) (py_split ''\<newline>'' (OT o_file))))"
  unfolding get_symbols_def
  by (intro map_res_Inr) (simp add: py_last_def symbol_row_fields [OF _ assms])

theorem get_symbols_total_witness:
  "get_symbols (\<lambda>f. ''00000000 l    d  .bss  00000000 .bss\<newline>00000010 l     O .bss  00000004 gCamera'')
     ''camera.o'' ''.bss'' = Inr [''gCamera'']"
proof -
  have "\<exists>c \<in> set ''.bss''. \<not> py_space c" by code_simp
  from get_symbols_total [OF this, of "\<lambda>f. ''00000000 l    d  .bss  00000000 .bss\<newline>00000010 l     O .bss  00000004 gCamera''"
    "''camera.o''"]
  show ?thesis by code_simp
qed

end
