(* ===== verification/LinkerMap.thy ===== *)
theory LinkerMap
  imports PyStr
begin

text \<open>
  The Linker-Map Reader: \<open>get_o_files_and_offsets\<close> of \<open>src/order_bss.py\<close> (lines
  109-171) and of \<open>src/order_data.py\<close> (lines 85-129). The map text and
  \<open>Path.is_file\<close> are inputs. Between the first line naming \<open>.main\<close> and the first
  later line naming \<open>.engine\<close>, every \<open>FILE(.text)\<close> line contributes its object file
  and the ROM offset \<open>hex(addr - 0x80240800)\<close> of the address in the second field of the
  \<open>.text\<close> line that follows it (the next line, or the one after).
\<close>

definition ram_to_rom :: int where
  "ram_to_rom = 0x80240800"

text \<open>Lines 149-162: which file an archive member \<open>lib*.a:member.o\<close> is.\<close>

definition resolve_o_file :: "(string \<Rightarrow> bool) \<Rightarrow> string \<Rightarrow> string \<Rightarrow> string option" where
  "resolve_o_file is_file sm64_path line =
     (if \<not> sublist ''libultra.a'' line \<and> \<not> sublist ''libgoddard.a'' line
      then Some (path_div sm64_path line)
      else if is_file (path_div sm64_path (py_replace ''ultra.a:'' ''/src/'' line))
      then Some (path_div sm64_path (py_replace ''ultra.a:'' ''/src/'' line))
      else if is_file (path_div sm64_path (py_replace ''ultra.a:'' ''/asm/'' line))
      then Some (path_div sm64_path (py_replace ''ultra.a:'' ''/asm/'' line))
      else if is_file (path_div sm64_path (py_replace ''libgoddard.a:'' ''src/goddard/'' line))
      then Some (path_div sm64_path (py_replace ''libgoddard.a:'' ''src/goddard/'' line))
      else None)"

text \<open>Lines 164-167: the offset of the entry on line \<open>idx\<close>.\<close>

definition map_offset :: "string list \<Rightarrow> nat \<Rightarrow> string result" where
  "map_offset lines idx =
     ebind (py_index lines (idx + 1)) (\<lambda>l1.
     ebind (if prefix ''.text'' (py_strip l1) then Inr (py_strip l1)
            else ebind (py_index lines (idx + 2)) (\<lambda>l2. Inr (py_strip l2))) (\<lambda>offset_line.
     ebind (py_index (py_split_ws offset_line) 1) (\<lambda>field.
     ebind (py_int16 field) (\<lambda>addr. Inr (py_hex (addr - ram_to_rom))))))"

text \<open>
  The \<open>for idx, line in enumerate(lines)\<close> loop: \<open>idx\<close> is the index of the first line
  of \<open>rest\<close>, \<open>seen_main\<close> the flag.
\<close>

fun map_loop ::
  "(string \<Rightarrow> bool) \<Rightarrow> string \<Rightarrow> string list \<Rightarrow> nat \<Rightarrow> bool \<Rightarrow> string list \<Rightarrow> (string \<times> string) list io" where
  "map_loop is_file sm64_path lines idx seen_main [] = io_return []"
| "map_loop is_file sm64_path lines idx seen_main (raw # rest) =
     (let line = py_strip raw in
      if \<not> sublist ''.main'' line \<and> \<not> seen_main
      then map_loop is_file sm64_path lines (Suc idx) False rest
      else if sublist ''.engine'' line then ([''done parsing map''], Inr [])
      else if \<not> sublist ''(.text)'' line \<or> sublist ''*.o'' line
      then map_loop is_file sm64_path lines (Suc idx) True rest
      else let l = take (length line - 7) line in
        (case resolve_o_file is_file sm64_path l of
           None \<Rightarrow> iobind (io_print (''can't figure out how to make this a real .o file: '' @ l))
                    (\<lambda>_. map_loop is_file sm64_path lines (Suc idx) True rest)
         | Some filepath \<Rightarrow>
             iobind (io_lift (map_offset lines idx)) (\<lambda>offset.
             iobind (map_loop is_file sm64_path lines (Suc idx) True rest) (\<lambda>acc.
             io_return ((filepath, offset) # acc)))))"

definition get_o_files_and_offsets ::
  "(string \<Rightarrow> bool) \<Rightarrow> string \<Rightarrow> string \<Rightarrow> (string \<times> string) list io" where
  "get_o_files_and_offsets is_file map_text sm64_path =
     (let lines = py_split ''\<newline>'' map_text in map_loop is_file sm64_path lines 0 False lines)"

section \<open>order_data.py's copy\<close>

text \<open>No \<open>libgoddard.a\<close> branch, no \<open>*.o\<close> filter, another farewell message.\<close>

definition resolve_o_file_data :: "(string \<Rightarrow> bool) \<Rightarrow> string \<Rightarrow> string \<Rightarrow> string option" where
  "resolve_o_file_data is_file sm64_path line =
     (if \<not> sublist ''libultra.a'' line then Some (path_div sm64_path line)
      else if is_file (path_div sm64_path (py_replace ''ultra.a:'' ''/src/'' line))
      then Some (path_div sm64_path (py_replace ''ultra.a:'' ''/src/'' line))
      else if is_file (path_div sm64_path (py_replace ''ultra.a:'' ''/asm/'' line))
      then Some (path_div sm64_path (py_replace ''ultra.a:'' ''/asm/'' line))
      else None)"

fun map_loop_data ::
  "(string \<Rightarrow> bool) \<Rightarrow> string \<Rightarrow> string list \<Rightarrow> nat \<Rightarrow> bool \<Rightarrow> string list \<Rightarrow> (string \<times> string) list io" where
  "map_loop_data is_file sm64_path lines idx seen_main [] = io_return []"
| "map_loop_data is_file sm64_path lines idx seen_main (raw # rest) =
     (let line = py_strip raw in
      if \<not> sublist ''.main'' line \<and> \<not> seen_main
      then map_loop_data is_file sm64_path lines (Suc idx) False rest
      else if sublist ''.engine'' line then ([''encountered engine - done parsing map''], Inr [])
      else if \<not> sublist ''(.text)'' line
      then map_loop_data is_file sm64_path lines (Suc idx) True rest
      else let l = take (length line - 7) line in
        (case resolve_o_file_data is_file sm64_path l of
           None \<Rightarrow> iobind (io_print (''can't figure out how to make this a real .o file: '' @ l))
                    (\<lambda>_. map_loop_data is_file sm64_path lines (Suc idx) True rest)
         | Some filepath \<Rightarrow>
             iobind (io_lift (map_offset lines idx)) (\<lambda>offset.
             iobind (map_loop_data is_file sm64_path lines (Suc idx) True rest) (\<lambda>acc.
             io_return ((filepath, offset) # acc)))))"

definition get_o_files_and_offsets_data ::
  "(string \<Rightarrow> bool) \<Rightarrow> string \<Rightarrow> string \<Rightarrow> (string \<times> string) list io" where
  "get_o_files_and_offsets_data is_file map_text sm64_path =
     (let lines = py_split ''\<newline>'' map_text in map_loop_data is_file sm64_path lines 0 False lines)"

section \<open>A declarative specification\<close>

text \<open>
  The numbered, stripped lines from the first one naming \<open>.main\<close> (or from the start,
  once it has been seen) up to the first one naming \<open>.engine\<close>; an entry is a
  \<open>(.text)\<close> line that is no \<open>*.o\<close> pattern and whose file resolves.
\<close>

definition map_region :: "bool \<Rightarrow> (nat \<times> string) list \<Rightarrow> (nat \<times> string) list" where
  "map_region seen_main xs =
     takeWhile (\<lambda>(i, l). \<not> sublist ''.engine'' l)
       (if seen_main then xs else dropWhile (\<lambda>(i, l). \<not> sublist ''.main'' l) xs)"

definition map_entry :: "(string \<Rightarrow> bool) \<Rightarrow> string \<Rightarrow> nat \<times> string \<Rightarrow> (string \<times> nat) option" where
  "map_entry is_file sm64_path il =
     (let (i, l) = il in
      if sublist ''(.text)'' l \<and> \<not> sublist ''*.o'' l
      then map_option (\<lambda>fp. (fp, i)) (resolve_o_file is_file sm64_path (take (length l - 7) l))
      else None)"

definition map_spec :: "(string \<Rightarrow> bool) \<Rightarrow> string \<Rightarrow> string list \<Rightarrow> (string \<times> string) list result" where
  "map_spec is_file sm64_path lines =
     map_res (\<lambda>(fp, i). ebind (map_offset lines i) (\<lambda>off. Inr (fp, off)))
       (List.map_filter (map_entry is_file sm64_path) (map_region False (enumerate 0 (map py_strip lines))))"

section \<open>Lemmas\<close>

lemma map_region_Cons:
  "map_region seen_main ((i, l) # xs) =
     (if \<not> sublist ''.main'' l \<and> \<not> seen_main then map_region False xs
      else if sublist ''.engine'' l then []
      else (i, l) # map_region True xs)"
  by (simp add: map_region_def)

lemma map_loop_spec:
  "snd (map_loop is_file sm64_path lines idx seen_main rest) =
   map_res (\<lambda>(fp, i). ebind (map_offset lines i) (\<lambda>off. Inr (fp, off)))
     (List.map_filter (map_entry is_file sm64_path) (map_region seen_main (enumerate idx (map py_strip rest))))"
proof (induction rest arbitrary: idx seen_main)
  case Nil
  then show ?case by (simp add: map_region_def)
next
  case (Cons raw rest)
  show ?case
    by (simp add: Let_def map_region_Cons map_entry_def snd_iobind Cons.IH split: option.split)
qed

lemma not_sublist_take: "\<not> sublist w l \<Longrightarrow> \<not> sublist w (take n l)"
  using sublist_order.order.trans [OF _ sublist_take, of w n l] by blast

text \<open>
  For an archive member the \<open>libgoddard\<close> branch of \<open>order_bss.py\<close> replaces nothing and
  tests the member's own path, which is no file; then both copies resolve alike.
\<close>

lemma resolve_o_file_agrees:
  assumes "\<not> sublist ''libgoddard.a'' l" and "\<forall>q. sublist ''libultra.a'' q \<longrightarrow> \<not> is_file q"
  shows "resolve_o_file_data is_file sm64_path l = resolve_o_file is_file sm64_path l"
proof (cases "sublist ''libultra.a'' l")
  case True
  have "sublist ''libgoddard.a'' ''libgoddard.a:''"
    using sublist_append_rightI [of "''libgoddard.a''" "'':''"] by simp
  then have "\<not> sublist ''libgoddard.a:'' l"
    using assms(1) sublist_order.order.trans by blast
  then have "py_replace ''libgoddard.a:'' ''src/goddard/'' l = l"
    by (simp add: py_replace_def py_split_def split_acc_no_sublist)
  moreover have "sublist ''libultra.a'' (path_div sm64_path l)"
    using True sublist_order.order.trans [OF True sublist_append_leftI [of l "sm64_path @ ''/''"]]
    by (simp add: path_div_def)
  ultimately show ?thesis
    using True assms by (simp add: resolve_o_file_def resolve_o_file_data_def)
qed (simp add: resolve_o_file_def resolve_o_file_data_def assms(1))

text \<open>Without pattern lines and \<open>libgoddard.a\<close> members both loops take the same steps.\<close>

lemma map_loop_data_agrees:
  assumes "\<forall>q. sublist ''libultra.a'' q \<longrightarrow> \<not> is_file q"
  shows "\<forall>l \<in> set rest. \<not> sublist ''*.o'' (py_strip l) \<and> \<not> sublist ''libgoddard.a'' (py_strip l) \<Longrightarrow>
   snd (map_loop_data is_file sm64_path lines idx seen_main rest) =
   snd (map_loop is_file sm64_path lines idx seen_main rest)"
proof (induction rest arbitrary: idx seen_main)
  case Nil
  then show ?case by simp
next
  case (Cons raw rest)
  have "resolve_o_file_data is_file sm64_path (take n (py_strip raw)) =
        resolve_o_file is_file sm64_path (take n (py_strip raw))" for n
    using Cons.prems not_sublist_take [of "''libgoddard.a''" "py_strip raw" n] assms
    by (intro resolve_o_file_agrees) simp_all
  with Cons show ?case
    by (simp add: Let_def snd_iobind split: option.split)
qed

text \<open>An entry on the last line of the map: its offset lookup \<open>lines[idx + 1]\<close> is out of
  range, so the loop raises, if no earlier entry has raised before.\<close>

lemma map_loop_last_entry:
  assumes "idx + length rest = length lines" "rest \<noteq> []"
    and "\<forall>l \<in> set rest. \<not> sublist ''.engine'' (py_strip l)"
    and "seen_main \<or> (\<exists>l \<in> set rest. sublist ''.main'' (py_strip l))"
    and "sublist ''(.text)'' (py_strip (last rest))" "\<not> sublist ''*.o'' (py_strip (last rest))"
    and "resolve_o_file is_file sm64_path (take (length (py_strip (last rest)) - 7) (py_strip (last rest))) \<noteq> None"
  shows "\<exists>e. snd (map_loop is_file sm64_path lines idx seen_main rest) = Inl e"
  using assms
proof (induction rest arbitrary: idx seen_main)
  case Nil
  then show ?case by simp
next
  case (Cons raw rest)
  show ?case
  proof (cases "rest = []")
    case True
    then have "map_offset lines idx = Inl IndexError"
      using Cons.prems(1) by (simp add: map_offset_def py_index_def)
    with True Cons.prems show ?thesis
      by (auto simp: Let_def snd_iobind)
  next
    case False
    have IH: "\<exists>e. snd (map_loop is_file sm64_path lines (Suc idx) s rest) = Inl e"
      if "s \<or> (\<exists>l \<in> set rest. sublist ''.main'' (py_strip l))" for s
      using Cons.IH [of "Suc idx" s] Cons.prems False that by simp
    have main: "\<not> sublist ''.main'' (py_strip raw) \<and> \<not> seen_main \<Longrightarrow> \<exists>l \<in> set rest. sublist ''.main'' (py_strip l)"
      using Cons.prems(4) by auto
    show ?thesis
      using Cons.prems(3) IH [of True] IH [of False] main
      by (auto simp: Let_def snd_iobind split: option.split intro!: ebind_raises)
  qed
qed

text \<open>
  Claim C8. The map reader returns, in map order, one pair per \<open>(.text)\<close> line between
  the first line naming \<open>.main\<close> and the first later line naming \<open>.engine\<close> that is
  no \<open>*.o\<close> pattern and whose object file resolves, with the offset read from the
  \<open>.text\<close> line after it; it raises exactly when one of those offsets cannot be read.
\<close>

theorem get_o_files_and_offsets_spec:
  "snd (get_o_files_and_offsets is_file map_text sm64_path) =
   map_spec is_file sm64_path (py_split ''\<newline>'' map_text)"
  by (simp add: get_o_files_and_offsets_def map_spec_def map_loop_spec Let_def)

text \<open>
  The example of the specification: an entry \<open>foo.o(.text)\<close> followed by a
  \<open>.text\<close> line at \<open>0x80241000\<close> gets the ROM offset \<open>0x800\<close>, and the \<open>.engine\<close>
  landmark ends the scan with \<open>done parsing map\<close>.
\<close>

theorem get_o_files_and_offsets_example:
  "get_o_files_and_offsets (\<lambda>p. False)
     '' .main 0x80246000\<newline>build/eu/src/game/foo.o(.text)\<newline> .text 0x80241000 0x100\<newline>.engine 0x80300000''
     ''sm64'' = ([''done parsing map''], Inr [(''sm64/build/eu/src/game/foo.o'', ''0x800'')])"
  by code_simp

text \<open>
  An object file pattern \<open>build/eu/src/game/*.o(.text)\<close> separates the two copies:
  \<open>order_data.py\<close>'s reader takes it for an object file named \<open>*.o\<close>, which
  \<open>order_bss.py\<close>'s reader skips.
\<close>

theorem map_readers_disagree_on_patterns:
  "snd (get_o_files_and_offsets_data (\<lambda>p. False)
          '' .main\<newline> build/eu/src/game/*.o(.text)\<newline> .text 0x80241000 0x40 build/eu/src/game/area.o\<newline>.engine''
          ''sm64'') = Inr [(''sm64/build/eu/src/game/*.o'', ''0x800'')] \<and>
   snd (get_o_files_and_offsets (\<lambda>p. False)
          '' .main\<newline> build/eu/src/game/*.o(.text)\<newline> .text 0x80241000 0x40 build/eu/src/game/area.o\<newline>.engine''
          ''sm64'') = Inr []"
  by code_simp

text \<open>
  Claim C36. Apart from that and the \<open>libgoddard.a\<close> branch the two copies are the same
  reader: on every map without \<open>*.o\<close> pattern lines and \<open>libgoddard.a\<close> members, in a
  tree where no path naming \<open>libultra.a\<close> is a file, they return the same object files
  and offsets, or raise the same exception (only the farewell line they print differs).
\<close>

theorem map_readers_agree:
  assumes "\<forall>q. sublist ''libultra.a'' q \<longrightarrow> \<not> is_file q"
    and "\<forall>l \<in> set (py_split ''\<newline>'' map_text).
             \<not> sublist ''*.o'' (py_strip l) \<and> \<not> sublist ''libgoddard.a'' (py_strip l)"
  shows "snd (get_o_files_and_offsets_data is_file map_text sm64_path) =
         snd (get_o_files_and_offsets is_file map_text sm64_path)"
  using map_loop_data_agrees [OF assms(1)] assms(2)
  by (simp add: get_o_files_and_offsets_def get_o_files_and_offsets_data_def Let_def)

text \<open>
  Claim C39. A map whose last line is an entry line (the \<open>.text\<close> line after it is
  missing), after the \<open>.main\<close> landmark and with no \<open>.engine\<close> landmark, makes the
  reader raise instead of returning a list: \<open>lines[idx + 1]\<close> is out of range for it
  (\<open>IndexError\<close>), unless an earlier entry's offset has already raised.
\<close>

theorem get_o_files_and_offsets_truncated:
  assumes "\<forall>l \<in> set (py_split ''\<newline>'' map_text). \<not> sublist ''.engine'' (py_strip l)"
    and "\<exists>l \<in> set (py_split ''\<newline>'' map_text). sublist ''.main'' (py_strip l)"
    and "sublist ''(.text)'' (py_strip (last (py_split ''\<newline>'' map_text)))"
    and "\<not> sublist ''*.o'' (py_strip (last (py_split ''\<newline>'' map_text)))"
    and "resolve_o_file is_file sm64_path (take (length (py_strip (last (py_split ''\<newline>'' map_text))) - 7)
           (py_strip (last (py_split ''\<newline>'' map_text)))) \<noteq> None"
  shows "\<exists>e. snd (get_o_files_and_offsets is_file map_text sm64_path) = Inl e"
  unfolding get_o_files_and_offsets_def Let_def
  by (rule map_loop_last_entry) (use assms in simp_all)

section \<open>Witnesses\<close>

theorem map_readers_agree_witness:
  "snd (get_o_files_and_offsets_data (\<lambda>p. False)
     '' .main 0x80246000\<newline>build/eu/src/game/foo.o(.text)\<newline> .text 0x80241000 0x100\<newline>.engine 0x80300000'' ''sm64'') =
   Inr [(''sm64/build/eu/src/game/foo.o'', ''0x800'')]"
proof -
  let ?m = "'' .main 0x80246000\<newline>build/eu/src/game/foo.o(.text)\<newline> .text 0x80241000 0x100\<newline>.engine 0x80300000''"
  have h: "\<forall>l \<in> set (py_split ''\<newline>'' ?m). \<not> sublist ''*.o'' (py_strip l) \<and> \<not> sublist ''libgoddard.a'' (py_strip l)"
    by code_simp
  have "snd (get_o_files_and_offsets (\<lambda>p. False) ?m ''sm64'') = Inr [(''sm64/build/eu/src/game/foo.o'', ''0x800'')]"
    by code_simp
  with map_readers_agree [OF _ h] show ?thesis by simp
qed

theorem get_o_files_and_offsets_truncated_witness:
  "\<exists>e. snd (get_o_files_and_offsets (\<lambda>p. False) '' .main\<newline>build/eu/src/game/foo.o(.text)'' ''sm64'') = Inl e"
proof -
  let ?m = "'' .main\<newline>build/eu/src/game/foo.o(.text)''"
  have h1: "\<forall>l \<in> set (py_split ''\<newline>'' ?m). \<not> sublist ''.engine'' (py_strip l)"
    and h2: "\<exists>l \<in> set (py_split ''\<newline>'' ?m). sublist ''.main'' (py_strip l)"
    and h3: "sublist ''(.text)'' (py_strip (last (py_split ''\<newline>'' ?m)))"
    and h4: "\<not> sublist ''*.o'' (py_strip (last (py_split ''\<newline>'' ?m)))"
    and h5: "resolve_o_file (\<lambda>p. False) ''sm64'' (take (length (py_strip (last (py_split ''\<newline>'' ?m))) - 7)
           (py_strip (last (py_split ''\<newline>'' ?m)))) \<noteq> None"
    by code_simp+
  from get_o_files_and_offsets_truncated [OF h1 h2 h3 h4 h5] show ?thesis .
qed

end
