(* ===== verification/Report.thy ===== *)
theory Report
  imports Reloc Symbols LinkerMap
begin

text \<open>
  The Ordering Report: the \<open>__main__\<close> block of \<open>src/order_bss.py\<close> (lines 174-235).
  \<open>symbol_positions\<close>, a Python dict, is an association list in insertion order. The
  master object's \<open>.bss\<close> symbols are located through the master itself and through every
  other object that references them (\<open>*UND*\<close>); the first position seen for a symbol is
  kept, a different later one only printed as a warning. The table is printed sorted by
  base-ROM address. Nothing catches an exception: one failing symbol ends the run.
\<close>

type_synonym position = "string \<times> string \<times> string"
type_synonym positions = "(string \<times> position) list"

section \<open>One symbol\<close>

definition print_symbol_position_diff ::
  "objdump \<Rightarrow> disasm \<Rightarrow> string \<Rightarrow> string \<Rightarrow> string \<Rightarrow> position option result" where
  "print_symbol_position_diff OD D symbol o_file file_rom_start =
     ebind (get_real_ram_addrs OD D symbol o_file file_rom_start) (\<lambda>r. case r of
        None \<Rightarrow> Inr None
      | Some (baserom, builtrom) \<Rightarrow>
          ebind (py_int16 baserom) (\<lambda>b. ebind (py_int16 builtrom) (\<lambda>u.
          Inr (Some (baserom, builtrom, py_hex (b - u))))))"

text \<open>\<open>repr\<close> of a tuple of strings without quotes or escapes (the hex strings stored here).\<close>

definition py_quote :: "string \<Rightarrow> string" where
  "py_quote s = CHR 0x27 # s @ [CHR 0x27]"

definition position_repr :: "position \<Rightarrow> string" where
  "position_repr p = (case p of (b, u, d) \<Rightarrow>
     ''('' @ py_quote b @ '', '' @ py_quote u @ '', '' @ py_quote d @ '')'')"

text \<open>Lines 206-215 (and 222-231): record a position, or warn about a different one.\<close>

definition observe :: "positions \<Rightarrow> string \<Rightarrow> string \<Rightarrow> position \<Rightarrow> positions io" where
  "observe P symbol o_name pos =
     (case map_of P symbol of
        Some old \<Rightarrow>
          (if old \<noteq> pos
           then ([''inconsistent position info for '' @ symbol @ '': '' @ position_repr old @
                  '' vs '' @ position_repr pos @ '' in '' @ o_name], Inr P)
           else ([], Inr P))
      | None \<Rightarrow> ([], Inr (P @ [(symbol, pos)])))"

definition visit_symbol ::
  "objdump \<Rightarrow> disasm \<Rightarrow> string \<Rightarrow> string \<Rightarrow> positions \<Rightarrow> string \<Rightarrow> positions io" where
  "visit_symbol OD D o_file file_rom_start P symbol =
     iobind (io_lift (print_symbol_position_diff OD D symbol o_file file_rom_start)) (\<lambda>pos.
       case pos of None \<Rightarrow> io_return P | Some p \<Rightarrow> observe P symbol (path_name o_file) p)"

fun visit_symbols ::
  "objdump \<Rightarrow> disasm \<Rightarrow> string \<Rightarrow> string \<Rightarrow> positions \<Rightarrow> string list \<Rightarrow> positions io" where
  "visit_symbols OD D o_file file_rom_start P [] = io_return P"
| "visit_symbols OD D o_file file_rom_start P (symbol # symbols) =
     iobind (visit_symbol OD D o_file file_rom_start P symbol)
       (\<lambda>P'. visit_symbols OD D o_file file_rom_start P' symbols)"

section \<open>All objects\<close>

text \<open>Lines 200-231: the master's own symbols, or the other object's references to them.\<close>

definition visit_o_file ::
  "symtab \<Rightarrow> objdump \<Rightarrow> disasm \<Rightarrow> string \<Rightarrow> string list \<Rightarrow> positions \<Rightarrow> string \<times> string \<Rightarrow> positions io" where
  "visit_o_file OT OD D master_o_file bss_symbols P entry =
     (case entry of (o_file, file_rom_start) \<Rightarrow>
       if path_name o_file = path_name master_o_file
       then visit_symbols OD D o_file file_rom_start P bss_symbols
       else iobind (io_lift (get_symbols OT o_file ''*UND*'')) (\<lambda>und.
            visit_symbols OD D o_file file_rom_start P (filter (\<lambda>s. s \<in> set bss_symbols) und)))"

fun visit_o_files ::
  "symtab \<Rightarrow> objdump \<Rightarrow> disasm \<Rightarrow> string \<Rightarrow> string list \<Rightarrow> positions \<Rightarrow> (string \<times> string) list \<Rightarrow> positions io" where
  "visit_o_files OT OD D master_o_file bss_symbols P [] = io_return P"
| "visit_o_files OT OD D master_o_file bss_symbols P (entry # entries) =
     iobind (visit_o_file OT OD D master_o_file bss_symbols P entry)
       (\<lambda>P'. visit_o_files OT OD D master_o_file bss_symbols P' entries)"

section \<open>The report\<close>

text \<open>
  Lines 232-235: \<open>sorted(symbol_positions.items(), key=lambda kv: int(kv[1][0], 16))\<close>.
  Python computes every key first, then sorts stably.
\<close>

definition report_entries :: "positions \<Rightarrow> positions result" where
  "report_entries P =
     ebind (map_res (\<lambda>(symbol, (baserom, builtrom, diff)). py_int16 baserom) P) (\<lambda>keys.
       Inr (map snd (sort_key fst (zip keys P))))"

definition report_line :: "string \<times> position \<Rightarrow> string" where
  "report_line e = (case e of (symbol, (baserom, builtrom, diff)) \<Rightarrow>
     symbol @ '': baserom='' @ baserom @ '', builtrom='' @ builtrom @ ''... diff='' @ diff)"

definition order_bss_main ::
  "(string \<Rightarrow> bool) \<Rightarrow> string \<Rightarrow> string option \<Rightarrow> symtab \<Rightarrow> objdump \<Rightarrow> disasm \<Rightarrow> string \<Rightarrow> string \<Rightarrow> unit io" where
  "order_bss_main is_file map_text sm64_tools OT OD D sm64_source master_o_file =
     iobind (get_o_files_and_offsets is_file map_text sm64_source) (\<lambda>o_files_and_offsets.
     if sm64_tools = None \<or> sm64_tools = Some [] then ([], Inl NoTools) else
     iobind (io_lift (get_symbols OT master_o_file ''.bss'')) (\<lambda>bss_symbols.
     iobind (visit_o_files OT OD D master_o_file bss_symbols [] o_files_and_offsets) (\<lambda>P.
     iobind (io_lift (report_entries P)) (\<lambda>entries. (map report_line entries, Inr ())))))"

section \<open>The table's invariant\<close>

text \<open>
  Keys are distinct (a dict), and every stored base-ROM address reads back as an integer
  (it was printed by \<open>hex\<close>), so that the sort key of the report cannot raise.
\<close>

definition position_ok :: "string \<times> position \<Rightarrow> bool" where
  "position_ok e \<longleftrightarrow> \<not> isl (py_int16 (fst (snd e)))"

definition table_ok :: "positions \<Rightarrow> bool" where
  "table_ok P \<longleftrightarrow> distinct (map fst P) \<and> list_all position_ok P"

definition base_address :: "string \<times> position \<Rightarrow> int" where
  "base_address e = (case py_int16 (fst (snd e)) of Inr i \<Rightarrow> i | Inl _ \<Rightarrow> 0)"

section \<open>An example build\<close>

text \<open>
  A two-object build used by the witnesses: \<open>camera.o\<close> (the master) defines \<open>gB\<close> and
  \<open>gA\<close> in \<open>.bss\<close>; \<open>mario.o\<close> references \<open>gA\<close>, and the disassembly of its
  \<open>lw\<close> reads a different low half, so the two objects disagree on \<open>gA\<close>.
\<close>

definition example_map :: string where
  "example_map = '' .main\<newline>build/eu/src/game/camera.o(.text)\<newline> .text 0x80241000 0x100\<newline>build/eu/src/game/mario.o(.text)\<newline> .text 0x80241100 0x100\<newline>.engine''"

definition example_symtab :: symtab where
  "example_symtab f = (if f = ''camera.o''
     then ''00000000 l    d  .bss  00000000 .bss\<newline>00000010 l     O .bss  00000004 gB\<newline>00000000 l     O .bss  00000004 gA''
     else ''00000000         *UND*  00000000 gA'')"

definition example_objdump :: objdump where
  "example_objdump f = (if f = ''sm64/build/eu/src/game/camera.o''
     then ''  10: R_MIPS_HI16 gB\<newline>  14: R_MIPS_LO16 gB\<newline>  20: R_MIPS_HI16 gA\<newline>  24: R_MIPS_LO16 gA''
     else ''  10: R_MIPS_HI16 gA\<newline>  14: R_MIPS_LO16 gA'')"

definition example_disasm :: disasm where
  "example_disasm rom arg =
     (if arg \<in> {''0x80200000:0x810+0x4'', ''0x80200000:0x820+0x4'', ''0x80200000:0x910+0x4''}
      then ''lui   $at, 0x8034''
      else if arg = ''0x80200000:0x814+0x4'' then ''lw    $t6, 0x10($at)''
      else if arg = ''0x80200000:0x824+0x4'' then ''lw    $t6, 0x8($at)''
      else ''lw    $t6, 0xc($at)'')"

section \<open>Lemmas\<close>

lemma print_symbol_position_diff_Some:
  assumes "print_symbol_position_diff OD D symbol o_file file_rom_start = Inr (Some (b, u, d))"
  shows "\<exists>ib iu. py_int16 b = Inr ib \<and> py_int16 u = Inr iu \<and> d = py_hex (ib - iu)"
  using assms
  by (auto simp: print_symbol_position_diff_def ebind_eq_Inr split: option.splits)

lemma observe_step:
  assumes "snd (observe P symbol o_name pos) = Inr P'"
  shows "prefix P P' \<and> (table_ok P \<longrightarrow> position_ok (symbol, pos) \<longrightarrow> table_ok P')"
  using assms
  using assms by (auto simp: observe_def table_ok_def split: option.splits if_splits)

lemma visit_symbol_step:
  assumes "snd (visit_symbol OD D o_file file_rom_start P symbol) = Inr P'"
  shows "prefix P P' \<and> (table_ok P \<longrightarrow> table_ok P')"
proof -
  from assms obtain r where r: "print_symbol_position_diff OD D symbol o_file file_rom_start = Inr r"
    and rest: "snd (case r of None \<Rightarrow> io_return P | Some p \<Rightarrow> observe P symbol (path_name o_file) p) = Inr P'"
    by (auto simp: visit_symbol_def snd_iobind ebind_eq_Inr)
  show ?thesis
  proof (cases r)
    case None
    with rest show ?thesis by simp
  next
    case (Some p)
    obtain b u d where p: "p = (b, u, d)" by (cases p)
    with r Some have "position_ok (symbol, p)"
      using print_symbol_position_diff_Some [of OD D symbol o_file file_rom_start b u d]
      by (auto simp: position_ok_def)
    with rest Some observe_step [of P symbol "path_name o_file" p P'] show ?thesis by simp
  qed
qed

lemma visit_symbols_step:
  "snd (visit_symbols OD D o_file file_rom_start P symbols) = Inr P' \<Longrightarrow>
   prefix P P' \<and> (table_ok P \<longrightarrow> table_ok P')"
proof (induction symbols arbitrary: P)
  case Nil
  then show ?case by simp
next
  case (Cons symbol symbols)
  then obtain P1 where "snd (visit_symbol OD D o_file file_rom_start P symbol) = Inr P1"
    and "snd (visit_symbols OD D o_file file_rom_start P1 symbols) = Inr P'"
    by (auto simp: snd_iobind ebind_eq_Inr)
  with Cons.IH visit_symbol_step show ?case by (meson prefix_order.order_trans)
qed

lemma visit_o_file_step:
  "snd (visit_o_file OT OD D master_o_file bss_symbols P entry) = Inr P' \<Longrightarrow>
   prefix P P' \<and> (table_ok P \<longrightarrow> table_ok P')"
  by (auto simp: visit_o_file_def snd_iobind ebind_eq_Inr split: prod.splits if_splits
      dest: visit_symbols_step)

lemma visit_o_files_step:
  "snd (visit_o_files OT OD D master_o_file bss_symbols P entries) = Inr P' \<Longrightarrow>
   prefix P P' \<and> (table_ok P \<longrightarrow> table_ok P')"
proof (induction entries arbitrary: P)
  case Nil
  then show ?case by simp
next
  case (Cons entry entries)
  then obtain P1 where "snd (visit_o_file OT OD D master_o_file bss_symbols P entry) = Inr P1"
    and "snd (visit_o_files OT OD D master_o_file bss_symbols P1 entries) = Inr P'"
    by (auto simp: snd_iobind ebind_eq_Inr)
  with Cons.IH visit_o_file_step show ?case by (meson prefix_order.order_trans)
qed

lemma map_of_prefix:
  "prefix P P' \<Longrightarrow> map_of P s = Some v \<Longrightarrow> map_of P' s = Some v"
  by (auto simp: prefix_def map_add_Some_iff)

lemma insort_key_map:
  "insort_key fst (g x) (map g ys) = map g (insort_key (\<lambda>a. fst (g a)) x ys)"
  by (induction ys) simp_all

lemma sort_key_map:
  "sort_key fst (map g xs) = map g (sort_key (\<lambda>a. fst (g a)) xs)"
  by (induction xs) (simp_all add: insort_key_map)

lemma zip_map_self: "zip (map f xs) xs = map (\<lambda>x. (f x, x)) xs"
  by (induction xs) simp_all

lemma report_keys:
  "list_all position_ok P \<Longrightarrow>
   map_res (\<lambda>(symbol, (baserom, builtrom, diff)). py_int16 baserom) P = Inr (map base_address P)"
  by (rule map_res_Inr)
    (auto simp: list_all_iff position_ok_def base_address_def split: sum.split)

lemma report_entries_sort_key:
  "list_all position_ok P \<Longrightarrow> report_entries P = Inr (sort_key base_address P)"
  by (simp add: report_entries_def report_keys zip_map_self sort_key_map comp_def)

section \<open>The example build, evaluated\<close>

lemma example_offsets:
  "get_o_files_and_offsets (\<lambda>p. False) example_map ''sm64'' = ([''done parsing map''], Inr [(''sm64/build/eu/src/game/camera.o'', ''0x800''), (''sm64/build/eu/src/game/mario.o'', ''0x900'')])"
  by code_simp

lemma example_symbols:
  "get_symbols example_symtab ''camera.o'' ''.bss'' = Inr [''gB'', ''gA'']"
  "get_symbols example_symtab ''sm64/build/eu/src/game/mario.o'' ''*UND*'' = Inr [''gA'']"
  by code_simp+

lemma example_positions:
  "print_symbol_position_diff example_objdump example_disasm ''gB'' ''sm64/build/eu/src/game/camera.o'' ''0x800''
     = Inr (Some (''0x80340010'', ''0x80340010'', ''0x0''))"
  "print_symbol_position_diff example_objdump example_disasm ''gA'' ''sm64/build/eu/src/game/camera.o'' ''0x800''
     = Inr (Some (''0x80340008'', ''0x80340008'', ''0x0''))"
  "print_symbol_position_diff example_objdump example_disasm ''gA'' ''sm64/build/eu/src/game/mario.o'' ''0x900''
     = Inr (Some (''0x8034000c'', ''0x8034000c'', ''0x0''))"
  by code_simp+

lemma example_names:
  "path_name ''sm64/build/eu/src/game/camera.o'' = ''camera.o''"
  "path_name ''sm64/build/eu/src/game/mario.o'' = ''mario.o''"
  "path_name ''camera.o'' = ''camera.o''"
  by code_simp+

lemma example_keys:
  "py_int16 ''0x80340008'' = Inr 0x80340008"
  "py_int16 ''0x80340010'' = Inr 0x80340010"
  by code_simp+

lemma example_table:
  "visit_o_files example_symtab example_objdump example_disasm ''camera.o'' [''gB'', ''gA''] []
     [(''sm64/build/eu/src/game/camera.o'', ''0x800''), (''sm64/build/eu/src/game/mario.o'', ''0x900'')] =
   ([''inconsistent position info for gA: '' @ position_repr (''0x80340008'', ''0x80340008'', ''0x0'') @
       '' vs '' @ position_repr (''0x8034000c'', ''0x8034000c'', ''0x0'') @ '' in mario.o''],
    Inr [(''gB'', (''0x80340010'', ''0x80340010'', ''0x0'')), (''gA'', (''0x80340008'', ''0x80340008'', ''0x0''))])"
  by (simp add: visit_o_file_def visit_symbol_def observe_def example_symbols example_positions
      example_names)

lemma example_table_ok: "table_ok [(''gB'', (''0x80340010'', ''0x80340010'', ''0x0'')), (''gA'', (''0x80340008'', ''0x80340008'', ''0x0''))]"
  by (simp add: table_ok_def position_ok_def example_keys)

lemma example_abort:
  "print_symbol_position_diff example_objdump (\<lambda>rom arg. ''nop'') ''gB'' ''sm64/build/eu/src/game/camera.o'' ''0x800'' = Inl ValueError"
  by code_simp

section \<open>Properties\<close>

text \<open>
  Claim C4. Visiting the objects keeps the table a dict whose stored base-ROM addresses
  parse, and only ever appends to it: a position recorded for a symbol is never replaced
  by a later object's (first observation wins).
\<close>

theorem visit_o_files_invariant:
  assumes "table_ok P"
    and "snd (visit_o_files OT OD D master_o_file bss_symbols P entries) = Inr P'"
  shows "table_ok P' \<and> prefix P P' \<and> (\<forall>s v. map_of P s = Some v \<longrightarrow> map_of P' s = Some v)"
proof -
  have "prefix P P'" and "table_ok P'"
    using visit_o_files_step [OF assms(2)] assms(1) by simp_all
  then show ?thesis using map_of_prefix [of P P'] by simp
qed

text \<open>
  Claim C5. The printed report: on a table reached by the scan, computing the sort keys
  never raises, the entries are exactly the table's, sorted by base-ROM address, and
  symbols at the same address keep the order in which they were first seen.
\<close>

theorem report_entries_sorted:
  assumes "table_ok P"
  shows "\<exists>es. report_entries P = Inr es \<and> sorted (map base_address es) \<and> mset es = mset P \<and>
           (\<forall>k. filter (\<lambda>e. base_address e = k) es = filter (\<lambda>e. base_address e = k) P)"
proof (intro exI conjI allI)
  show "report_entries P = Inr (sort_key base_address P)"
    using assms by (simp add: table_ok_def report_entries_sort_key)
  show "sorted (map base_address (sort_key base_address P))"
    by (rule sorted_sort_key)
  show "mset (sort_key base_address P) = mset P"
    by (rule mset_sort)
  show "filter (\<lambda>e. base_address e = k) (sort_key base_address P) =
        filter (\<lambda>e. base_address e = k) P" for k
    by (rule sort_key_stable)
qed

theorem visit_o_files_invariant_witness:
  "table_ok [(''gB'', (''0x80340010'', ''0x80340010'', ''0x0'')), (''gA'', (''0x80340008'', ''0x80340008'', ''0x0''))]"
proof -
  have t: "table_ok []" by (simp add: table_ok_def)
  have h: "snd (visit_o_files example_symtab example_objdump example_disasm ''camera.o'' [''gB'', ''gA''] []
     [(''sm64/build/eu/src/game/camera.o'', ''0x800''), (''sm64/build/eu/src/game/mario.o'', ''0x900'')]) = Inr [(''gB'', (''0x80340010'', ''0x80340010'', ''0x0'')), (''gA'', (''0x80340008'', ''0x80340008'', ''0x0''))]"
    by (simp only: example_table snd_conv)
  show ?thesis using visit_o_files_invariant [OF t h] by (rule conjunct1)
qed

theorem report_entries_sorted_witness:
  "report_entries [(''gB'', (''0x80340010'', ''0x80340010'', ''0x0'')), (''gA'', (''0x80340008'', ''0x80340008'', ''0x0''))] =
   Inr [(''gA'', (''0x80340008'', ''0x80340008'', ''0x0'')), (''gB'', (''0x80340010'', ''0x80340010'', ''0x0''))]"
proof -
  from report_entries_sorted [OF example_table_ok] obtain es where
    "report_entries [(''gB'', (''0x80340010'', ''0x80340010'', ''0x0'')), (''gA'', (''0x80340008'', ''0x80340008'', ''0x0''))] = Inr es"
    "sorted (map base_address es)" "mset es = mset [(''gB'', (''0x80340010'', ''0x80340010'', ''0x0'')), (''gA'', (''0x80340008'', ''0x80340008'', ''0x0''))]" by blast
  then show ?thesis by (simp add: report_entries_def example_keys)
qed

text \<open>
  Claim C9. A symbol already in the table at a different position: the visit prints one
  warning naming the stored position, the new one and the later object's name (not the
  earlier one's), and leaves the table unchanged.
\<close>

theorem visit_symbol_conflict:
  assumes "print_symbol_position_diff OD D symbol o_file file_rom_start = Inr (Some pos)"
    and "map_of P symbol = Some old" and "old \<noteq> pos"
  shows "visit_symbol OD D o_file file_rom_start P symbol =
    ([''inconsistent position info for '' @ symbol @ '': '' @ position_repr old @ '' vs '' @
      position_repr pos @ '' in '' @ path_name o_file], Inr P)"
  by (simp add: visit_symbol_def observe_def assms)

theorem visit_symbol_conflict_witness:
  "visit_symbol example_objdump example_disasm ''sm64/build/eu/src/game/mario.o'' ''0x900'' [(''gB'', (''0x80340010'', ''0x80340010'', ''0x0'')), (''gA'', (''0x80340008'', ''0x80340008'', ''0x0''))] ''gA'' =
    ([''inconsistent position info for gA: '' @ position_repr (''0x80340008'', ''0x80340008'', ''0x0'') @
       '' vs '' @ position_repr (''0x8034000c'', ''0x8034000c'', ''0x0'') @ '' in mario.o''], Inr [(''gB'', (''0x80340010'', ''0x80340010'', ''0x0'')), (''gA'', (''0x80340008'', ''0x80340008'', ''0x0''))])"
  using visit_symbol_conflict [OF example_positions(3), of "[(''gB'', (''0x80340010'', ''0x80340010'', ''0x0'')), (''gA'', (''0x80340008'', ''0x80340008'', ''0x0''))]"
    "(''0x80340008'', ''0x80340008'', ''0x0'')"]
  by (simp add: example_names)

text \<open>
  Claim C10. Nothing catches an exception of the address reconstruction: when the first
  candidate symbol of the master raises, the scan ends there with that exception, having
  printed nothing, and no later symbol or object is visited.
\<close>

theorem visit_o_files_abort:
  assumes "path_name o_file = path_name master_o_file"
    and "print_symbol_position_diff OD D symbol o_file file_rom_start = Inl e"
  shows "visit_o_files OT OD D master_o_file (symbol # bss_symbols) P ((o_file, file_rom_start) # entries) =
    ([], Inl e)"
  by (simp add: visit_o_file_def visit_symbol_def assms)

theorem visit_o_files_abort_witness:
  "visit_o_files example_symtab example_objdump (\<lambda>rom arg. ''nop'') ''camera.o'' [''gB'', ''gA''] []
     [(''sm64/build/eu/src/game/camera.o'', ''0x800''), (''sm64/build/eu/src/game/mario.o'', ''0x900'')] = ([], Inl ValueError)"
  by (rule visit_o_files_abort) (simp add: example_names, rule example_abort)

text \<open>
  Claim C16. The three strings stored for a symbol read back: both addresses parse with
  \<open>int(_, 16)\<close>, and the stored difference parses to their difference.
\<close>

theorem position_diff_roundtrip:
  assumes "print_symbol_position_diff OD D symbol o_file file_rom_start = Inr (Some (b, u, d))"
  shows "\<exists>ib iu. py_int16 b = Inr ib \<and> py_int16 u = Inr iu \<and> py_int16 d = Inr (ib - iu)"
  using print_symbol_position_diff_Some [OF assms] by (auto simp: py_int16_py_hex)

theorem position_diff_roundtrip_witness:
  "py_int16 ''0x0'' = Inr (0x80340010 - 0x80340010)"
  using position_diff_roundtrip [OF example_positions(1)] by (simp add: example_keys)

text \<open>
  The example build end to end: the map gives both objects, the master's
  \<open>.bss\<close> symbols are located, \<open>mario.o\<close>'s different reading of \<open>gA\<close> is printed as a
  warning and not stored, and the report lists \<open>gA\<close> before \<open>gB\<close> by address.
\<close>

theorem order_bss_main_example:
  "order_bss_main (\<lambda>p. False) example_map (Some ''tools'') example_symtab example_objdump
     example_disasm ''sm64'' ''camera.o'' =
   ([''done parsing map'',
     ''inconsistent position info for gA: '' @ position_repr (''0x80340008'', ''0x80340008'', ''0x0'') @
       '' vs '' @ position_repr (''0x8034000c'', ''0x8034000c'', ''0x0'') @ '' in mario.o'',
     ''gA: baserom=0x80340008, builtrom=0x80340008... diff=0x0'',
     ''gB: baserom=0x80340010, builtrom=0x80340010... diff=0x0''], Inr ())"
  by (simp add: order_bss_main_def example_offsets example_symbols(1) example_table
      report_entries_def example_keys report_line_def del: visit_o_files.simps)

end
