(* ===== verification/FileOrder.thy ===== *)
theory FileOrder
  imports Report "HOL-Library.AList"
begin

text \<open>
  File Ordering: the \<open>__main__\<close> block of \<open>src/order_data.py\<close> (lines 132-165). For every
  object of the linker map, the \<open>.data\<close> symbols are located with \<open>get_real_ram_addr\<close>;
  any exception of one symbol is caught and printed as \<open>whatever...\<close>. The largest
  address of the object is its key in \<open>file_order\<close> (a dict: an object listed twice keeps
  its first position and its last value), \<open>-1\<close> meaning none was found; the objects are
  printed sorted by that key. The per-object loop state is the record \<open>file_scan\<close>,
  \<open>None\<close> standing for \<open>float("inf")\<close>.
\<close>

record file_scan =
  min_symbol :: "int option"
  max_symbol :: int

definition scan_init :: file_scan where
  "scan_init = \<lparr>min_symbol = None, max_symbol = -1\<rparr>"

text \<open>\<open>min(min_symbol, x)\<close>, where \<open>min_symbol\<close> starts as \<open>float("inf")\<close>.\<close>

definition min_inf :: "int option \<Rightarrow> int \<Rightarrow> int option" where
  "min_inf m x = Some (case m of None \<Rightarrow> x | Some a \<Rightarrow> min a x)"

text \<open>Lines 148-158: one symbol inside \<open>try ... except Exception\<close>.\<close>

definition visit_data_symbol ::
  "objdump \<Rightarrow> disasm \<Rightarrow> string \<Rightarrow> string \<Rightarrow> file_scan \<Rightarrow> string \<Rightarrow> file_scan io" where
  "visit_data_symbol OD D o_file file_rom_start st symbol =
     (case get_real_ram_addr OD D symbol o_file file_rom_start of
        (out, Inl e) \<Rightarrow> (out @ [''whatever...''], Inr st)
      | (out, Inr None) \<Rightarrow> (out, Inr st)
      | (out, Inr (Some ram_addr)) \<Rightarrow>
          if ram_addr = [] then (out, Inr st)
          else (case py_int16 ram_addr of
              Inl e \<Rightarrow> (out @ [symbol @ '': '' @ ram_addr, ''whatever...''], Inr st)
            | Inr i \<Rightarrow> (out @ [symbol @ '': '' @ ram_addr],
                Inr (st\<lparr>min_symbol := min_inf (min_symbol st) i, max_symbol := max (max_symbol st) i\<rparr>))))"

fun visit_data_symbols ::
  "objdump \<Rightarrow> disasm \<Rightarrow> string \<Rightarrow> string \<Rightarrow> file_scan \<Rightarrow> string list \<Rightarrow> file_scan io" where
  "visit_data_symbols OD D o_file file_rom_start st [] = io_return st"
| "visit_data_symbols OD D o_file file_rom_start st (symbol # symbols) =
     iobind (visit_data_symbol OD D o_file file_rom_start st symbol)
       (\<lambda>st'. visit_data_symbols OD D o_file file_rom_start st' symbols)"

text \<open>Lines 144-162: one object.\<close>

definition visit_data_o_file ::
  "symtab \<Rightarrow> objdump \<Rightarrow> disasm \<Rightarrow> (string \<times> int) list \<Rightarrow> string \<times> string \<Rightarrow> (string \<times> int) list io" where
  "visit_data_o_file OT OD D file_order entry =
     (case entry of (o_file, file_rom_start) \<Rightarrow>
       iobind (io_lift (get_symbols_data OT o_file)) (\<lambda>symbols.
       iobind (visit_data_symbols OD D o_file file_rom_start scan_init symbols) (\<lambda>st.
         if max_symbol st \<noteq> -1 then io_return (AList.update o_file (max_symbol st) file_order)
         else ([''no info about '' @ o_file], Inr file_order))))"

fun visit_data_o_files ::
  "symtab \<Rightarrow> objdump \<Rightarrow> disasm \<Rightarrow> (string \<times> int) list \<Rightarrow> (string \<times> string) list \<Rightarrow> (string \<times> int) list io" where
  "visit_data_o_files OT OD D file_order [] = io_return file_order"
| "visit_data_o_files OT OD D file_order (entry # entries) =
     iobind (visit_data_o_file OT OD D file_order entry)
       (\<lambda>file_order'. visit_data_o_files OT OD D file_order' entries)"

text \<open>\<open>print(fileinfo)\<close> of a \<open>(PosixPath, int)\<close> tuple.\<close>

definition file_order_line :: "string \<times> int \<Rightarrow> string" where
  "file_order_line e = (case e of (o_file, m) \<Rightarrow>
     ''(PosixPath('' @ py_quote o_file @ ''), '' @ py_str_int m @ '')'')"

definition order_data_main ::
  "(string \<Rightarrow> bool) \<Rightarrow> string \<Rightarrow> string option \<Rightarrow> symtab \<Rightarrow> objdump \<Rightarrow> disasm \<Rightarrow> string \<Rightarrow> unit io" where
  "order_data_main is_file map_text sm64_tools OT OD D sm64_source =
     iobind (get_o_files_and_offsets_data is_file map_text sm64_source) (\<lambda>o_files_and_offsets.
     if sm64_tools = None \<or> sm64_tools = Some [] then ([], Inl NoTools) else
     iobind (visit_data_o_files OT OD D [] o_files_and_offsets) (\<lambda>file_order.
     (map file_order_line (sort_key snd file_order), Inr ())))"

section \<open>A declarative reading\<close>

text \<open>
  The address a symbol contributes, if any: \<open>get_real_ram_addr\<close> returned a non-empty
  string that parses. The addresses of an object are those of its symbols in order.
\<close>

definition located :: "objdump \<Rightarrow> disasm \<Rightarrow> string \<Rightarrow> string \<Rightarrow> string \<Rightarrow> int option" where
  "located OD D o_file file_rom_start symbol =
     (case snd (get_real_ram_addr OD D symbol o_file file_rom_start) of
        Inr (Some ram_addr) \<Rightarrow>
          if ram_addr = [] then None
          else (case py_int16 ram_addr of Inr i \<Rightarrow> Some i | Inl e \<Rightarrow> None)
      | _ \<Rightarrow> None)"

definition located_addresses ::
  "objdump \<Rightarrow> disasm \<Rightarrow> string \<Rightarrow> string \<Rightarrow> string list \<Rightarrow> int list" where
  "located_addresses OD D o_file file_rom_start symbols =
     List.map_filter (located OD D o_file file_rom_start) symbols"

definition file_max :: "symtab \<Rightarrow> objdump \<Rightarrow> disasm \<Rightarrow> string \<Rightarrow> string \<Rightarrow> int" where
  "file_max OT OD D o_file file_rom_start =
     (case get_symbols_data OT o_file of
        Inl e \<Rightarrow> -1
      | Inr symbols \<Rightarrow> Max (insert (-1) (set (located_addresses OD D o_file file_rom_start symbols))))"

text \<open>The dict after one object: its key is set (in place if present) when it has info.\<close>

definition record_file :: "symtab \<Rightarrow> objdump \<Rightarrow> disasm \<Rightarrow> string \<times> string \<Rightarrow> (string \<times> int) list \<Rightarrow> (string \<times> int) list" where
  "record_file OT OD D entry file_order = (case entry of (o_file, file_rom_start) \<Rightarrow>
     let m = file_max OT OD D o_file file_rom_start in
     if m \<noteq> -1 then AList.update o_file m file_order else file_order)"

section \<open>An example build\<close>

text \<open>
  The build of \<open>Report\<close> seen by \<open>order_data.py\<close>: \<open>gB\<close> and \<open>gA\<close> are \<open>.data\<close>
  symbols of \<open>camera.o\<close>, \<open>gA\<close> one of \<open>mario.o\<close>.
\<close>

definition example_data_symtab :: symtab where
  "example_data_symtab f = (if f = ''sm64/build/eu/src/game/camera.o''
     then ''00000000 l    d  .data  00000000 .data\<newline>00000010 l     O .data  00000004 gB\<newline>00000000 l     O .data  00000004 gA''
     else ''00000000 l     O .data  00000004 gA'')"

section \<open>Lemmas\<close>

lemma visit_data_symbol_step:
  "snd (visit_data_symbol OD D o_file file_rom_start st symbol) =
   Inr (case located OD D o_file file_rom_start symbol of
          None \<Rightarrow> st
        | Some i \<Rightarrow> st\<lparr>min_symbol := min_inf (min_symbol st) i, max_symbol := max (max_symbol st) i\<rparr>)"
  by (simp add: visit_data_symbol_def located_def split: prod.split sum.split option.split)

lemma visit_data_symbols_fold:
  "snd (visit_data_symbols OD D o_file file_rom_start st symbols) =
   Inr \<lparr>min_symbol = fold (\<lambda>i m. min_inf m i) (located_addresses OD D o_file file_rom_start symbols) (min_symbol st),
       max_symbol = fold max (located_addresses OD D o_file file_rom_start symbols) (max_symbol st)\<rparr>"
proof (induction symbols arbitrary: st)
  case Nil
  then show ?case by (simp add: located_addresses_def map_filter_simps)
next
  case (Cons symbol symbols)
  show ?case
    using Cons.IH visit_data_symbol_step [of OD D o_file file_rom_start st symbol]
    by (cases "visit_data_symbol OD D o_file file_rom_start st symbol")
      (auto simp: located_addresses_def map_filter_simps snd_iobind max.commute split: option.split)
qed

lemma min_inf_simps [simp]:
  "min_inf None x = Some x"
  "min_inf (Some a) x = Some (min a x)"
  by (simp_all add: min_inf_def)

lemma fold_min_inf:
  "fold (\<lambda>i m. min_inf m i) xs (Some a) = Some (fold min xs a)"
  by (induction xs arbitrary: a) (simp_all add: min.commute)

lemma fold_min_inf_None:
  "fold (\<lambda>i m. min_inf m i) xs None = (if xs = [] then None else Some (Min (set xs)))"
  by (cases xs) (simp_all add: fold_min_inf Min.set_eq_fold [symmetric])

lemma fold_max_neg1: "fold max xs (-1::int) = Max (insert (-1) (set xs))"
  using Max.set_eq_fold [of "-1::int" xs] by simp

lemma visit_data_o_file_step:
  "snd (visit_data_o_file OT OD D file_order entry) = Inr (record_file OT OD D entry file_order)"
  by (cases entry)
    (simp add: visit_data_o_file_def record_file_def file_max_def get_symbols_data_total
      snd_iobind visit_data_symbols_fold scan_init_def fold_max_neg1 Let_def)

lemma visit_data_o_files_fold:
  "snd (visit_data_o_files OT OD D file_order entries) = Inr (fold (record_file OT OD D) entries file_order)"
proof (induction entries arbitrary: file_order)
  case Nil
  then show ?case by simp
next
  case (Cons entry entries)
  then show ?case
    by (simp add: snd_iobind visit_data_o_file_step)
qed

lemma update_fresh: "k \<notin> set (map fst al) \<Longrightarrow> AList.update k v al = al @ [(k, v)]"
  by (induction al) auto

lemma fold_record_file_fresh:
  "distinct (map fst entries) \<Longrightarrow> set (map fst entries) \<inter> set (map fst file_order) = {} \<Longrightarrow>
   fold (record_file OT OD D) entries file_order =
   file_order @ List.map_filter (\<lambda>(o_file, file_rom_start).
     if file_max OT OD D o_file file_rom_start \<noteq> -1
     then Some (o_file, file_max OT OD D o_file file_rom_start) else None) entries"
proof (induction entries arbitrary: file_order)
  case Nil
  then show ?case by (simp add: map_filter_simps)
next
  case (Cons entry entries)
  obtain o_file file_rom_start where e: "entry = (o_file, file_rom_start)" by (cases entry)
  show ?case
  proof (cases "file_max OT OD D o_file file_rom_start = -1")
    case True
    with Cons e show ?thesis by (simp add: record_file_def map_filter_simps)
  next
    case False
    have "o_file \<notin> set (map fst file_order)" using Cons.prems e by auto
    with Cons False e show ?thesis
      by (simp add: record_file_def map_filter_simps update_fresh)
  qed
qed

lemma example_data_file_max:
  "file_max example_data_symtab example_objdump example_disasm ''sm64/build/eu/src/game/camera.o'' ''0x800'' = 0x80340010"
  "file_max example_data_symtab example_objdump example_disasm ''sm64/build/eu/src/game/mario.o'' ''0x900'' = 0x8034000c"
  by code_simp+

lemma example_data_offsets:
  "get_o_files_and_offsets_data (\<lambda>p. False) example_map ''sm64'' =
   ([''encountered engine - done parsing map''], Inr [(''sm64/build/eu/src/game/camera.o'', ''0x800''), (''sm64/build/eu/src/game/mario.o'', ''0x900'')])"
  by code_simp

section \<open>Properties\<close>

text \<open>
  Claim C18. The per-symbol loop of one object never raises, and leaves \<open>max_symbol\<close> the
  largest located address or \<open>-1\<close>, and \<open>min_symbol\<close> the smallest (\<open>inf\<close> if none).
\<close>

theorem visit_data_symbols_min_max:
  "snd (visit_data_symbols OD D o_file file_rom_start scan_init symbols) =
   Inr \<lparr>min_symbol = (let L = located_addresses OD D o_file file_rom_start symbols in
                       if L = [] then None else Some (Min (set L))),
       max_symbol = Max (insert (-1) (set (located_addresses OD D o_file file_rom_start symbols)))\<rparr>"
  by (simp add: visit_data_symbols_fold scan_init_def fold_min_inf_None fold_max_neg1 Let_def)

text \<open>
  Claim C12. With distinct objects in the map, the object loop never raises and
  \<open>file_order\<close> is, in map order, each object with its largest located address, objects
  without one (largest \<open>-1\<close>) left out.
\<close>

theorem visit_data_o_files_spec:
  assumes "distinct (map fst entries)"
  shows "snd (visit_data_o_files OT OD D [] entries) =
    Inr (List.map_filter (\<lambda>(o_file, file_rom_start).
      if file_max OT OD D o_file file_rom_start \<noteq> -1
      then Some (o_file, file_max OT OD D o_file file_rom_start) else None) entries)"
  using fold_record_file_fresh [OF assms, of "[]"] by (simp add: visit_data_o_files_fold)

theorem visit_data_o_files_spec_witness:
  "snd (visit_data_o_files example_data_symtab example_objdump example_disasm [] [(''sm64/build/eu/src/game/camera.o'', ''0x800''), (''sm64/build/eu/src/game/mario.o'', ''0x900'')]) =
   Inr [(''sm64/build/eu/src/game/camera.o'', 0x80340010), (''sm64/build/eu/src/game/mario.o'', 0x8034000c)]"
  using visit_data_o_files_spec [of "[(''sm64/build/eu/src/game/camera.o'', ''0x800''), (''sm64/build/eu/src/game/mario.o'', ''0x900'')]" example_data_symtab example_objdump example_disasm]
  by (simp add: map_filter_simps example_data_file_max)

text \<open>
  Claim C13. Unlike \<open>order_bss.py\<close>, an exception while locating one symbol is caught:
  \<open>whatever...\<close> is printed after what the attempt printed, and the loop goes on with
  the next symbol from the same state.
\<close>

theorem visit_data_symbols_catch:
  assumes "get_real_ram_addr OD D symbol o_file file_rom_start = (out, Inl e)"
  shows "visit_data_symbols OD D o_file file_rom_start st (symbol # symbols) =
    (out @ ''whatever...'' # fst (visit_data_symbols OD D o_file file_rom_start st symbols),
     snd (visit_data_symbols OD D o_file file_rom_start st symbols))"
  by (simp add: visit_data_symbol_def assms)

theorem visit_data_symbols_catch_witness:
  "visit_data_symbols (\<lambda>f. ''  10: R_MIPS_26 gA'') example_disasm ''sm64/build/eu/src/game/camera.o'' ''0x800'' scan_init [''gA''] =
   ([''whatever...''], Inr scan_init)"
proof -
  have "get_real_ram_addr (\<lambda>f. ''  10: R_MIPS_26 gA'') example_disasm ''gA'' ''sm64/build/eu/src/game/camera.o'' ''0x800'' =
    ([], Inl (UnsureReloc ''gA'' ''  10: R_MIPS_26 gA''))"
    by code_simp
  from visit_data_symbols_catch [OF this, of scan_init "[]"] show ?thesis by simp
qed

text \<open>
  Claim C20. \<open>-1\<close> is both the "no address" sentinel and an address: an object whose
  located addresses are all at most \<open>-1\<close> (possible when the \<open>lui\<close> immediate is 0 and
  the low half negative) is reported as \<open>no info about\<close> and left out of \<open>file_order\<close>.
\<close>

theorem visit_data_o_file_sentinel:
  assumes "get_symbols_data OT o_file = Inr symbols"
    and "\<forall>i \<in> set (located_addresses OD D o_file file_rom_start symbols). i \<le> -1"
  shows "visit_data_o_file OT OD D file_order (o_file, file_rom_start) =
    (fst (visit_data_symbols OD D o_file file_rom_start scan_init symbols) @ [''no info about '' @ o_file],
     Inr file_order)"
proof -
  have "Max (insert (-1) (set (located_addresses OD D o_file file_rom_start symbols))) = -1"
    using assms(2) by (simp add: Max_insert2)
  then show ?thesis
    using visit_data_symbols_fold [of OD D o_file file_rom_start scan_init symbols]
    by (cases "visit_data_symbols OD D o_file file_rom_start scan_init symbols")
      (simp add: visit_data_o_file_def assms(1) scan_init_def fold_max_neg1)
qed

theorem visit_data_o_file_sentinel_witness:
  "visit_data_o_file (\<lambda>f. ''00000000 l     O .data  00000004 gA'') (\<lambda>f. ''  10: R_MIPS_HI16 gA\<newline>  14: R_MIPS_LO16 gA'')
     (\<lambda>rom arg. if arg = ''0x80200000:0x10+0x4'' then ''lui   $at, 0x0'' else ''addiu $a0, $at, -0x1'')
     [] (''a.o'', ''0x0'') = ([''gA: -0x1'', ''no info about a.o''], Inr [])"
proof -
  have s: "get_symbols_data (\<lambda>f. ''00000000 l     O .data  00000004 gA'') ''a.o'' = Inr [''gA'']"
    by code_simp
  have l: "located_addresses (\<lambda>f. ''  10: R_MIPS_HI16 gA\<newline>  14: R_MIPS_LO16 gA'')
     (\<lambda>rom arg. if arg = ''0x80200000:0x10+0x4'' then ''lui   $at, 0x0'' else ''addiu $a0, $at, -0x1'')
     ''a.o'' ''0x0'' [''gA''] = [-1]"
    by code_simp
  have v: "fst (visit_data_symbols (\<lambda>f. ''  10: R_MIPS_HI16 gA\<newline>  14: R_MIPS_LO16 gA'')
     (\<lambda>rom arg. if arg = ''0x80200000:0x10+0x4'' then ''lui   $at, 0x0'' else ''addiu $a0, $at, -0x1'')
     ''a.o'' ''0x0'' scan_init [''gA'']) = [''gA: -0x1'']"
    by code_simp
  have h: "\<forall>i \<in> set (located_addresses (\<lambda>f. ''  10: R_MIPS_HI16 gA\<newline>  14: R_MIPS_LO16 gA'')
     (\<lambda>rom arg. if arg = ''0x80200000:0x10+0x4'' then ''lui   $at, 0x0'' else ''addiu $a0, $at, -0x1'')
     ''a.o'' ''0x0'' [''gA'']). i \<le> -1"
    by (simp add: l)
  show ?thesis using visit_data_o_file_sentinel [OF s h, of "[]", unfolded v] by simp
qed

text \<open>
  Claim C19. Once the map has been read and \<open>SM64_TOOLS\<close> is set, \<open>order_data.py\<close>
  never raises, and its last lines are the recorded objects sorted by their largest
  address, each once.
\<close>

theorem order_data_main_sorted:
  assumes "get_o_files_and_offsets_data is_file map_text sm64_source = (out, Inr o_files_and_offsets)"
    and "sm64_tools = Some t" and "t \<noteq> []"
  shows "\<exists>out' es. order_data_main is_file map_text sm64_tools OT OD D sm64_source =
      (out @ out' @ map file_order_line es, Inr ()) \<and> sorted (map snd es) \<and>
      mset es = mset (fold (record_file OT OD D) o_files_and_offsets [])"
proof -
  obtain out' where v: "visit_data_o_files OT OD D [] o_files_and_offsets =
      (out', Inr (fold (record_file OT OD D) o_files_and_offsets []))"
    using visit_data_o_files_fold [of OT OD D "[]" o_files_and_offsets]
    by (cases "visit_data_o_files OT OD D [] o_files_and_offsets") simp
  show ?thesis
    by (intro exI [of _ out'] exI [of _ "sort_key snd (fold (record_file OT OD D) o_files_and_offsets [])"])
      (simp add: order_data_main_def assms v)
qed

theorem order_data_main_sorted_witness:
  "\<exists>out' es. order_data_main (\<lambda>p. False) example_map (Some ''tools'') example_data_symtab example_objdump
      example_disasm ''sm64'' = ([''encountered engine - done parsing map''] @ out' @ map file_order_line es, Inr ()) \<and>
    sorted (map snd es) \<and> mset es = mset [(''sm64/build/eu/src/game/camera.o'', 0x80340010), (''sm64/build/eu/src/game/mario.o'', 0x8034000c)]"
proof -
  have "fold (record_file example_data_symtab example_objdump example_disasm) [(''sm64/build/eu/src/game/camera.o'', ''0x800''), (''sm64/build/eu/src/game/mario.o'', ''0x900'')] [] =
    [(''sm64/build/eu/src/game/camera.o'', 0x80340010), (''sm64/build/eu/src/game/mario.o'', 0x8034000c)]"
    by (simp add: record_file_def example_data_file_max)
  with order_data_main_sorted [OF example_data_offsets, of "Some ''tools''" "''tools''"
      example_data_symtab example_objdump example_disasm]
  show ?thesis by simp
qed

end
