(* ===== verification/Regex.thy ===== *)
theory Regex
  imports PyStr
begin

text \<open>
  Python's \<open>re.match\<close> for the patterns the scripts write: literal characters, \<open>.\<close> (any
  character but a newline), the greedy \<open>.*\<close>, and capturing groups. The matcher is
  Python's backtracking one: \<open>.*\<close> tries the longest run first and gives back one
  character at a time; the first match found in that order is the result, and a group
  holds the text between its parentheses in that match. \<open>re.match\<close> is anchored at the
  start of the string, not at its end.
\<close>

datatype ritem = RLit char | RAny | RStar | ROpen nat | RClose nat

record mstate =
  mpos :: nat
  mopens :: "(nat \<times> nat) list"
  mspans :: "(nat \<times> nat \<times> nat) list"

text \<open>The first candidate, in order, that succeeds.\<close>

fun first_some :: "('a \<Rightarrow> 'b option) \<Rightarrow> 'a list \<Rightarrow> 'b option" where
  "first_some f [] = None"
| "first_some f (x # xs) = (case f x of Some r \<Rightarrow> Some r | None \<Rightarrow> first_some f xs)"

lemma first_some_cong [fundef_cong]:
  "xs = ys \<Longrightarrow> (\<And>x. x \<in> set ys \<Longrightarrow> f x = g x) \<Longrightarrow> first_some f xs = first_some g ys"
  by (induction ys arbitrary: xs) (auto split: option.split)

fun rmatch :: "ritem list \<Rightarrow> string \<Rightarrow> mstate \<Rightarrow> mstate option" where
  "rmatch [] s st = Some st"
| "rmatch (RLit c # ps) s st = (case s of
      [] \<Rightarrow> None
    | x # s' \<Rightarrow> if x = c then rmatch ps s' (st\<lparr>mpos := Suc (mpos st)\<rparr>) else None)"
| "rmatch (RAny # ps) s st = (case s of
      [] \<Rightarrow> None
    | x # s' \<Rightarrow> if x \<noteq> CHR ''\<newline>'' then rmatch ps s' (st\<lparr>mpos := Suc (mpos st)\<rparr>) else None)"
| "rmatch (RStar # ps) s st =
     first_some (\<lambda>k. rmatch ps (drop k s) (st\<lparr>mpos := mpos st + k\<rparr>))
       (rev [0..<Suc (length (takeWhile (\<lambda>x. x \<noteq> CHR ''\<newline>'') s))])"
| "rmatch (ROpen k # ps) s st = rmatch ps s (st\<lparr>mopens := (k, mpos st) # mopens st\<rparr>)"
| "rmatch (RClose k # ps) s st = (case map_of (mopens st) k of
      None \<Rightarrow> None
    | Some b \<Rightarrow> rmatch ps s (st\<lparr>mspans := (k, b, mpos st) # mspans st\<rparr>))"

definition rlits :: "string \<Rightarrow> ritem list" where
  "rlits w = map RLit w"

text \<open>\<open>re.match(pattern, s)\<close>: \<open>None\<close> or the final matcher state.\<close>

definition re_match :: "ritem list \<Rightarrow> string \<Rightarrow> mstate option" where
  "re_match ps s = rmatch ps s \<lparr>mpos = 0, mopens = [], mspans = []\<rparr>"

text \<open>\<open>match.group(k)\<close> of a match on \<open>s\<close>.\<close>

definition re_group :: "string \<Rightarrow> mstate \<Rightarrow> nat \<Rightarrow> string" where
  "re_group s st k = (case map_of (mspans st) k of
      None \<Rightarrow> []
    | Some (b, e) \<Rightarrow> take (e - b) (drop b s))"

section \<open>Lemmas\<close>

lemma first_some_someI: "x \<in> set xs \<Longrightarrow> f x \<noteq> None \<Longrightarrow> first_some f xs \<noteq> None"
  by (induction xs) (auto split: option.split)

text \<open>\<open>.*\<close> succeeds when some run of non-newline characters lets the rest succeed.\<close>

lemma rmatch_star_take:
  assumes "k \<le> length (takeWhile (\<lambda>x. x \<noteq> CHR ''\<newline>'') s)"
    and "rmatch ps (drop k s) (st\<lparr>mpos := mpos st + k\<rparr>) \<noteq> None"
  shows "rmatch (RStar # ps) s st \<noteq> None"
proof -
  have "k \<in> set (rev [0..<Suc (length (takeWhile (\<lambda>x. x \<noteq> CHR ''\<newline>'') s))])"
    using assms(1) by auto
  then show ?thesis
    unfolding rmatch.simps
    by (rule first_some_someI [where f = "\<lambda>k. rmatch ps (drop k s) (st\<lparr>mpos := mpos st + k\<rparr>)"])
      (simp add: assms(2))
qed

lemma rmatch_lits:
  "rmatch (rlits w @ ps) s st =
   (if prefix w s then rmatch ps (drop (length w) s) (st\<lparr>mpos := mpos st + length w\<rparr>) else None)"
proof (induction w arbitrary: s st)
  case Nil
  then show ?case by (simp add: rlits_def)
next
  case (Cons c w)
  then show ?case by (cases s) (auto simp: rlits_def)
qed

end
