(* ===== verification/AddNonmatching.thy ===== *)
theory AddNonmatching
  imports Regex
begin

text \<open>
  \<open>src/add_nonmatching.py\<close>: the interactive workflow that turns the first non-matching
  function into a \<open>GLOBAL_ASM\<close> include. Its effects go through a \<open>world\<close>: standard input
  (a finite list of lines; \<open>input()\<close> past its end raises \<open>EOFError\<close>), standard output
  (the text printed, in order), the file system (paths to contents), the working
  directory (\<open>os.chdir\<close>), the \<open>SM64_TOOLS\<close> variable, the value \<open>random.randint\<close>
  returns, and the external programs: \<open>first-diff.py\<close> and \<open>make\<close> as functions of the
  file system, \<open>mipsdisasm\<close> as a function of its ROM path and address argument.
  A computation is an \<open>'a act\<close>, a state transformer with exceptions. Relative paths are
  resolved against the working directory; directories are not modelled.
\<close>

record world =
  w_stdin :: "string list"
  w_stdout :: "string list"
  w_files :: "string \<Rightarrow> string option"
  w_cwd :: string
  w_env_tools :: "string option"
  w_random :: nat
  w_first_diff :: "(string \<Rightarrow> string option) \<Rightarrow> string"
  w_make :: "(string \<Rightarrow> string option) \<Rightarrow> bool \<times> string"
  w_disasm :: "string \<Rightarrow> string \<Rightarrow> string"

type_synonym 'a act = "world \<Rightarrow> 'a result \<times> world"

section \<open>Actions\<close>

definition areturn :: "'a \<Rightarrow> 'a act" where
  "areturn a w = (Inr a, w)"

definition abind :: "'a act \<Rightarrow> ('a \<Rightarrow> 'b act) \<Rightarrow> 'b act" where
  "abind m f w = (case m w of (Inl e, w') \<Rightarrow> (Inl e, w') | (Inr a, w') \<Rightarrow> f a w')"

definition araise :: "error \<Rightarrow> 'a act" where
  "araise e w = (Inl e, w)"

text \<open>\<open>print(s, end="")\<close> and \<open>print(s)\<close>.\<close>

definition awrite_out :: "string \<Rightarrow> unit act" where
  "awrite_out s w = (Inr (), w\<lparr>w_stdout := w_stdout w @ [s]\<rparr>)"

definition aprint :: "string \<Rightarrow> unit act" where
  "aprint s = awrite_out (s @ ''\<newline>'')"

text \<open>\<open>input(prompt)\<close>: the prompt is written, then a line is read.\<close>

definition ainput :: "string \<Rightarrow> string act" where
  "ainput p w = (case w_stdin w of
      [] \<Rightarrow> (Inl EOFError, w\<lparr>w_stdout := w_stdout w @ [p]\<rparr>)
    | r # rest \<Rightarrow> (Inr r, w\<lparr>w_stdin := rest, w_stdout := w_stdout w @ [p]\<rparr>))"

definition resolve :: "string \<Rightarrow> string \<Rightarrow> string" where
  "resolve cwd p = path_div cwd p"

definition achdir :: "string \<Rightarrow> unit act" where
  "achdir p w = (Inr (), w\<lparr>w_cwd := resolve (w_cwd w) p\<rparr>)"

definition aread :: "string \<Rightarrow> string act" where
  "aread p w = (case w_files w (resolve (w_cwd w) p) of
      None \<Rightarrow> (Inl (FileNotFoundError p), w)
    | Some t \<Rightarrow> (Inr t, w))"

definition aput :: "string \<Rightarrow> string \<Rightarrow> unit act" where
  "aput p t w = (Inr (), w\<lparr>w_files := (w_files w)(resolve (w_cwd w) p \<mapsto> t)\<rparr>)"

text \<open>\<open>f.write(t)\<close> on a file opened for writing: appends to what was written.\<close>

definition aappend :: "string \<Rightarrow> string \<Rightarrow> unit act" where
  "aappend p t w = (let q = resolve (w_cwd w) p in
     (Inr (), w\<lparr>w_files := (w_files w)(q \<mapsto> (case w_files w q of None \<Rightarrow> [] | Some u \<Rightarrow> u) @ t)\<rparr>))"

text \<open>Iterating over a text file: lines with their newline, the last one possibly without.\<close>

fun file_lines_acc :: "string \<Rightarrow> string \<Rightarrow> string list" where
  "file_lines_acc cur [] = (if cur = [] then [] else [cur])"
| "file_lines_acc cur (c # s) =
     (if c = CHR ''\<newline>'' then (cur @ [c]) # file_lines_acc [] s else file_lines_acc (cur @ [c]) s)"

definition file_lines :: "string \<Rightarrow> string list" where
  "file_lines s = file_lines_acc [] s"

section \<open>replace_function (lines 13-33)\<close>

text \<open>\<open>fr"(.*{function}.*) {{"\<close>; function names are C identifiers, so literal.\<close>

definition fn_pattern :: "string \<Rightarrow> ritem list" where
  "fn_pattern function = [ROpen 1, RStar] @ rlits function @ [RStar, RClose 1] @ rlits '' {''"

text \<open>The loop over the lines; what it returns is what \<open>print\<close> writes into the file.\<close>

fun rf_loop :: "string \<Rightarrow> bool \<Rightarrow> string list \<Rightarrow> string list" where
  "rf_loop function inside [] = []"
| "rf_loop function inside (line # lines) =
     (if inside \<and> line = ''}\<newline>'' then [line, ''#endif\<newline>''] @ rf_loop function False lines
      else (case re_match (fn_pattern function) line of
          Some m \<Rightarrow>
            [''#if defined(VERSION_EU) && !defined(NON_MATCHING)\<newline>'',
             re_group line m 1 @ '';\<newline>'',
             ''GLOBAL_ASM(\"asm/non_matchings/'' @ function @ ''_eu.s\")\<newline>'',
             ''#else\<newline>'', line] @ rf_loop function True lines
        | None \<Rightarrow> line # rf_loop function inside lines))"

definition replace_function :: "string \<Rightarrow> string \<Rightarrow> string \<Rightarrow> unit act" where
  "replace_function sm64_source path_to_c_file function =
     (let p = path_div sm64_source path_to_c_file in
      abind (aread p) (\<lambda>text. aput p (concat (rf_loop function False (file_lines text)))))"

section \<open>write_asm (lines 36-72)\<close>

text \<open>\<open>func_\<close> and \<open>D_\<close> become \<open>0x\<close>, local labels get the random prefix.\<close>

definition asm_line :: "string \<Rightarrow> string \<Rightarrow> string" where
  "asm_line rand_seed line =
     py_replace ''.L'' (''.L'' @ rand_seed) (py_replace ''D_'' ''0x'' (py_replace ''func_'' ''0x'' line))"

text \<open>The \<open>for lineno, line in enumerate(...)\<close> loop from line 4 on.\<close>

fun write_asm_loop :: "string \<Rightarrow> string \<Rightarrow> bool \<Rightarrow> string list \<Rightarrow> unit act" where
  "write_asm_loop asm_filename rand_seed should_break [] = areturn ()"
| "write_asm_loop asm_filename rand_seed should_break (line # lines) =
     (let line' = asm_line rand_seed line in
      abind (aappend asm_filename (line' @ ''\<newline>'')) (\<lambda>_.
      abind (aprint line') (\<lambda>_.
      if should_break then areturn ()
      else if sublist ''jr    $ra'' line'
      then abind (ainput ''done? '') (\<lambda>r. write_asm_loop asm_filename rand_seed (r \<noteq> ''n'') lines)
      else write_asm_loop asm_filename rand_seed should_break lines)))"

definition write_asm :: "string \<Rightarrow> string \<Rightarrow> string \<Rightarrow> string act" where
  "write_asm sm64_source function rom_offset w =
     (case w_env_tools w of
        None \<Rightarrow> araise ToolsEnvError w
      | Some [] \<Rightarrow> araise ToolsEnvError w
      | Some sm64_tools \<Rightarrow>
          (let asm = w_disasm w (resolve (w_cwd w) (sm64_source @ ''/baserom.eu.z64''))
                       (''0x80200000:'' @ rom_offset @ ''+0x1000'');
               asm_filename = sm64_source @ ''/asm/non_matchings/'' @ function @ ''_eu.s'';
               rand_seed = py_str_int (int (w_random w)) @ ''_'' in
           abind (aput asm_filename []) (\<lambda>_.
           abind (aappend asm_filename (''glabel '' @ function @ ''\<newline>'')) (\<lambda>_.
           abind (write_asm_loop asm_filename rand_seed False (drop 4 (py_split ''\<newline>'' asm))) (\<lambda>_.
           areturn asm_filename))) w))"

section \<open>get_next_nonmatching, make, prompt (lines 75-109)\<close>

definition first_diff_pattern :: "ritem list" where
  "first_diff_pattern =
     rlits ''First difference at ROM addr '' @ [RStar] @ rlits '', in '' @ [ROpen 1, RStar, RClose 1] @
     rlits '' (ram '' @ [RStar] @ rlits '', rom '' @ [ROpen 2, RStar, RClose 2] @
     rlits '', build/eu/'' @ [ROpen 3, RStar, RClose 3] @ [RAny] @ rlits ''o)''"

fun first_diff_scan :: "string list \<Rightarrow> (string \<times> string \<times> string) result" where
  "first_diff_scan [] = Inl FirstDiffMismatch"
| "first_diff_scan (line # lines) = (case re_match first_diff_pattern line of
      Some m \<Rightarrow> Inr (re_group line m 1, re_group line m 2, re_group line m 3 @ ''.c'')
    | None \<Rightarrow> first_diff_scan lines)"

text \<open>Running a program that is not there raises \<open>FileNotFoundError\<close>.\<close>

definition get_next_nonmatching :: "string \<Rightarrow> (string \<times> string \<times> string) act" where
  "get_next_nonmatching sm64_source =
     abind (achdir sm64_source) (\<lambda>_. \<lambda>w.
       let first_diff_cmd = path_div sm64_source ''first-diff.py'' in
       if w_files w (resolve (w_cwd w) first_diff_cmd) = None
       then (Inl (FileNotFoundError first_diff_cmd), w)
       else (first_diff_scan (py_split ''\<newline>'' (w_first_diff w (w_files w))), w))"

definition make :: "string \<Rightarrow> bool act" where
  "make sm64_source =
     abind (achdir sm64_source) (\<lambda>_. \<lambda>w.
       (case w_make w (w_files w) of (ok, out) \<Rightarrow>
         if ok then (Inr True, w)
         else (Inr False, w\<lparr>w_stdout := w_stdout w @ [py_bytes_repr out @ ''\<newline>'']\<rparr>)))"

definition prompt_valid :: "bool \<Rightarrow> string \<Rightarrow> bool" where
  "prompt_valid question_mark r \<longleftrightarrow> r \<in> set ([''y'', ''n''] @ (if question_mark then [''?''] else []))"

definition prompt_text :: "bool \<Rightarrow> string" where
  "prompt_text question_mark = ''continue? y/n'' @ (if question_mark then ''/?'' else []) @ '': ''"

text \<open>The \<open>while\<close> loop reads a line per round; standard input is finite, so it ends.\<close>

function prompt :: "bool \<Rightarrow> string act" where
  "prompt question_mark w =
     (case w_stdin w of
        [] \<Rightarrow> (Inl EOFError, w\<lparr>w_stdout := w_stdout w @ [prompt_text question_mark]\<rparr>)
      | r # rest \<Rightarrow>
          (let w' = w\<lparr>w_stdin := rest, w_stdout := w_stdout w @ [prompt_text question_mark]\<rparr> in
           if prompt_valid question_mark r then (Inr r, w') else prompt question_mark w'))"
  by pat_completeness auto
termination
  by (relation "measure (\<lambda>(q, w). length (w_stdin w))") auto

section \<open>main (lines 112-160)\<close>

text \<open>Lines 130-160: from writing the asm file on, once the C file path is settled.\<close>

definition main_rest :: "string \<Rightarrow> bool \<Rightarrow> string \<Rightarrow> string \<Rightarrow> string \<Rightarrow> unit act" where
  "main_rest sm64_source no_replace function rom_offset path_to_c_file =
     abind (aprint ''overwriting asm file...'') (\<lambda>_.
     abind (write_asm sm64_source function rom_offset) (\<lambda>asm_filename.
     abind (prompt True) (\<lambda>response.
     abind (if response = ''?''
            then abind (aread asm_filename) (\<lambda>t. abind (aprint t) (\<lambda>_. prompt False))
            else areturn response) (\<lambda>response.
     if response = ''n'' then aprint (''bailing. go delete that asm file ('' @ asm_filename @ '')'') else
     abind (if \<not> no_replace
            then abind (aprint ''injecting c file contents...'') (\<lambda>_.
                   replace_function sm64_source path_to_c_file function)
            else areturn ()) (\<lambda>_.
     abind (aprint ''making...'') (\<lambda>_.
     abind (make sm64_source) (\<lambda>result.
     if \<not> result then aprint ''something went wrong during make. bailing.'' else
     abind (aprint ''first-diffing again...'') (\<lambda>_.
     abind (get_next_nonmatching sm64_source) (\<lambda>(function2, rom_offset2, _).
     if function = function2 \<or> rom_offset = rom_offset2
     then abind (aprint (''functions or rom offsets match ('' @ function2 @ '', '' @ rom_offset2 @ '').'')) (\<lambda>_.
          aprint ''you'll likely have to #define static to find the real next function.'')
     else abind (aprint ''seems different enough.'') (\<lambda>_. aprint ''done''))))))))))"

definition add_nonmatching_main :: "string \<Rightarrow> bool \<Rightarrow> unit act" where
  "add_nonmatching_main sm64_source no_replace =
     abind (aprint ''first-diffing...'') (\<lambda>_.
     abind (get_next_nonmatching sm64_source) (\<lambda>(function, rom_offset, path_to_c_file).
     abind (aprint (''got function = '' @ function @ '', offset = '' @ rom_offset @ '', path = '' @ path_to_c_file)) (\<lambda>_.
     if sublist ''/'' function \<or> sublist ''.'' function then aprint ''function looks wrong. bailing.'' else
     abind (prompt True) (\<lambda>response.
     if response = ''?''
     then abind (aprint ''ok, you want to change the target c file to modify.'') (\<lambda>_.
          abind (aprint ''(this is for .inc.c-type files - behavior_actions in particular)'') (\<lambda>_.
          abind (ainput ''what's the actual c file path?'') (\<lambda>path.
          main_rest sm64_source no_replace function rom_offset path)))
     else if response = ''n'' then aprint ''bailing.''
     else main_rest sm64_source no_replace function rom_offset path_to_c_file))))"

section \<open>Lemmas\<close>

declare prompt.simps [simp del]

lemma abind_Inr:
  "m w = (Inr a, w') \<Longrightarrow> abind m f w = f a w'"
  by (simp add: abind_def)

lemma abind_Inl:
  "m w = (Inl e, w') \<Longrightarrow> abind m f w = (Inl e, w')"
  by (simp add: abind_def)

lemma prompt_step:
  "w_stdin w = r # rest \<Longrightarrow>
   prompt q w = (if prompt_valid q r
                 then (Inr r, w\<lparr>w_stdin := rest, w_stdout := w_stdout w @ [prompt_text q]\<rparr>)
                 else prompt q (w\<lparr>w_stdin := rest, w_stdout := w_stdout w @ [prompt_text q]\<rparr>))"
  by (subst prompt.simps) (simp add: Let_def)

lemma prompt_eof:
  "w_stdin w = [] \<Longrightarrow> prompt q w = (Inl EOFError, w\<lparr>w_stdout := w_stdout w @ [prompt_text q]\<rparr>)"
  by (subst prompt.simps) simp

lemma prompt_skips:
  assumes "w_stdin w = bad @ rest" "\<forall>b \<in> set bad. \<not> prompt_valid q b"
  shows "prompt q w =
    prompt q (w\<lparr>w_stdin := rest, w_stdout := w_stdout w @ replicate (length bad) (prompt_text q)\<rparr>)"
  using assms
proof (induction bad arbitrary: w)
  case Nil
  then have "w\<lparr>w_stdin := rest, w_stdout := w_stdout w @ replicate (length []) (prompt_text q)\<rparr> = w"
    by simp
  then show ?case by simp
next
  case (Cons b bad)
  then show ?case
    by (simp add: prompt_step replicate_append_same [symmetric])
qed

lemma concat_file_lines_acc: "concat (file_lines_acc cur s) = cur @ s"
  by (induction cur s rule: file_lines_acc.induct) simp_all

lemma rf_loop_plain:
  "\<forall>l \<in> set ls. re_match (fn_pattern function) l = None \<and> (inside \<longrightarrow> l \<noteq> ''}\<newline>'') \<Longrightarrow>
   rf_loop function inside ls = ls"
  by (induction ls) auto

lemma write_asm_loop_plain:
  assumes "\<forall>x \<in> set xs. \<not> sublist ''jr    $ra'' (asm_line seed x)"
    and "w_files w (resolve (w_cwd w) f) = Some old"
  shows "write_asm_loop f seed False (xs @ ys) w =
    write_asm_loop f seed False ys
      (w\<lparr>w_files := (w_files w)(resolve (w_cwd w) f \<mapsto> old @ concat (map (\<lambda>l. asm_line seed l @ ''\<newline>'') xs)),
         w_stdout := w_stdout w @ map (\<lambda>l. asm_line seed l @ ''\<newline>'') xs\<rparr>)"
  using assms
proof (induction xs arbitrary: w old)
  case Nil
  have e: "(w_files w)(resolve (w_cwd w) f \<mapsto> old) = w_files w"
    using Nil.prems(2) by (simp add: fun_upd_idem)
  show ?case by (simp only: list.map concat.simps append_Nil append_Nil2 e) simp
next
  case (Cons x xs)
  define l where "l = asm_line seed x @ ''\<newline>''"
  define w1 where "w1 = w\<lparr>w_files := (w_files w)(resolve (w_cwd w) f \<mapsto> old @ l), w_stdout := w_stdout w @ [l]\<rparr>"
  have "write_asm_loop f seed False ((x # xs) @ ys) w = write_asm_loop f seed False (xs @ ys) w1"
    using Cons.prems by (simp add: abind_def aappend_def aprint_def awrite_out_def Let_def l_def w1_def)
  also have "\<dots> = write_asm_loop f seed False ys
      (w1\<lparr>w_files := (w_files w1)(resolve (w_cwd w1) f \<mapsto> (old @ l) @ concat (map (\<lambda>l. asm_line seed l @ ''\<newline>'') xs)),
          w_stdout := w_stdout w1 @ map (\<lambda>l. asm_line seed l @ ''\<newline>'') xs\<rparr>)"
    using Cons.prems by (intro Cons.IH) (simp_all add: w1_def)
  also have "\<dots> = write_asm_loop f seed False ys
      (w\<lparr>w_files := (w_files w)(resolve (w_cwd w) f \<mapsto> old @ concat (map (\<lambda>l. asm_line seed l @ ''\<newline>'') (x # xs))),
         w_stdout := w_stdout w @ map (\<lambda>l. asm_line seed l @ ''\<newline>'') (x # xs)\<rparr>)"
    by (rule arg_cong [where f = "write_asm_loop f seed False ys"]) (simp add: w1_def l_def)
  finally show ?case .
qed

lemma write_asm_loop_jr:
  assumes "sublist ''jr    $ra'' (asm_line seed j)" "w_stdin w = r # rest" "r \<noteq> ''n''"
    and "w_files w (resolve (w_cwd w) f) = Some old"
  shows "write_asm_loop f seed False (j # d # ys) w =
    (Inr (), w\<lparr>w_stdin := rest,
       w_files := (w_files w)(resolve (w_cwd w) f \<mapsto> old @ asm_line seed j @ ''\<newline>'' @ asm_line seed d @ ''\<newline>''),
       w_stdout := w_stdout w @ [asm_line seed j @ ''\<newline>'', ''done? '', asm_line seed d @ ''\<newline>'']\<rparr>)"
  using assms
  by (simp add: abind_def aappend_def aprint_def awrite_out_def ainput_def areturn_def Let_def)

section \<open>Properties\<close>

text \<open>
  Claim C21. On a file where exactly one line matches \<open>(.*function.*) {\<close> and the body
  after it has no line \<open>}\<close> of its own before the closing one, \<open>replace_function\<close>
  wraps the definition: the \<open>#if\<close> block with the prototype (the matched text and
  \<open>;\<close>) and the \<open>GLOBAL_ASM\<close> include, \<open>#else\<close>, the original function, \<open>#endif\<close>.
\<close>

theorem rf_loop_wraps:
  assumes "\<forall>l \<in> set pre. re_match (fn_pattern function) l = None"
    and "re_match (fn_pattern function) sig = Some m"
    and "\<forall>l \<in> set body. l \<noteq> ''}\<newline>'' \<and> re_match (fn_pattern function) l = None"
    and "\<forall>l \<in> set post. re_match (fn_pattern function) l = None"
  shows "rf_loop function False (pre @ sig # body @ ''}\<newline>'' # post) =
    pre @ [''#if defined(VERSION_EU) && !defined(NON_MATCHING)\<newline>'', re_group sig m 1 @ '';\<newline>'',
           ''GLOBAL_ASM(\"asm/non_matchings/'' @ function @ ''_eu.s\")\<newline>'', ''#else\<newline>'', sig] @
    body @ [''}\<newline>'', ''#endif\<newline>''] @ post"
proof -
  have post: "rf_loop function False post = post" using assms(4) by (intro rf_loop_plain) simp
  have "rf_loop function True (body @ ''}\<newline>'' # post) = body @ ''}\<newline>'' # ''#endif\<newline>'' # post"
    using assms(3) post by (induction body) auto
  moreover have "rf_loop function False (pre @ xs) = pre @ rf_loop function False xs" for xs
    using assms(1) by (induction pre) auto
  ultimately show ?thesis using assms(2) by simp
qed

theorem rf_loop_wraps_witness:
  "rf_loop ''func_80241000'' False [''int x;\<newline>'', ''void func_80241000(void) {\<newline>'', ''    x = 1;\<newline>'', ''}\<newline>''] =
   [''int x;\<newline>'', ''#if defined(VERSION_EU) && !defined(NON_MATCHING)\<newline>'', ''void func_80241000(void);\<newline>'',
    ''GLOBAL_ASM(\"asm/non_matchings/func_80241000_eu.s\")\<newline>'', ''#else\<newline>'',
    ''void func_80241000(void) {\<newline>'', ''    x = 1;\<newline>'', ''}\<newline>'', ''#endif\<newline>'']"
proof -
  have m: "re_match (fn_pattern ''func_80241000'') ''void func_80241000(void) {\<newline>'' =
    Some \<lparr>mpos = 26, mopens = [(1, 0)], mspans = [(1, 0, 24)]\<rparr>"
    by code_simp
  have n: "re_match (fn_pattern ''func_80241000'') ''int x;\<newline>'' = None"
    "re_match (fn_pattern ''func_80241000'') ''    x = 1;\<newline>'' = None"
    by code_simp+
  have g: "re_group ''void func_80241000(void) {\<newline>'' \<lparr>mpos = 26, mopens = [(1, 0)], mspans = [(1, 0, 24)]\<rparr> 1 =
    ''void func_80241000(void)''"
    by code_simp
  let ?sig = "''void func_80241000(void) {\<newline>''"
  have "rf_loop ''func_80241000'' False [''int x;\<newline>'', ?sig, ''    x = 1;\<newline>'', ''}\<newline>''] =
        rf_loop ''func_80241000'' False ([''int x;\<newline>''] @ ?sig # [''    x = 1;\<newline>''] @ ''}\<newline>'' # [])"
    by simp
  also have "\<dots> = [''int x;\<newline>''] @ [''#if defined(VERSION_EU) && !defined(NON_MATCHING)\<newline>'',
      re_group ?sig \<lparr>mpos = 26, mopens = [(1, 0)], mspans = [(1, 0, 24)]\<rparr> 1 @ '';\<newline>'',
      ''GLOBAL_ASM(\"asm/non_matchings/'' @ ''func_80241000'' @ ''_eu.s\")\<newline>'', ''#else\<newline>'', ?sig] @
      [''    x = 1;\<newline>''] @ [''}\<newline>'', ''#endif\<newline>''] @ []"
    by (rule rf_loop_wraps [OF _ m]) (simp_all add: n)
  also have "\<dots> = [''int x;\<newline>'', ''#if defined(VERSION_EU) && !defined(NON_MATCHING)\<newline>'', ''void func_80241000(void);\<newline>'',
    ''GLOBAL_ASM(\"asm/non_matchings/func_80241000_eu.s\")\<newline>'', ''#else\<newline>'',
    ?sig, ''    x = 1;\<newline>'', ''}\<newline>'', ''#endif\<newline>'']"
    by (simp only: g) simp
  finally show ?thesis .
qed

text \<open>
  A call of the function on a line ending in \<open> {\<close> (here an \<open>if\<close> inside another
  function) is taken for its definition, and the caller's body up to its own closing
  \<open>}\<close> is wrapped, producing C that declares \<open>if (func_x());\<close> at file scope.
\<close>

theorem rf_loop_call_site:
  "rf_loop ''func_x'' False
     [''void caller(void) {\<newline>'', ''    if (func_x()) {\<newline>'', ''        y();\<newline>'', ''    }\<newline>'', ''}\<newline>''] =
   [''void caller(void) {\<newline>'', ''#if defined(VERSION_EU) && !defined(NON_MATCHING)\<newline>'',
    ''    if (func_x());\<newline>'', ''GLOBAL_ASM(\"asm/non_matchings/func_x_eu.s\")\<newline>'', ''#else\<newline>'',
    ''    if (func_x()) {\<newline>'', ''        y();\<newline>'', ''    }\<newline>'', ''}\<newline>'', ''#endif\<newline>'']"
  by code_simp

text \<open>
  Claim C26. The pattern \<open>(.*function.*) {\<close> is not tied to the definition: every line
  on which the function's name is followed, later on the same line, by \<open> {\<close> matches it,
  whatever comes before, between and after; so \<open>rf_loop\<close> wraps such a line (a call
  site in an \<open>if\<close>, a comment) as it wraps the definition.
\<close>

theorem fn_pattern_any_use:
  assumes "CHR ''\<newline>'' \<notin> set (a @ function @ b)"
  shows "re_match (fn_pattern function) (a @ function @ b @ '' {'' @ c) \<noteq> None"
proof -
  let ?P = "\<lambda>x. x \<noteq> CHR ''\<newline>''"
  define st where "st = \<lparr>mpos = 0, mopens = [(1 :: nat, 0 :: nat)], mspans = []\<rparr>"
  have tw: "takeWhile ?P (a @ r) = a @ takeWhile ?P r" "takeWhile ?P (b @ r) = b @ takeWhile ?P r" for r
    using assms by (auto intro: takeWhile_append2)
  have "rmatch (RClose 1 # rlits '' {'') ('' {'' @ c) (st\<lparr>mpos := length a + length function + length b\<rparr>) \<noteq> None"
    by (simp add: st_def rlits_def)
  then have "rmatch (RStar # RClose 1 # rlits '' {'') (b @ '' {'' @ c) (st\<lparr>mpos := length a + length function\<rparr>) \<noteq> None"
    by (intro rmatch_star_take [where k = "length b"]) (simp_all add: tw)
  then have "rmatch (rlits function @ [RStar, RClose 1] @ rlits '' {'') (function @ b @ '' {'' @ c) (st\<lparr>mpos := length a\<rparr>) \<noteq> None"
    by (simp add: rmatch_lits)
  then have "rmatch (RStar # rlits function @ [RStar, RClose 1] @ rlits '' {'') (a @ function @ b @ '' {'' @ c) st \<noteq> None"
    by (intro rmatch_star_take [where k = "length a"]) (simp_all add: tw st_def)
  then show ?thesis
    by (simp add: re_match_def fn_pattern_def st_def)
qed

theorem fn_pattern_any_use_witness:
  "re_match (fn_pattern ''func_x'') ''    if (func_x()) {\<newline>'' \<noteq> None"
  using fn_pattern_any_use [of "''    if (''" "''func_x''" "''())''" "''\<newline>''"] by simp


text \<open>
  Claim C23. \<open>prompt\<close> reads lines until it gets a valid answer and returns the first one:
  with invalid lines before it, it consumes them and the answer, and writes the question
  once per line read.
\<close>

theorem prompt_first_valid:
  assumes "w_stdin w = bad @ r # rest"
    and "\<forall>b \<in> set bad. \<not> prompt_valid q b" and "prompt_valid q r"
  shows "prompt q w =
    (Inr r, w\<lparr>w_stdin := rest, w_stdout := w_stdout w @ replicate (Suc (length bad)) (prompt_text q)\<rparr>)"
  using assms by (simp add: prompt_skips [OF assms(1,2)] prompt_step replicate_append_same [symmetric])

definition example_world :: "string list \<Rightarrow> world" where
  "example_world stdin = \<lparr>w_stdin = stdin, w_stdout = [], w_files = Map.empty, w_cwd = ''/'',
     w_env_tools = None, w_random = 0, w_first_diff = (\<lambda>fs. []), w_make = (\<lambda>fs. (True, [])),
     w_disasm = (\<lambda>r a. [])\<rparr>"

theorem prompt_first_valid_witness:
  "prompt True (example_world [''yes'', [], ''?'', ''n'']) =
   (Inr ''?'', (example_world [''n''])\<lparr>w_stdout := replicate 3 ''continue? y/n/?: ''\<rparr>)"
proof -
  have "\<forall>b \<in> set [''yes'', []]. \<not> prompt_valid True b" "prompt_valid True ''?''"
    by (simp_all add: prompt_valid_def)
  from prompt_first_valid [of "example_world [''yes'', [], ''?'', ''n'']" "[''yes'', []]" "''?''" "[''n'']",
      OF _ this] show ?thesis
    by (simp add: prompt_text_def numeral_eq_Suc example_world_def)
qed

text \<open>
  Claim C38. The \<open>while\<close> loop of \<open>prompt\<close> ends on every standard input: it consumes
  \<open>k\<close> lines, at most all of them, and writes one prompt per round; it raises
  \<open>EOFError\<close> (after one more prompt, with all input consumed) exactly when no line of
  the input is an accepted answer.
\<close>

theorem prompt_terminates:
  "\<exists>k r. k \<le> length (w_stdin w) \<and>
     prompt q w = (r, w\<lparr>w_stdin := drop k (w_stdin w),
                        w_stdout := w_stdout w @ replicate (if r = Inl EOFError then Suc k else k) (prompt_text q)\<rparr>) \<and>
     (r = Inl EOFError \<longleftrightarrow> (\<forall>b \<in> set (w_stdin w). \<not> prompt_valid q b))"
proof -
  have "w_stdin w' = xs \<Longrightarrow> \<exists>k r. k \<le> length xs \<and>
     prompt q w' = (r, w'\<lparr>w_stdin := drop k xs,
                        w_stdout := w_stdout w' @ replicate (if r = Inl EOFError then Suc k else k) (prompt_text q)\<rparr>) \<and>
     (r = Inl EOFError \<longleftrightarrow> (\<forall>b \<in> set xs. \<not> prompt_valid q b))" for xs w'
  proof (induction xs arbitrary: w')
    case Nil
    then show ?case by (intro exI [of _ 0] exI [of _ "Inl EOFError"]) (simp add: prompt_eof)
  next
    case (Cons a rest)
    show ?case
    proof (cases "prompt_valid q a")
      case True
      with Cons.prems show ?thesis
        by (intro exI [of _ 1] exI [of _ "Inr a"]) (simp add: prompt_step)
    next
      case False
      let ?w = "w'\<lparr>w_stdin := rest, w_stdout := w_stdout w' @ [prompt_text q]\<rparr>"
      have "w_stdin ?w = rest" by simp
      from Cons.IH [OF this] obtain k r where k: "k \<le> length rest"
        and p: "prompt q ?w = (r, ?w\<lparr>w_stdin := drop k rest,
                 w_stdout := w_stdout ?w @ replicate (if r = Inl EOFError then Suc k else k) (prompt_text q)\<rparr>)"
        and e: "r = Inl EOFError \<longleftrightarrow> (\<forall>b \<in> set rest. \<not> prompt_valid q b)"
        by blast
      show ?thesis
      proof (intro exI [of _ "Suc k"] exI [of _ r] conjI)
        show "Suc k \<le> length (a # rest)" using k by simp
        show "prompt q w' = (r, w'\<lparr>w_stdin := drop (Suc k) (a # rest),
            w_stdout := w_stdout w' @ replicate (if r = Inl EOFError then Suc (Suc k) else Suc k) (prompt_text q)\<rparr>)"
          using Cons.prems False p by (simp add: prompt_step replicate_append_same [symmetric])
        show "r = Inl EOFError \<longleftrightarrow> (\<forall>b \<in> set (a # rest). \<not> prompt_valid q b)"
          using e False by simp
      qed
    qed
  qed
  then show ?thesis by blast
qed

theorem prompt_terminates_witness:
  "\<exists>k r. k \<le> 2 \<and> prompt False (example_world [''?'', ''maybe'']) =
     (r, (example_world [''?'', ''maybe''])\<lparr>w_stdin := drop k [''?'', ''maybe''],
        w_stdout := replicate (if r = Inl EOFError then Suc k else k) ''continue? y/n: ''\<rparr>) \<and>
     r = Inl EOFError"
proof -
  have v: "\<forall>b \<in> set [''?'', ''maybe'']. \<not> prompt_valid False b" by (simp add: prompt_valid_def)
  from prompt_terminates [of "example_world [''?'', ''maybe'']" False] v
  show ?thesis by (simp add: example_world_def prompt_text_def numeral_2_eq_2)
qed

text \<open>
  Claim C24. Whatever \<open>prompt\<close> returns is one of the answers it accepts: \<open>y\<close>, \<open>n\<close>, and
  \<open>?\<close> only when asked with \<open>question_mark\<close>.
\<close>

theorem prompt_safe:
  "fst (prompt q w) = Inr r \<Longrightarrow> prompt_valid q r"
proof -
  have "w_stdin w' = xs \<Longrightarrow> fst (prompt q w') = Inr r \<Longrightarrow> prompt_valid q r" for xs w'
  proof (induction xs arbitrary: w')
    case Nil
    then show ?case by (simp add: prompt_eof)
  next
    case (Cons a rest)
    show ?case
    proof (cases "prompt_valid q a")
      case True
      with Cons.prems show ?thesis by (simp add: prompt_step)
    next
      case False
      let ?w = "w'\<lparr>w_stdin := rest, w_stdout := w_stdout w' @ [prompt_text q]\<rparr>"
      from False Cons.prems have "fst (prompt q ?w) = Inr r" by (simp add: prompt_step)
      then show ?thesis by (rule Cons.IH [rotated]) simp
    qed
  qed
  then show "fst (prompt q w) = Inr r \<Longrightarrow> prompt_valid q r" by blast
qed

theorem prompt_safe_witness:
  "prompt_valid False ''y''"
  using prompt_safe [of False "example_world [''?'', ''y'']" "''y''"]
  by (simp add: prompt_step prompt_valid_def example_world_def)

text \<open>
  Claim C25. \<open>get_next_nonmatching\<close> changes into \<open>sm64_source\<close> and then runs
  \<open>sm64_source/first-diff.py\<close> relative to the new directory: with a relative
  \<open>sm64_source\<close> the script is looked up at \<open>sm64_source/sm64_source/first-diff.py\<close>, so
  the run stops with \<open>FileNotFoundError\<close> right after its first line of output, even
  when the script exists where the user pointed.
\<close>

theorem add_nonmatching_relative_source:
  assumes "\<not> prefix ''/'' sm64_source" and "sm64_source \<noteq> []"
    and "w_files w (w_cwd w @ ''/'' @ sm64_source @ ''/'' @ sm64_source @ ''/first-diff.py'') = None"
  shows "add_nonmatching_main sm64_source no_replace w =
    (Inl (FileNotFoundError (sm64_source @ ''/first-diff.py'')),
     w\<lparr>w_stdout := w_stdout w @ [''first-diffing...\<newline>''], w_cwd := w_cwd w @ ''/'' @ sm64_source\<rparr>)"
proof -
  obtain c cs where src: "sm64_source = c # cs" using assms(2) by (cases sm64_source) auto
  with assms(1) have "c \<noteq> CHR ''/''" by simp
  with src assms(3) show ?thesis
    by (simp add: add_nonmatching_main_def get_next_nonmatching_def abind_def achdir_def aprint_def
        awrite_out_def resolve_def path_div_def)
qed

theorem add_nonmatching_relative_source_witness:
  "add_nonmatching_main ''sm64'' False ((example_world [])\<lparr>w_cwd := ''/home'', w_files := [''/home/sm64/first-diff.py'' \<mapsto> ''#!'']\<rparr>) =
    (Inl (FileNotFoundError ''sm64/first-diff.py''),
     (example_world [])\<lparr>w_cwd := ''/home/sm64'', w_files := [''/home/sm64/first-diff.py'' \<mapsto> ''#!''],
        w_stdout := [''first-diffing...\<newline>'']\<rparr>)"
  using add_nonmatching_relative_source [of "''sm64''"
      "(example_world [])\<lparr>w_cwd := ''/home'', w_files := [''/home/sm64/first-diff.py'' \<mapsto> ''#!'']\<rparr>" False]
  by (simp add: example_world_def)

text \<open>
  Claim C22. \<open>write_asm\<close> writes \<open>glabel function\<close> and then the disassembly from its
  fifth line on, rewritten (\<open>func_\<close> and \<open>D_\<close> to \<open>0x\<close>, local labels prefixed with the
  random number), up to the first line with \<open>jr    $ra\<close> and, when the user does not
  answer \<open>n\<close> to \<open>done?\<close>, the one after it (the delay slot), and stops there.
\<close>

theorem write_asm_stops_after_delay_slot:
  assumes "w_env_tools w = Some tools" and "tools \<noteq> []"
    and "drop 4 (py_split ''\<newline>'' (w_disasm w (resolve (w_cwd w) (sm64_source @ ''/baserom.eu.z64''))
           (''0x80200000:'' @ rom_offset @ ''+0x1000''))) = xs @ j # d # ys"
    and "\<forall>x \<in> set xs. \<not> sublist ''jr    $ra'' (asm_line (py_str_int (int (w_random w)) @ ''_'') x)"
    and "sublist ''jr    $ra'' (asm_line (py_str_int (int (w_random w)) @ ''_'') j)"
    and "w_stdin w = r # rest" and "r \<noteq> ''n''"
  shows "\<exists>w'. write_asm sm64_source function rom_offset w =
      (Inr (sm64_source @ ''/asm/non_matchings/'' @ function @ ''_eu.s''), w') \<and>
    w_files w' (resolve (w_cwd w) (sm64_source @ ''/asm/non_matchings/'' @ function @ ''_eu.s'')) =
      Some (''glabel '' @ function @ ''\<newline>'' @
        concat (map (\<lambda>l. asm_line (py_str_int (int (w_random w)) @ ''_'') l @ ''\<newline>'') (xs @ [j, d]))) \<and>
    w_stdin w' = rest"
proof -
  define seed where "seed = py_str_int (int (w_random w)) @ ''_''"
  define f where "f = sm64_source @ ''/asm/non_matchings/'' @ function @ ''_eu.s''"
  define q where "q = resolve (w_cwd w) f"
  define w1 where "w1 = w\<lparr>w_files := (w_files w)(q \<mapsto> ''glabel '' @ function @ ''\<newline>'')\<rparr>"
  define w2 where "w2 = w1\<lparr>w_files := (w_files w1)(resolve (w_cwd w1) f \<mapsto> (''glabel '' @ function @ ''\<newline>'') @
      concat (map (\<lambda>l. asm_line seed l @ ''\<newline>'') xs)),
      w_stdout := w_stdout w1 @ map (\<lambda>l. asm_line seed l @ ''\<newline>'') xs\<rparr>"
  have xs: "\<forall>x \<in> set xs. \<not> sublist ''jr    $ra'' (asm_line seed x)"
    using assms(4) by (simp add: seed_def)
  have g: "w_files w1 (resolve (w_cwd w1) f) = Some (''glabel '' @ function @ ''\<newline>'')"
    by (simp add: w1_def q_def)
  have loop: "write_asm_loop f seed False (xs @ j # d # ys) w1 = write_asm_loop f seed False (j # d # ys) w2"
    unfolding w2_def by (rule write_asm_loop_plain [OF xs g])
  have o: "w_files w2 (resolve (w_cwd w2) f) =
      Some ((''glabel '' @ function @ ''\<newline>'') @ concat (map (\<lambda>l. asm_line seed l @ ''\<newline>'') xs))"
    by (simp add: w2_def w1_def)
  have s5: "sublist ''jr    $ra'' (asm_line seed j)" using assms(5) by (simp add: seed_def)
  have s6: "w_stdin w2 = r # rest" using assms(6) by (simp add: w2_def w1_def)
  define w3 where "w3 = w2\<lparr>w_stdin := rest,
       w_files := (w_files w2)(resolve (w_cwd w2) f \<mapsto> ((''glabel '' @ function @ ''\<newline>'') @
          concat (map (\<lambda>l. asm_line seed l @ ''\<newline>'') xs)) @ asm_line seed j @ ''\<newline>'' @ asm_line seed d @ ''\<newline>''),
       w_stdout := w_stdout w2 @ [asm_line seed j @ ''\<newline>'', ''done? '', asm_line seed d @ ''\<newline>'']\<rparr>"
  have jr: "write_asm_loop f seed False (j # d # ys) w2 = (Inr (), w3)"
    unfolding w3_def by (rule write_asm_loop_jr [OF s5 s6 assms(7) o])
  have "write_asm sm64_source function rom_offset w =
    (case write_asm_loop f seed False (xs @ j # d # ys) w1 of
       (Inl e, w') \<Rightarrow> (Inl e, w') | (Inr u, w') \<Rightarrow> (Inr f, w'))"
    using assms(1,2,3)
    by (cases tools) (simp_all add: write_asm_def abind_def aput_def aappend_def areturn_def Let_def
        seed_def f_def q_def w1_def split: prod.split sum.split)
  then have "write_asm sm64_source function rom_offset w = (Inr f, w3)"
    by (simp only: loop jr prod.case sum.case)
  moreover have "w_files w3 (resolve (w_cwd w) f) =
      Some (''glabel '' @ function @ ''\<newline>'' @ concat (map (\<lambda>l. asm_line seed l @ ''\<newline>'') (xs @ [j, d])))"
    by (simp add: w3_def w2_def w1_def)
  moreover have "w_stdin w3 = rest" by (simp add: w3_def)
  ultimately show ?thesis unfolding f_def seed_def by blast
qed

definition example_asm_world :: world where
  "example_asm_world = (example_world [''y''])\<lparr>w_cwd := ''/home'', w_env_tools := Some ''/tools'', w_random := 42,
     w_disasm := (\<lambda>rom a. ''h1\<newline>h2\<newline>h3\<newline>h4\<newline>func_80241000:\<newline>  addiu $sp, $sp, -0x18\<newline>  jr    $ra\<newline>  nop\<newline>  lw $t0, D_80300000'')\<rparr>"

theorem write_asm_stops_after_delay_slot_witness:
  "\<exists>w'. write_asm ''/sm64'' ''func_80241000'' ''0x1000'' example_asm_world =
      (Inr ''/sm64/asm/non_matchings/func_80241000_eu.s'', w') \<and>
    w_files w' ''/sm64/asm/non_matchings/func_80241000_eu.s'' =
      Some ''glabel func_80241000\<newline>0x80241000:\<newline>  addiu $sp, $sp, -0x18\<newline>  jr    $ra\<newline>  nop\<newline>'' \<and>
    w_stdin w' = []"
proof -
  have d: "drop 4 (py_split ''\<newline>'' (w_disasm example_asm_world
      (resolve (w_cwd example_asm_world) (''/sm64'' @ ''/baserom.eu.z64'')) (''0x80200000:'' @ ''0x1000'' @ ''+0x1000''))) =
    [''func_80241000:'', ''  addiu $sp, $sp, -0x18''] @ ''  jr    $ra'' # ''  nop'' # [''  lw $t0, D_80300000'']"
    by code_simp
  have x: "\<forall>x \<in> set [''func_80241000:'', ''  addiu $sp, $sp, -0x18''].
      \<not> sublist ''jr    $ra'' (asm_line (py_str_int (int (w_random example_asm_world)) @ ''_'') x)"
    by code_simp
  have j: "sublist ''jr    $ra'' (asm_line (py_str_int (int (w_random example_asm_world)) @ ''_'') ''  jr    $ra'')"
    by code_simp
  have c: "''glabel '' @ ''func_80241000'' @ ''\<newline>'' @ concat (map (\<lambda>l. asm_line (py_str_int (int (w_random example_asm_world)) @ ''_'') l @ ''\<newline>'')
      ([''func_80241000:'', ''  addiu $sp, $sp, -0x18''] @ [''  jr    $ra'', ''  nop''])) =
    ''glabel func_80241000\<newline>0x80241000:\<newline>  addiu $sp, $sp, -0x18\<newline>  jr    $ra\<newline>  nop\<newline>''"
    by code_simp
  have f: "''/sm64'' @ ''/asm/non_matchings/'' @ ''func_80241000'' @ ''_eu.s'' = ''/sm64/asm/non_matchings/func_80241000_eu.s''"
    by simp
  have r: "resolve (w_cwd example_asm_world) ''/sm64/asm/non_matchings/func_80241000_eu.s'' =
      ''/sm64/asm/non_matchings/func_80241000_eu.s''"
    by code_simp
  have e: "w_env_tools example_asm_world = Some ''/tools''" and s: "w_stdin example_asm_world = ''y'' # []"
    by (simp_all add: example_asm_world_def example_world_def)
  have t: "''/tools'' \<noteq> []" and n: "''y'' \<noteq> ''n''" by simp_all
  from write_asm_stops_after_delay_slot [of example_asm_world "''/tools''" "''/sm64''" "''0x1000''" _ _ _ _
      "''y''" "[]" "''func_80241000''", OF e t d x j s n]
  show ?thesis by (simp only: c f r)
qed

end
