(* ===== verification/TextExtract.thy ===== *)
theory TextExtract
  imports Regex
begin

text \<open>
  \<open>src/text_extract.py\<close>: decoding the game's text tables. Python \<open>bytes\<close> are lists of
  8-bit words; a Python \<open>str\<close> that may hold any character (the text of \<open>charmap.txt\<close>
  and what is built from it) is a list of code points, \<open>ustr\<close>, and \<open>u\<close> lifts an ASCII
  literal to it. The files read are a map from paths to their bytes (\<open>charmap.txt\<close> as
  its decoded text). \<open>str.isalnum\<close> is exact on ASCII; for other characters it is the
  parameter \<open>alnum\<close>, standing for Python's Unicode table. Only the hex dump at the
  end of \<open>__main__\<close> runs; the other functions are called from commented-out code.
\<close>

type_synonym bytes = "8 word list"
type_synonym ustr = "nat list"

definition u :: "string \<Rightarrow> ustr" where
  "u s = map of_char s"

text \<open>Lines 6-8: \<open>l[i : i + n]\<close> for \<open>i\<close> in \<open>range(0, len(l), n)\<close>; a zero step raises.\<close>

function chunks :: "nat \<Rightarrow> 'a list \<Rightarrow> 'a list list" where
  "chunks n l = (if n = 0 \<or> l = [] then [] else take n l # chunks n (drop n l))"
  by auto
termination
  by (relation "measure (\<lambda>(n, l). length l)") auto

definition py_chunks :: "nat \<Rightarrow> 'a list \<Rightarrow> 'a list list result" where
  "py_chunks n l = (if n = 0 then Inl ValueError else Inr (chunks n l))"

text \<open>Lines 11-16: the slice \<open>[offset:]\<close>; the argument \<open>n\<close> is not used.\<close>

definition get_n_bytes ::
  "(string \<Rightarrow> bytes option) \<Rightarrow> nat \<Rightarrow> string \<Rightarrow> nat \<Rightarrow> bytes result" where
  "get_n_bytes files n filename offset =
     (case files filename of None \<Rightarrow> Inl (FileNotFoundError filename) | Some b \<Rightarrow> Inr (drop offset b))"

text \<open>Lines 19-20.\<close>

definition parse :: "bytes \<Rightarrow> bytes list" where
  "parse hexbytes = map (\<lambda>phrase. py_replace [0] [] phrase) (py_split [0xff] hexbytes)"

text \<open>\<open>f"{int_val:0>2X}"\<close>: upper-case hex digits, padded with \<open>0\<close> to width 2.\<close>

definition fmt_02X :: "nat \<Rightarrow> string" where
  "fmt_02X n = (let s = map (\<lambda>d. ''0123456789ABCDEF'' ! d) (hex_digits n) in
     replicate (2 - length s) (CHR ''0'') @ s)"

text \<open>\<open>int.from_bytes(c, "big")\<close>.\<close>

definition from_bytes_big :: "bytes \<Rightarrow> nat" where
  "from_bytes_big c = foldl (\<lambda>a b. 256 * a + unat b) 0 c"

text \<open>\<open>text[1:-1]\<close>.\<close>

definition strip_quotes :: "ustr \<Rightarrow> ustr" where
  "strip_quotes t = take (length t - 2) (drop 1 t)"

text \<open>Lines 27-32: the loop over \<open>charmap.txt\<close>; the last matching line wins.\<close>

fun charmap_loop :: "string \<Rightarrow> ustr list \<Rightarrow> ustr option \<Rightarrow> ustr option result" where
  "charmap_loop key [] winner = Inr winner"
| "charmap_loop key (map_line # lines) winner =
     (if map_line = [] \<or> prefix (u ''#'') map_line then charmap_loop key lines winner
      else (case py_split (u '' = '') map_line of
          [text, val] \<Rightarrow> charmap_loop key lines (if val = u key then Some (strip_quotes text) else winner)
        | _ \<Rightarrow> Inl ValueError))"

definition charmap :: "ustr option \<Rightarrow> bytes \<Rightarrow> ustr result" where
  "charmap charmap_txt c =
     (case charmap_txt of
        None \<Rightarrow> Inl (FileNotFoundError ''./sm64_source/charmap.txt'')
      | Some t \<Rightarrow>
          ebind (charmap_loop (''0x'' @ fmt_02X (from_bytes_big c)) (py_split (u ''\<newline>'') t) None) (\<lambda>w.
            Inr (case w of None \<Rightarrow> u ''@'' | Some x \<Rightarrow> if x = [] then u ''@'' else x)))"

text \<open>Lines 37-41; \<open>"\<Atilde>\<bullet>"\<close> is the two code points U+00C3 U+2022.\<close>

definition translate :: "ustr option \<Rightarrow> bytes list \<Rightarrow> ustr list result" where
  "translate charmap_txt parsed =
     map_res (\<lambda>s. ebind (map_res (charmap charmap_txt) (chunks 1 s)) (\<lambda>cs.
       Inr (py_replace [0xC3, 0x2022] (u '' '') (concat cs)))) parsed"

text \<open>Lines 44-52: the name keeps \<open>_\<close> and the alphanumeric characters.\<close>

definition py_isalnum :: "(nat \<Rightarrow> bool) \<Rightarrow> nat \<Rightarrow> bool" where
  "py_isalnum alnum c =
     (if c < 128 then (48 \<le> c \<and> c \<le> 57) \<or> (65 \<le> c \<and> c \<le> 90) \<or> (97 \<le> c \<and> c \<le> 122) else alnum c)"

definition print_triplet :: "(nat \<Rightarrow> bool) \<Rightarrow> ustr list \<Rightarrow> ustr list \<times> unit result" where
  "print_triplet alnum triplet =
     (case triplet of
        [en, fr, de] \<Rightarrow>
          (let name = filter (\<lambda>c. c = of_char CHR ''_'' \<or> py_isalnum alnum c) (py_replace (u '' '') (u ''_'') en);
               base = u ''#define TEXT_'' @ name in
           ([base @ u ''_FR _(\"'' @ fr @ u ''\")'', base @ u ''_DE _(\"'' @ de @ u ''\")'', []], Inr ()))
      | _ \<Rightarrow> ([], Inl ValueError))"

text \<open>Lines 55-71, on an ASCII line; a line the pattern misses fails at \<open>match.group\<close>.\<close>

definition ezcopy_pattern :: "ritem list" where
  "ezcopy_pattern = [ROpen 1, RStar] @ rlits ''[]'' @ [RClose 1] @ rlits '' = { '' @
     [ROpen 2, RStar, RClose 2] @ rlits '' };''"

definition ezcopy :: "string \<Rightarrow> unit io" where
  "ezcopy line =
     (case re_match ezcopy_pattern line of
        None \<Rightarrow> ([''#ifndef VERSION_EU'', line, ''#else''], Inl AttributeError)
      | Some m \<Rightarrow>
          (let g2 = re_group line m 2;
               triple = ''{ '' @ g2 @ '' }, { '' @ g2 @ ''_FR }, { '' @ g2 @ ''_DE }'' in
           ([''#ifndef VERSION_EU'', line, ''#else'', re_group line m 1 @ ''[20] = {'' @ triple @ ''};'',
             ''#endif'', []], Inr ())))"

text \<open>Lines 98-105: the hex dump; what is printed, as one text.\<close>

fun dump_loop :: "nat \<Rightarrow> bytes \<Rightarrow> string" where
  "dump_loop i [] = []"
| "dump_loop i (c # cs) =
     (if i mod 8 = 0 then ''\<newline>    '' else []) @ ''0x'' @ fmt_02X (unat c) @ '', '' @ dump_loop (Suc i) cs"

definition text_extract_main :: "(string \<Rightarrow> bytes option) \<Rightarrow> string result" where
  "text_extract_main files =
     ebind (get_n_bytes files 0x400 ''./sm64_source/mio0_menu_baserom.out'' 0xFF50) (\<lambda>hexa.
       Inr (''{\<newline>\<newline>'' @ dump_loop 0 hexa @ ''\<newline>}\<newline>''))"

definition dump_token :: "8 word \<Rightarrow> string" where
  "dump_token c = ''0x'' @ fmt_02X (unat c) @ '', ''"

definition dump_row :: "bytes \<Rightarrow> string" where
  "dump_row r = ''\<newline>    '' @ concat (map dump_token r)"

text \<open>
  What \<open>charmap\<close> promises: the entries of \<open>charmap.txt\<close> are its non-empty lines that
  are no comments; the hits for a key are the quoted texts of the entries whose value is
  the key, in file order.
\<close>

definition charmap_entry :: "ustr \<Rightarrow> bool" where
  "charmap_entry l \<longleftrightarrow> l \<noteq> [] \<and> \<not> prefix (u ''#'') l"

definition charmap_hits :: "string \<Rightarrow> ustr list \<Rightarrow> ustr list" where
  "charmap_hits key lines =
     map (\<lambda>l. strip_quotes (hd (py_split (u '' = '') l)))
       (filter (\<lambda>l. charmap_entry l \<and> last (py_split (u '' = '') l) = u key) lines)"

section \<open>Lemmas\<close>

lemma dump_loop_append:
  "dump_loop i (xs @ ys) = dump_loop i xs @ dump_loop (i + length xs) ys"
  by (induction xs arbitrary: i) simp_all

lemma dump_loop_inner:
  "0 < i mod 8 \<Longrightarrow> i mod 8 + length r \<le> 8 \<Longrightarrow> dump_loop i r = concat (map dump_token r)"
proof (induction r arbitrary: i)
  case Nil
  then show ?case by simp
next
  case (Cons c r)
  show ?case
  proof (cases r)
    case Nil
    with Cons.prems show ?thesis by (simp add: dump_token_def)
  next
    case (Cons c' r')
    with Cons.prems have "i mod 8 < 7" by simp
    then have "Suc i mod 8 = Suc (i mod 8)" by (simp add: mod_Suc)
    with Cons.prems Cons.IH [of "Suc i"] show ?thesis by (simp add: dump_token_def)
  qed
qed

lemma dump_loop_row:
  "i mod 8 = 0 \<Longrightarrow> r \<noteq> [] \<Longrightarrow> length r \<le> 8 \<Longrightarrow> dump_loop i r = dump_row r"
proof (cases r)
  case (Cons c r')
  assume "i mod 8 = 0" "length r \<le> 8"
  then have "Suc i mod 8 = 1" by (simp add: mod_Suc)
  with Cons \<open>length r \<le> 8\<close> \<open>i mod 8 = 0\<close> show ?thesis
    by (simp add: dump_loop_inner dump_row_def dump_token_def)
qed simp

lemma chunks_simps [simp]:
  "chunks n [] = []"
  "0 < n \<Longrightarrow> l \<noteq> [] \<Longrightarrow> chunks n l = take n l # chunks n (drop n l)"
  by (simp_all add: chunks.simps [of n])

declare chunks.simps [simp del]

lemma dump_loop_rows:
  "i mod 8 = 0 \<Longrightarrow> dump_loop i bs = concat (map dump_row (chunks 8 bs))"
proof (induction "8::nat" bs arbitrary: i rule: chunks.induct)
  case (1 l)
  show ?case
  proof (cases "l = []")
    case True
    then show ?thesis by simp
  next
    case False
    note l = False
    have "dump_loop i l = dump_loop i (take 8 l) @ dump_loop (i + length (take 8 l)) (drop 8 l)"
      using dump_loop_append [of i "take 8 l" "drop 8 l"] by simp
    moreover have "dump_loop i (take 8 l) = dump_row (take 8 l)"
      using False 1 by (intro dump_loop_row) simp_all
    moreover have "dump_loop (i + length (take 8 l)) (drop 8 l) = concat (map dump_row (chunks 8 (drop 8 l)))"
    proof (cases "drop 8 l = []")
      case True
      then show ?thesis by simp
    next
      case False
      then have "length (take 8 l) = 8" by simp
      with 1 l show ?thesis by (intro "1.hyps") simp_all
    qed
    ultimately show ?thesis using False by simp
  qed
qed

lemma concat_chunks: "0 < n \<Longrightarrow> concat (chunks n l) = l"
proof (induction n l rule: chunks.induct)
  case (1 n l)
  show ?case
  proof (cases "l = []")
    case False
    with 1 show ?thesis by simp
  qed simp
qed

lemma hex_upper_val: "d < 16 \<Longrightarrow> hex_digit_val (''0123456789ABCDEF'' ! d) = Some d"
proof -
  have "\<forall>d < 16. hex_digit_val (''0123456789ABCDEF'' ! d) = Some d"
    by code_simp
  then show "d < 16 \<Longrightarrow> hex_digit_val (''0123456789ABCDEF'' ! d) = Some d" by blast
qed

lemma hex_val_zeros:
  "foldl (\<lambda>a c. 16 * a + case_option 0 id (hex_digit_val c)) 0 (replicate k (CHR ''0'')) = 0"
  by (induction k) (simp_all add: hex_digit_val_def)

lemma hex_val_map_upper:
  "\<forall>d \<in> set ds. d < 16 \<Longrightarrow>
   foldl (\<lambda>a c. 16 * a + case_option 0 id (hex_digit_val c)) acc (map (\<lambda>d. ''0123456789ABCDEF'' ! d) ds) =
   foldl (\<lambda>a d. 16 * a + d) acc ds"
  by (induction ds arbitrary: acc) (simp_all add: hex_upper_val)

lemma fmt_02X_val: "hex_val (fmt_02X n) = n"
  by (simp add: fmt_02X_def hex_val_def hex_val_zeros hex_val_map_upper hex_digits_bound horner_hex_digits)

lemma fmt_02X_text: "hex_text (fmt_02X n)"
proof -
  have z: "hex_digit_val (CHR ''0'') = Some 0" by (simp add: hex_digit_val_def)
  show ?thesis
    by (auto simp: fmt_02X_def hex_text_def hex_digits_not_Nil hex_upper_val hex_digits_bound z Let_def)
qed

lemma fmt_02X_upper: "set (fmt_02X n) \<subseteq> set ''0123456789ABCDEF''"
proof -
  define H where "H = ''0123456789ABCDEF''"
  have l: "length H = 16" by (simp add: H_def)
  have "set (map (\<lambda>d. H ! d) (hex_digits n)) \<subseteq> set H"
    using hex_digits_bound [of _ n] l by (auto intro!: nth_mem)
  moreover have "CHR ''0'' \<in> set H" by (simp add: H_def)
  ultimately show ?thesis
    unfolding fmt_02X_def Let_def H_def [symmetric] by auto
qed

lemma fmt_02X_length: "n < 256 \<Longrightarrow> length (fmt_02X n) = 2"
proof -
  assume n: "n < 256"
  have "length (hex_digits n) \<le> 2"
  proof (cases "n < 16")
    case False
    with n have "n div 16 < 16" by simp
    with False show ?thesis by (simp add: hex_digits.simps [of n] hex_digits.simps [of "n div 16"])
  qed (simp add: hex_digits.simps [of n])
  then show ?thesis by (simp add: fmt_02X_def Let_def)
qed

lemma charmap_loop_hits:
  "\<forall>l \<in> set lines. charmap_entry l \<longrightarrow> length (py_split (u '' = '') l) = 2 \<Longrightarrow>
   charmap_loop key lines w =
     Inr (if charmap_hits key lines = [] then w else Some (last (charmap_hits key lines)))"
proof (induction lines arbitrary: w)
  case Nil
  then show ?case by (simp add: charmap_hits_def)
next
  case (Cons l lines)
  show ?case
  proof (cases "charmap_entry l")
    case False
    with Cons show ?thesis by (auto simp: charmap_entry_def charmap_hits_def)
  next
    case True
    then have "length (py_split (u '' = '') l) = Suc (Suc 0)"
      using Cons.prems by simp
    then obtain a b where ab: "py_split (u '' = '') l = [a, b]"
      by (auto simp: length_Suc_conv)
    with True Cons show ?thesis
      by (simp add: charmap_entry_def charmap_hits_def)
  qed
qed

section \<open>Properties\<close>

text \<open>
  Claim C27. \<open>parse\<close> splits at every \<open>0xFF\<close> byte and deletes the \<open>0x00\<close> bytes: no phrase
  holds either byte, and joining the phrases back with \<open>0xFF\<close> gives the input without
  its \<open>0x00\<close> bytes.
\<close>

theorem parse_roundtrip:
  "py_join [0xff] (parse b) = filter (\<lambda>x. x \<noteq> 0) b \<and> (\<forall>p \<in> set (parse b). 0xff \<notin> set p \<and> 0 \<notin> set p)"
proof
  show "py_join [0xff] (parse b) = filter (\<lambda>x. x \<noteq> 0) b"
    by (simp add: parse_def py_replace_delete py_join_map_filter)
  show "\<forall>p \<in> set (parse b). 0xff \<notin> set p \<and> 0 \<notin> set p"
    using split_acc_single_free [of "0xff :: 8 word" "[]" _ b]
    by (auto simp: parse_def py_replace_delete py_split_def)
qed

theorem parse_roundtrip_witness:
  "py_join [0xff] (parse [1, 0, 0xff, 2 :: 8 word]) = [1, 0xff, 2]"
  using parse_roundtrip [of "[1, 0, 0xff, 2]"] by simp

text \<open>
  Claim C28. The script's only live code prints the bytes of \<open>mio0_menu_baserom.out\<close> from
  offset \<open>0xFF50\<close> as rows of eight \<open>0xHH, \<close> tokens between braces; \<open>get_n_bytes\<close> ignores
  its length argument \<open>0x400\<close>, so every byte to the end of the file is dumped.
\<close>

theorem text_extract_main_dump:
  "text_extract_main files =
    (case files ''./sm64_source/mio0_menu_baserom.out'' of
       None \<Rightarrow> Inl (FileNotFoundError ''./sm64_source/mio0_menu_baserom.out'')
     | Some b \<Rightarrow> Inr (''{\<newline>\<newline>'' @ concat (map dump_row (chunks 8 (drop 0xFF50 b))) @ ''\<newline>}\<newline>''))
   \<and> (\<forall>b. concat (chunks 8 (drop 0xFF50 b)) = drop 0xFF50 b)"
proof (intro conjI allI)
  show "text_extract_main files =
    (case files ''./sm64_source/mio0_menu_baserom.out'' of
       None \<Rightarrow> Inl (FileNotFoundError ''./sm64_source/mio0_menu_baserom.out'')
     | Some b \<Rightarrow> Inr (''{\<newline>\<newline>'' @ concat (map dump_row (chunks 8 (drop 0xFF50 b))) @ ''\<newline>}\<newline>''))"
    by (cases "files ''./sm64_source/mio0_menu_baserom.out''")
      (simp_all add: text_extract_main_def get_n_bytes_def dump_loop_rows)
  show "concat (chunks 8 (drop 0xFF50 b)) = drop 0xFF50 b" for b
    by (rule concat_chunks) simp
qed

text \<open>
  Claim C29. Every byte is printed as exactly two hex digits, all of them digits or
  upper-case letters \<open>A\<close>-\<open>F\<close> (the form of the tokens in \<open>charmap.txt\<close>), and reading the
  token back with \<open>int(_, 16)\<close> gives the byte's value.
\<close>

theorem fmt_02X_byte:
  "length (fmt_02X (unat (c :: 8 word))) = 2 \<and> set (fmt_02X (unat c)) \<subseteq> set ''0123456789ABCDEF'' \<and>
   py_int16 (''0x'' @ fmt_02X (unat c)) = Inr (int (unat c))"
proof (intro conjI)
  have "unat c < 256" using unsigned_less [of c] by simp
  then show "length (fmt_02X (unat c)) = 2" by (rule fmt_02X_length)
  show "set (fmt_02X (unat c)) \<subseteq> set ''0123456789ABCDEF''" by (rule fmt_02X_upper)
  show "py_int16 (''0x'' @ fmt_02X (unat c)) = Inr (int (unat c))"
    using py_int16_0x [OF fmt_02X_text, of "unat c"] fmt_02X_val [of "unat c"] by simp
qed

text \<open>
  Claim C17. The character of a byte: on a \<open>charmap.txt\<close> whose entries all have the form
  \<open>text = value\<close>, \<open>charmap\<close> returns the quoted text of the last entry whose value is
  the byte's \<open>0xHH\<close> token; \<open>@\<close> when there is none or that text is empty.
\<close>

theorem charmap_last_match:
  assumes "\<forall>l \<in> set (py_split (u ''\<newline>'') t). charmap_entry l \<longrightarrow> length (py_split (u '' = '') l) = 2"
  shows "charmap (Some t) c =
    Inr (let hits = charmap_hits (''0x'' @ fmt_02X (from_bytes_big c)) (py_split (u ''\<newline>'') t)
         in if hits = [] \<or> last hits = [] then u ''@'' else last hits)"
  using charmap_loop_hits [OF assms] by (simp add: charmap_def Let_def)

theorem charmap_last_match_witness:
  "charmap (Some (u ''# letters\<newline>\"a\" = 0x0A\<newline>\"b\" = 0x0A\<newline>\"c\" = 0x0B'')) [0x0A] = Inr (u ''b'')"
proof -
  let ?t = "u ''# letters\<newline>\"a\" = 0x0A\<newline>\"b\" = 0x0A\<newline>\"c\" = 0x0B''"
  have h: "\<forall>l \<in> set (py_split (u ''\<newline>'') ?t). charmap_entry l \<longrightarrow> length (py_split (u '' = '') l) = 2"
    by code_simp
  have k: "charmap_hits (''0x'' @ fmt_02X (from_bytes_big [0x0A])) (py_split (u ''\<newline>'') ?t) = [u ''a'', u ''b'']"
    by code_simp
  show ?thesis
    using charmap_last_match [OF h, of "[0x0A]"] k by (simp add: Let_def u_def)
qed

end
