(* ===== verification/BehaviorsHeaders.thy ===== *)
theory BehaviorsHeaders
  imports TextExtract "HOL-Library.List_Lexorder"
begin

text \<open>
  \<open>src/behaviors_headers.py\<close>: prepends the missing \<open>#include\<close> lines to every file of
  \<open>src/game/behaviors\<close>. Its strings are Python \<open>str\<close>, code points (\<open>ustr\<close> of
  \<open>TextExtract\<close>): \<open>gcc\<close>'s diagnostics quote names between U+2018 and U+2019.
  \<open>gcc\<close> is a function from the compiled path to its standard error, decoded;
  \<open>grep -r -P pattern src include\<close> is a function from the pattern, built here as the
  code builds it, to its decoded output (splitting bytes at \<open>\n\<close>, testing or locating
  an ASCII needle, and UTF-8 decoding commute). Python orders \<open>str\<close> by code points,
  which is the lexicographic order of \<open>List_Lexorder\<close> on \<open>nat list\<close>. A Python \<open>set\<close>
  is a list without duplicates; the code iterates over it in the list's order (Python
  leaves that order unspecified; only the order of the \<open>not found\<close> lines depends on it).
  The state is the file tree and the printed lines; the directory listing is a parameter.
\<close>

record bhv_world =
  b_files :: "string \<Rightarrow> ustr option"
  b_out :: "ustr list"

type_synonym 'a uio = "ustr list \<times> 'a result"

definition index_of :: "'a \<Rightarrow> 'a list \<Rightarrow> nat" where
  "index_of x xs = length (takeWhile (\<lambda>y. y \<noteq> x) xs)"

definition newline :: ustr where
  "newline = [10]"

text \<open>Lines 9-23 and 26-44: the names between U+2018 and U+2019 on the lines that carry
  the message; \<open>str.index\<close> raises when the closing quote is missing.\<close>

definition quoted_names :: "string \<Rightarrow> ustr \<Rightarrow> ustr list result" where
  "quoted_names message stderr =
     (let lines = filter (sublist (u message)) (py_split newline stderr);
          suffixes = map (\<lambda>line. drop (Suc (index_of 0x2018 line)) line)
            (filter (\<lambda>line. 0x2018 \<in> set line) lines)
      in ebind (map_res (\<lambda>p. if 0x2019 \<in> set p then Inr (take (index_of 0x2019 p) p)
                              else Inl ValueError) suffixes)
           (\<lambda>names. Inr (remdups names)))"

definition get_unknown_symbols :: "(string \<Rightarrow> ustr) \<Rightarrow> string \<Rightarrow> ustr list result" where
  "get_unknown_symbols gcc bhv_path = quoted_names ''undeclared'' (gcc bhv_path)"

definition get_unknown_functions :: "(string \<Rightarrow> ustr) \<Rightarrow> string \<Rightarrow> ustr list result" where
  "get_unknown_functions gcc bhv_path =
     quoted_names ''implicit declaration of function'' (gcc bhv_path)"

text \<open>Lines 62-70 and 90-98: the file names of the \<open>grep -r\<close> output lines that contain
  \<open>.h\<close>; \<open>bytes.index\<close> raises on a line without a colon.\<close>

definition grep_h_files :: "ustr \<Rightarrow> ustr list result" where
  "grep_h_files out =
     map_res (\<lambda>r. if of_char (CHR '':'') \<in> set r then Inr (take (index_of (of_char (CHR '':'')) r) r)
                  else Inl ValueError)
       (filter (sublist (u ''.h'')) (filter (\<lambda>r. r \<noteq> []) (py_split newline out)))"

text \<open>Lines 57-60: the three Perl patterns, with the symbol spliced in. A backslash
  cannot stand in an inner-syntax string literal: the literal parts are written with \<open>%\<close>
  for it, and \<open>bs\<close> puts the backslash back (no pattern of the code contains \<open>%\<close>).\<close>

definition bs :: "string \<Rightarrow> ustr" where
  "bs s = map (\<lambda>c. if c = CHR ''%'' then 0x5C else of_char c) s"

definition comments_re :: ustr where
  "comments_re = bs ''%/%*(%*(?!%/)|[^*])*%*%/''"

definition symbol_patterns :: "ustr \<Rightarrow> ustr list" where
  "symbol_patterns symbol =
     [bs ''^(%s|'' @ comments_re @ bs '')*#define%s('' @ comments_re @ bs '')*%s*'' @ symbol @ bs ''%s'',
      bs ''typedef.*%s'' @ symbol @ u '';'',
      bs ''[^=]+%s[%*]*'' @ symbol @ bs ''(%[.*%])*;'']"

text \<open>Lines 61-72: the first pattern with a header hit ends the loop; when none has one,
  the last pattern's empty list is what the code tests.\<close>

fun search_patterns :: "(ustr \<Rightarrow> ustr) \<Rightarrow> ustr list \<Rightarrow> ustr list result" where
  "search_patterns grep [] = Inr []"
| "search_patterns grep (pattern # patterns) =
     ebind (grep_h_files (grep pattern)) (\<lambda>true_h_files.
       if true_h_files \<noteq> [] then Inr true_h_files else search_patterns grep patterns)"

text \<open>Lines 47-82.\<close>

definition find_symbol :: "(ustr \<Rightarrow> ustr) \<Rightarrow> ustr \<Rightarrow> ustr option uio" where
  "find_symbol grep symbol =
     (if prefix (u ''DIALOG'') symbol then ([], Inr (Some (u ''include/dialog_ids.h'')))
      else if prefix (u ''COURSE_'') symbol then ([], Inr (Some (u ''include/course_table.h'')))
      else if prefix (u ''SEQ_'') symbol then ([], Inr (Some (u ''include/seq_ids.h'')))
      else if sublist (u ''_seg7_collision'') symbol
      then ([], Inr (Some (u ''levels/'' @ take (index_of True
              (map (\<lambda>i. prefix (u ''_seg7_collision'') (drop i symbol)) [0..<length symbol])) symbol
              @ u ''/header.h'')))
      else (case search_patterns grep (symbol_patterns symbol) of
          Inl e \<Rightarrow> ([], Inl e)
        | Inr [] \<Rightarrow> ([symbol @ u '' not found''], Inr None)
        | Inr (almost_there # _) \<Rightarrow>
            ([], Inr (Some (if almost_there = u ''include/PR/mbi.h''
                            then u ''include/PR/ultratypes.h'' else almost_there)))))"

definition function_pattern :: "ustr \<Rightarrow> ustr" where
  "function_pattern func = bs ''^[%w%s%*]*%w[%w%s%*]*[%s%*]+'' @ func @ bs ''%([^%(%)]*%);''"

text \<open>Lines 85-106.\<close>

definition find_function :: "(ustr \<Rightarrow> ustr) \<Rightarrow> ustr \<Rightarrow> ustr option uio" where
  "find_function grep func =
     (if func \<in> set [u ''sins'', u ''coss''] then ([], Inr (Some (u ''src/engine/math_util.h'')))
      else (case grep_h_files (grep (function_pattern func)) of
          Inl e \<Rightarrow> ([], Inl e)
        | Inr [] \<Rightarrow> ([func @ u '' not found''], Inr None)
        | Inr (file # _) \<Rightarrow> ([], Inr (Some file))))"

text \<open>Lines 109-113.\<close>

definition get_print_includes :: "ustr list \<Rightarrow> ustr list" where
  "get_print_includes files = map (\<lambda>file. u ''#include \"'' @ file @ u ''\"'') files"

text \<open>Lines 120-122 and 125-128: \<open>files.add\<close> for every name whose lookup gives a
  non-empty path (the walrus test is Python truthiness); the lookups' printed lines are
  kept in order, also when a later lookup raises.\<close>

fun collect_files :: "(ustr \<Rightarrow> ustr option uio) \<Rightarrow> ustr list \<Rightarrow> ustr list \<Rightarrow> ustr list uio" where
  "collect_files lookup [] files = ([], Inr files)"
| "collect_files lookup (name # names) files =
     (case lookup name of
        (out, Inl e) \<Rightarrow> (out, Inl e)
      | (out, Inr found) \<Rightarrow>
          (let files' = (case found of Some file \<Rightarrow> if file \<noteq> [] then List.insert file files else files
                                     | None \<Rightarrow> files)
           in case collect_files lookup names files' of (out', r) \<Rightarrow> (out @ out', r)))"

text \<open>Lines 117-136: one behaviour file. \<open>gcc\<close> runs twice on it, once per query.\<close>

definition bhv_file_step :: "(string \<Rightarrow> ustr) \<Rightarrow> (ustr \<Rightarrow> ustr) \<Rightarrow> string \<Rightarrow> bhv_world \<Rightarrow> unit result \<times> bhv_world" where
  "bhv_file_step gcc grep bhv_file w =
     (case get_unknown_symbols gcc bhv_file of
        Inl e \<Rightarrow> (Inl e, w)
      | Inr symbols \<Rightarrow>
     (case collect_files (find_symbol grep) symbols [u ''include/object_fields.h''] of
        (out1, Inl e) \<Rightarrow> (Inl e, w\<lparr>b_out := b_out w @ out1\<rparr>)
      | (out1, Inr files) \<Rightarrow>
     (case get_unknown_functions gcc bhv_file of
        Inl e \<Rightarrow> (Inl e, w\<lparr>b_out := b_out w @ out1\<rparr>)
      | Inr functions \<Rightarrow>
     (case collect_files (find_function grep) functions files of
        (out2, Inl e) \<Rightarrow> (Inl e, w\<lparr>b_out := b_out w @ out1 @ out2\<rparr>)
      | (out2, Inr files') \<Rightarrow>
     (let includes = sort (get_print_includes files');
          w' = w\<lparr>b_out := b_out w @ out1 @ out2 @ [u bhv_file, py_join newline includes]\<rparr>
      in case b_files w bhv_file of
           None \<Rightarrow> (Inl (FileNotFoundError bhv_file), w')
         | Some text \<Rightarrow>
             (Inr (), w'\<lparr>b_files := (b_files w)(bhv_file \<mapsto> py_join newline (includes @ py_split newline text))\<rparr>))))))"

fun behaviors_headers_main :: "(string \<Rightarrow> ustr) \<Rightarrow> (ustr \<Rightarrow> ustr) \<Rightarrow> string list \<Rightarrow> bhv_world \<Rightarrow> unit result \<times> bhv_world" where
  "behaviors_headers_main gcc grep [] w = (Inr (), w)"
| "behaviors_headers_main gcc grep (bhv_file # bhv_files) w =
     (case bhv_file_step gcc grep bhv_file w of
        (Inl e, w') \<Rightarrow> (Inl e, w')
      | (Inr _, w') \<Rightarrow> behaviors_headers_main gcc grep bhv_files w')"

text \<open>A behaviour file that uses an undeclared object field and \<open>sins\<close>, with a tree in
  which \<open>grep\<close> finds the field's \<open>#define\<close> in \<open>include/object_constants.h\<close>.\<close>

definition example_gcc :: "string \<Rightarrow> ustr" where
  "example_gcc path = py_join newline
     [u ''bhv.c:5:3: error: '' @ [0x2018] @ u ''oFoo'' @ [0x2019] @ u '' undeclared (first use in this function)'',
      u ''bhv.c:9:1: warning: implicit declaration of function '' @ [0x2018] @ u ''sins'' @ [0x2019]]"

definition example_grep :: "ustr \<Rightarrow> ustr" where
  "example_grep pattern = u ''include/object_constants.h:#define oFoo 3'' @ newline"

definition example_bhv_world :: bhv_world where
  "example_bhv_world = \<lparr>b_files = [''src/game/behaviors/bhv.c'' \<mapsto> u ''int x;''], b_out = []\<rparr>"

text \<open>A tree in which the \<open>#define\<close> pattern finds only a C file and the later
  patterns find \<open>include/PR/mbi.h\<close> first.\<close>

definition example_grep_mbi :: "ustr \<Rightarrow> ustr" where
  "example_grep_mbi pattern =
     (if pattern = hd (symbol_patterns (u ''Gfx'')) then u ''src/game/a.c:#define Gfx_LIKE 1''
      else u ''include/PR/mbi.h:typedef struct gfx Gfx;'' @ newline @ u ''include/types.h:Gfx *g;'')"

section \<open>Lemmas\<close>

lemma index_of_append: "x \<notin> set p \<Longrightarrow> index_of x (p @ x # r) = length p"
  by (induction p) (auto simp: index_of_def)

lemma newline_not_in: "10 \<notin> set l \<Longrightarrow> \<not> sublist newline l"
  by (auto simp: newline_def sublist_def)

lemma collect_files_grows:
  "collect_files lookup names files = (out, Inr files') \<Longrightarrow>
   set files \<subseteq> set files' \<and> (distinct files \<longrightarrow> distinct files')"
proof (induction names arbitrary: files out)
  case Nil
  then show ?case by simp
next
  case (Cons name names)
  obtain out1 r where l: "lookup name = (out1, r)" by fastforce
  then obtain found where r: "r = Inr found"
    using Cons.prems by (cases r) simp_all
  define files2 where "files2 = (case found of Some file \<Rightarrow> if file \<noteq> [] then List.insert file files else files
                                 | None \<Rightarrow> files)"
  obtain out2 where "collect_files lookup names files2 = (out2, Inr files')"
    using Cons.prems l r by (simp add: files2_def [symmetric] split: prod.splits)
  then have "set files2 \<subseteq> set files' \<and> (distinct files2 \<longrightarrow> distinct files')"
    by (rule Cons.IH)
  moreover have "set files \<subseteq> set files2 \<and> (distinct files \<longrightarrow> distinct files2)"
    by (auto simp: files2_def split: option.split)
  ultimately show ?case by blast
qed

lemma distinct_get_print_includes [simp]: "distinct (get_print_includes files) = distinct files"
  by (simp add: get_print_includes_def distinct_map inj_on_def)

lemma sort_get_print_includes_Nil: "sort (get_print_includes files) = [] \<longleftrightarrow> files = []"
proof -
  have "length (sort (get_print_includes files)) = length files"
    by (simp add: get_print_includes_def)
  then show ?thesis by (metis length_0_conv)
qed

lemma search_patterns_first_hit:
  "\<forall>q \<in> set pre. grep_h_files (grep q) = Inr [] \<Longrightarrow> grep_h_files (grep p) = Inr (h # hs) \<Longrightarrow>
   search_patterns grep (pre @ p # post) = Inr (h # hs)"
  by (induction pre) simp_all

section \<open>Properties\<close>

text \<open>
  Claim C31. One behaviour file, when every lookup succeeds: the file becomes the sorted,
  duplicate-free block of \<open>#include\<close> lines, which always holds \<open>object_fields.h\<close> and
  every header found, then a newline, then its old text unchanged; no other file changes.
\<close>

theorem bhv_file_step_prepends:
  assumes "get_unknown_symbols gcc f = Inr syms"
    and "collect_files (find_symbol grep) syms [u ''include/object_fields.h''] = (out1, Inr files)"
    and "get_unknown_functions gcc f = Inr fns"
    and "collect_files (find_function grep) fns files = (out2, Inr files')"
    and "b_files w f = Some text"
  shows "\<exists>w' includes. bhv_file_step gcc grep f w = (Inr (), w') \<and>
    b_files w' f = Some (py_join newline includes @ newline @ text) \<and>
    sorted includes \<and> distinct includes \<and>
    set includes = set (get_print_includes files') \<and>
    u ''#include \"include/object_fields.h\"'' \<in> set includes \<and>
    set files \<subseteq> set files' \<and> (\<forall>g. g \<noteq> f \<longrightarrow> b_files w' g = b_files w g)"
proof -
  let ?incs = "sort (get_print_includes files')"
  let ?w' = "w\<lparr>b_out := b_out w @ out1 @ out2 @ [u f, py_join newline ?incs],
                 b_files := (b_files w)(f \<mapsto> py_join newline (?incs @ py_split newline text))\<rparr>"
  have g1: "u ''include/object_fields.h'' \<in> set files \<and> distinct files"
    using collect_files_grows [OF assms(2)] by simp
  have g2: "set files \<subseteq> set files' \<and> (distinct files \<longrightarrow> distinct files')"
    by (rule collect_files_grows [OF assms(4)])
  have "files' \<noteq> []"
    using g1 g2 by auto
  then have "?incs \<noteq> []"
    by (simp add: sort_get_print_includes_Nil)
  then have join: "py_join newline (?incs @ py_split newline text) = py_join newline ?incs @ newline @ text"
    by (simp add: py_join_append newline_def)
  have lit: "u ''#include \"include/object_fields.h\"'' = u ''#include \"'' @ u ''include/object_fields.h'' @ u ''\"''"
    by (simp add: u_def)
  show ?thesis
  proof (intro exI [of _ ?w'] exI [of _ ?incs] conjI allI impI)
    show "bhv_file_step gcc grep f w = (Inr (), ?w')"
      using assms by (simp add: bhv_file_step_def Let_def)
    show "b_files ?w' f = Some (py_join newline ?incs @ newline @ text)"
      using join by simp
    show "sorted ?incs" by simp
    show "distinct ?incs" using g1 g2 by simp
    show "set ?incs = set (get_print_includes files')" by simp
    show "u ''#include \"include/object_fields.h\"'' \<in> set ?incs"
      unfolding lit using g1 g2 by (auto simp: get_print_includes_def)
    show "set files \<subseteq> set files'" using g2 by simp
  next
    fix g assume "g \<noteq> f"
    then show "b_files ?w' g = b_files w g" by simp
  qed
qed

text \<open>
  Claim C32. The names the diagnostics quote: when every line of the compiler's error
  stream carries the message and one name between U+2018 and U+2019, the lookup returns
  exactly those names, each once (the set of the code, as a list without duplicates).
\<close>

theorem quoted_names_extracts:
  assumes "\<forall>(p, n, s) \<in> set ds. 0x2018 \<notin> set p \<and> 0x2019 \<notin> set n \<and> 10 \<notin> set (p @ n @ s) \<and>
      sublist (u message) (p @ [0x2018] @ n @ [0x2019] @ s)"
    and "ds \<noteq> []"
  shows "quoted_names message (py_join newline (map (\<lambda>(p, n, s). p @ [0x2018] @ n @ [0x2019] @ s) ds)) =
    Inr (remdups (map (\<lambda>(p, n, s). n) ds))"
proof -
  let ?line = "\<lambda>(p, n, s). p @ [0x2018] @ n @ [0x2019] @ s :: ustr"
  let ?suf = "\<lambda>(p, n, s). n @ [0x2019] @ s :: ustr"
  let ?F = "\<lambda>p. if 0x2019 \<in> set p then Inr (take (index_of 0x2019 p) p) else Inl ValueError"
  have split: "py_split newline (py_join newline (map ?line ds)) = map ?line ds"
    unfolding newline_def using assms by (intro py_split_py_join_char) auto
  have lines: "filter (sublist (u message)) (map ?line ds) = map ?line ds"
    using assms(1) by (auto simp: filter_id_conv)
  have quoted: "filter (\<lambda>line. 0x2018 \<in> set line) (map ?line ds) = map ?line ds"
    by (auto simp: filter_id_conv)
  have sufs: "map (\<lambda>line. drop (Suc (index_of 0x2018 line)) line) (map ?line ds) = map ?suf ds"
    using assms(1) by (auto simp: index_of_append)
  have "map_res ?F (map ?suf ds) = Inr (map (\<lambda>p. take (index_of 0x2019 p) p) (map ?suf ds))"
    by (rule map_res_Inr) auto
  moreover have "map (\<lambda>p. take (index_of 0x2019 p) p) (map ?suf ds) = map (\<lambda>(p, n, s). n) ds"
    using assms(1) by (auto simp: index_of_append)
  ultimately have names: "map_res ?F (map ?suf ds) = Inr (map (\<lambda>(p, n, s). n) ds)"
    by (simp only:)
  have "quoted_names message (py_join newline (map ?line ds)) = ebind (map_res ?F (map ?suf ds)) (\<lambda>names. Inr (remdups names))"
    by (simp only: quoted_names_def Let_def split lines quoted sufs)
  then show ?thesis
    unfolding names by simp
qed

theorem quoted_names_extracts_witness:
  "quoted_names ''undeclared'' (py_join newline
      [u ''a.c:1: error: '' @ [0x2018] @ u ''oFoo'' @ [0x2019] @ u '' undeclared'',
       u ''a.c:2: error: '' @ [0x2018] @ u ''DIALOG_001'' @ [0x2019] @ u '' undeclared'',
       u ''a.c:7: error: '' @ [0x2018] @ u ''oFoo'' @ [0x2019] @ u '' undeclared'']) =
   Inr [u ''DIALOG_001'', u ''oFoo'']"
proof -
  let ?ds = "[(u ''a.c:1: error: '', u ''oFoo'', u '' undeclared''),
              (u ''a.c:2: error: '', u ''DIALOG_001'', u '' undeclared''),
              (u ''a.c:7: error: '', u ''oFoo'', u '' undeclared'')]"
  have h: "\<forall>(p, n, s) \<in> set ?ds. 0x2018 \<notin> set p \<and> 0x2019 \<notin> set n \<and> 10 \<notin> set (p @ n @ s) \<and>
      sublist (u ''undeclared'') (p @ [0x2018] @ n @ [0x2019] @ s)"
    by code_simp
  have r: "remdups (map (\<lambda>(p, n, s). n) ?ds) = [u ''DIALOG_001'', u ''oFoo'']"
    by code_simp
  have "quoted_names ''undeclared'' (py_join newline (map (\<lambda>(p, n, s). p @ [0x2018] @ n @ [0x2019] @ s) ?ds)) =
      Inr (remdups (map (\<lambda>(p, n, s). n) ?ds))"
    by (rule quoted_names_extracts [OF h]) simp
  then show ?thesis
    unfolding r by (simp only: list.map prod.case)
qed

theorem bhv_file_step_prepends_witness:
  "\<exists>w' includes. bhv_file_step example_gcc example_grep ''src/game/behaviors/bhv.c'' example_bhv_world = (Inr (), w') \<and>
     b_files w' ''src/game/behaviors/bhv.c'' = Some (py_join newline includes @ newline @ u ''int x;'') \<and>
     sorted includes \<and> distinct includes \<and>
     set includes = set (get_print_includes [u ''src/engine/math_util.h'', u ''include/object_constants.h'', u ''include/object_fields.h''])"
proof -
  have s: "get_unknown_symbols example_gcc ''src/game/behaviors/bhv.c'' = Inr [u ''oFoo'']"
    by code_simp
  have c1: "collect_files (find_symbol example_grep) [u ''oFoo''] [u ''include/object_fields.h''] =
      ([], Inr [u ''include/object_constants.h'', u ''include/object_fields.h''])"
    by code_simp
  have f: "get_unknown_functions example_gcc ''src/game/behaviors/bhv.c'' = Inr [u ''sins'']"
    by code_simp
  have c2: "collect_files (find_function example_grep) [u ''sins''] [u ''include/object_constants.h'', u ''include/object_fields.h''] =
      ([], Inr [u ''src/engine/math_util.h'', u ''include/object_constants.h'', u ''include/object_fields.h''])"
    by code_simp
  have t: "b_files example_bhv_world ''src/game/behaviors/bhv.c'' = Some (u ''int x;'')"
    by (simp add: example_bhv_world_def)
  from bhv_file_step_prepends [OF s c1 f c2 t] show ?thesis by blast
qed

text \<open>
  Claim C37. The header of a symbol with none of the fixed prefixes: the patterns are
  tried in the order \<open>#define\<close>, \<open>typedef\<close>, declaration, the first one whose \<open>grep\<close>
  output names a header decides, and the first header it names is returned, except that
  \<open>include/PR/mbi.h\<close> is replaced by \<open>include/PR/ultratypes.h\<close>; nothing is printed.
\<close>

theorem find_symbol_first_hit:
  assumes "\<not> prefix (u ''DIALOG'') symbol" "\<not> prefix (u ''COURSE_'') symbol"
    and "\<not> prefix (u ''SEQ_'') symbol" "\<not> sublist (u ''_seg7_collision'') symbol"
    and "symbol_patterns symbol = pre @ p # post"
    and "\<forall>q \<in> set pre. grep_h_files (grep q) = Inr []" and "grep_h_files (grep p) = Inr (h # hs)"
  shows "find_symbol grep symbol =
    ([], Inr (Some (if h = u ''include/PR/mbi.h'' then u ''include/PR/ultratypes.h'' else h)))"
  using assms search_patterns_first_hit [OF assms(6,7)] by (simp add: find_symbol_def)

theorem find_symbol_first_hit_witness:
  "find_symbol example_grep_mbi (u ''Gfx'') = ([], Inr (Some (u ''include/PR/ultratypes.h'')))"
proof -
  let ?ps = "symbol_patterns (u ''Gfx'')"
  have h: "\<not> prefix (u ''DIALOG'') (u ''Gfx'')" "\<not> prefix (u ''COURSE_'') (u ''Gfx'')"
    "\<not> prefix (u ''SEQ_'') (u ''Gfx'')" "\<not> sublist (u ''_seg7_collision'') (u ''Gfx'')"
    "?ps = [?ps ! 0] @ ?ps ! 1 # [?ps ! 2]"
    "\<forall>q \<in> set [?ps ! 0]. grep_h_files (example_grep_mbi q) = Inr []"
    "grep_h_files (example_grep_mbi (?ps ! 1)) = Inr [u ''include/PR/mbi.h'', u ''include/types.h'']"
    by code_simp+
  from find_symbol_first_hit [OF h] show ?thesis by simp
qed

end
