(* ===== verification/UnusedAsm.thy ===== *)
theory UnusedAsm
  imports PyStr
begin

text \<open>
  \<open>src/unused_asm.py\<close>: a top-level script, run inside the decompilation tree, that
  moves every \<open>asm/non_matchings/*_eu.s\<close> (and \<open>*_eu.inc.s\<close>) file into the \<open>eu\<close>
  subdirectory under its name without \<open>_eu\<close>, and rewrites the path in the first C file
  that mentions it. The tree is a map from paths to contents; the listings of
  \<open>glob("*.s")\<close> and \<open>rglob("*.c")\<close>, whose order Python leaves to the file system, are
  parameters; \<open>grep\<close> (in the unused \<open>delete_if_unused\<close>) is a predicate.
\<close>

record tree =
  t_files :: "string \<Rightarrow> string option"
  t_out :: "string list"

type_synonym 'a tact = "tree \<Rightarrow> 'a result \<times> tree"

definition t_print :: "string \<Rightarrow> tree \<Rightarrow> tree" where
  "t_print s t = t\<lparr>t_out := t_out t @ [s]\<rparr>"

text \<open>\<open>Path(p).parent\<close> of a path with a directory part.\<close>

definition path_parent :: "string \<Rightarrow> string" where
  "path_parent p = py_join ''/'' (butlast (py_split ''/'' p))"

text \<open>Lines 6-12, called only from a commented-out line.\<close>

definition delete_if_unused :: "(string \<Rightarrow> bool) \<Rightarrow> string \<Rightarrow> tree \<Rightarrow> tree" where
  "delete_if_unused grep_found nonmatching t =
     (if grep_found nonmatching then t
      else (t_print (''deleting '' @ nonmatching) t)\<lparr>t_files := (t_files t)(nonmatching := None)\<rparr>)"

text \<open>Lines 18-24.\<close>

definition is_eu_asm :: "string \<Rightarrow> bool" where
  "is_eu_asm nonmatching \<longleftrightarrow> suffix ''eu.s'' nonmatching \<or> suffix ''eu.inc.s'' nonmatching"

definition eu_dest :: "string \<Rightarrow> string" where
  "eu_dest nonmatching =
     path_div (path_div (path_parent nonmatching) ''eu'')
       (py_replace ''_eu.inc.s'' ''.inc.s'' (py_replace ''_eu.s'' ''.s'' (path_name nonmatching)))"

text \<open>\<open>Path(src).replace(dest)\<close>: the file moves, replacing any file at \<open>dest\<close>.\<close>

definition move_file :: "string \<Rightarrow> string \<Rightarrow> unit tact" where
  "move_file src dest t = (case t_files t src of
      None \<Rightarrow> (Inl (FileNotFoundError src), t)
    | Some c \<Rightarrow> (Inr (), t\<lparr>t_files := ((t_files t)(src := None))(dest \<mapsto> c)\<rparr>))"

text \<open>Lines 29-35: the first C file that contains the old path is rewritten.\<close>

fun rewrite_first :: "string \<Rightarrow> string \<Rightarrow> string list \<Rightarrow> unit tact" where
  "rewrite_first nonmatching dest [] t = (Inr (), t)"
| "rewrite_first nonmatching dest (src_file # src_files) t =
     (case t_files t src_file of
        None \<Rightarrow> (Inl (FileNotFoundError src_file), t)
      | Some fulltext \<Rightarrow>
          if sublist nonmatching fulltext
          then (Inr (), (t_print (''replacing in '' @ src_file) t)\<lparr>t_files :=
                  (t_files t)(src_file \<mapsto> py_replace nonmatching dest fulltext)\<rparr>)
          else rewrite_first nonmatching dest src_files t)"

text \<open>Lines 16-36: one \<open>.s\<close> file of the listing.\<close>

definition unused_asm_step :: "string list \<Rightarrow> string \<Rightarrow> unit tact" where
  "unused_asm_step c_files nonmatching t =
     (if \<not> is_eu_asm nonmatching then (Inr (), t)
      else (let dest = eu_dest nonmatching in
        case move_file nonmatching dest t of
          (Inl e, t') \<Rightarrow> (Inl e, t')
        | (Inr _, t') \<Rightarrow>
            (case rewrite_first nonmatching dest c_files t' of
               (Inl e, t'') \<Rightarrow> (Inl e, t'')
             | (Inr _, t'') \<Rightarrow> (Inr (), t_print (''done with '' @ dest) t''))))"

fun unused_asm_main :: "string list \<Rightarrow> string list \<Rightarrow> unit tact" where
  "unused_asm_main c_files [] t = (Inr (), t)"
| "unused_asm_main c_files (nonmatching # rest) t =
     (case unused_asm_step c_files nonmatching t of
        (Inl e, t') \<Rightarrow> (Inl e, t')
      | (Inr _, t') \<Rightarrow> unused_asm_main c_files rest t')"

section \<open>Lemmas\<close>

lemma move_file_Some:
  "t_files t src = Some c \<Longrightarrow>
   move_file src dest t = (Inr (), t\<lparr>t_files := ((t_files t)(src := None))(dest \<mapsto> c)\<rparr>)"
  by (simp add: move_file_def)

text \<open>
  The suffix test has no underscore: \<open>bleu.s\<close> passes it and is moved to \<open>eu/bleu.s\<close>,
  though it is no \<open>_eu\<close> file.
\<close>

lemma eu_suffix_without_underscore:
  "is_eu_asm ''asm/non_matchings/bleu.s'' \<and> eu_dest ''asm/non_matchings/bleu.s'' = ''asm/non_matchings/eu/bleu.s''"
  by code_simp

lemma rewrite_first_frame:
  "rewrite_first nonmatching dest c_files t = (r, t') \<Longrightarrow> t_files t' f \<noteq> t_files t f \<Longrightarrow> f \<in> set c_files"
  by (induction c_files arbitrary: r) (auto simp: t_print_def split: option.splits if_splits)

lemma unused_asm_step_frame:
  assumes "unused_asm_step c_files n t = (r, t')" and "t_files t' f \<noteq> t_files t f"
  shows "f \<in> set c_files \<or> (is_eu_asm n \<and> (f = n \<or> f = eu_dest n))"
proof (cases "is_eu_asm n \<and> t_files t n \<noteq> None")
  case True
  then obtain c where c: "t_files t n = Some c" by blast
  let ?t1 = "t\<lparr>t_files := ((t_files t)(n := None))(eu_dest n \<mapsto> c)\<rparr>"
  obtain r1 t2 where rw: "rewrite_first n (eu_dest n) c_files ?t1 = (r1, t2)" by fastforce
  have "t_files t' = t_files t2"
    using assms(1) True c rw by (cases r1) (auto simp: unused_asm_step_def move_file_Some t_print_def Let_def)
  then have "t_files t2 f \<noteq> t_files ?t1 f \<or> t_files ?t1 f \<noteq> t_files t f"
    using assms(2) by auto
  then show ?thesis
    using rewrite_first_frame [OF rw] True by (auto split: if_splits)
next
  case False
  have "t' = t"
  proof (cases "is_eu_asm n")
    case True
    with False have "move_file n (eu_dest n) t = (Inl (FileNotFoundError n), t)"
      by (simp add: move_file_def)
    with True assms(1) show ?thesis by (simp add: unused_asm_step_def Let_def)
  qed (use assms(1) in \<open>simp add: unused_asm_step_def\<close>)
  with assms(2) show ?thesis by simp
qed

section \<open>Properties\<close>

text \<open>
  Claim C30. One \<open>_eu\<close> file: it is moved to its \<open>eu/\<close> name, the first C file of the
  listing that mentions its old path has the path replaced, and the loop stops there:
  a later C file is left as it was, even when it mentions the old path, which no
  longer exists.
\<close>

theorem unused_asm_step_first_only:
  assumes "is_eu_asm p" and "t_files t p = Some c"
    and "t_files t a = Some ta" and "sublist p ta"
    and "a \<noteq> p" and "a \<noteq> eu_dest p" and "b \<noteq> a" and "b \<noteq> p" and "b \<noteq> eu_dest p"
  shows "\<exists>t'. unused_asm_step (a # b # rest) p t = (Inr (), t') \<and>
    t_files t' (eu_dest p) = Some c \<and> (eu_dest p \<noteq> p \<longrightarrow> t_files t' p = None) \<and>
    t_files t' a = Some (py_replace p (eu_dest p) ta) \<and> t_files t' b = t_files t b"
proof -
  let ?t1 = "t\<lparr>t_files := ((t_files t)(p := None))(eu_dest p \<mapsto> c)\<rparr>"
  have "t_files ?t1 a = Some ta" using assms(3,5,6) by simp
  then have "rewrite_first p (eu_dest p) (a # b # rest) ?t1 =
      (Inr (), (t_print (''replacing in '' @ a) ?t1)\<lparr>t_files := (t_files ?t1)(a \<mapsto> py_replace p (eu_dest p) ta)\<rparr>)"
    using assms(4) by simp
  then show ?thesis
    using assms by (simp add: unused_asm_step_def move_file_Some t_print_def Let_def)
qed

theorem unused_asm_step_first_only_witness:
  "\<exists>t'. unused_asm_step [''src/a.c'', ''src/b.c''] ''asm/non_matchings/foo_eu.s''
      \<lparr>t_files = [''asm/non_matchings/foo_eu.s'' \<mapsto> ''glabel foo'',
         ''src/a.c'' \<mapsto> ''GLOBAL_ASM(\"asm/non_matchings/foo_eu.s\")'',
         ''src/b.c'' \<mapsto> ''GLOBAL_ASM(\"asm/non_matchings/foo_eu.s\")''], t_out = []\<rparr> = (Inr (), t') \<and>
    t_files t' ''asm/non_matchings/eu/foo.s'' = Some ''glabel foo'' \<and>
    t_files t' ''asm/non_matchings/foo_eu.s'' = None \<and>
    t_files t' ''src/a.c'' = Some ''GLOBAL_ASM(\"asm/non_matchings/eu/foo.s\")'' \<and>
    t_files t' ''src/b.c'' = Some ''GLOBAL_ASM(\"asm/non_matchings/foo_eu.s\")''"
proof -
  have d: "eu_dest ''asm/non_matchings/foo_eu.s'' = ''asm/non_matchings/eu/foo.s''" by code_simp
  have e: "is_eu_asm ''asm/non_matchings/foo_eu.s''" by code_simp
  have s: "sublist ''asm/non_matchings/foo_eu.s'' ''GLOBAL_ASM(\"asm/non_matchings/foo_eu.s\")''" by code_simp
  have r: "py_replace ''asm/non_matchings/foo_eu.s'' ''asm/non_matchings/eu/foo.s''
      ''GLOBAL_ASM(\"asm/non_matchings/foo_eu.s\")'' = ''GLOBAL_ASM(\"asm/non_matchings/eu/foo.s\")''" by code_simp
  from unused_asm_step_first_only [OF e, of "\<lparr>t_files = [''asm/non_matchings/foo_eu.s'' \<mapsto> ''glabel foo'',
         ''src/a.c'' \<mapsto> ''GLOBAL_ASM(\"asm/non_matchings/foo_eu.s\")'',
         ''src/b.c'' \<mapsto> ''GLOBAL_ASM(\"asm/non_matchings/foo_eu.s\")''], t_out = []\<rparr>"
      "''glabel foo''" "''src/a.c''" "''GLOBAL_ASM(\"asm/non_matchings/foo_eu.s\")''" "''src/b.c''" "[]"]
  show ?thesis by (simp add: d s r)
qed

text \<open>
  Claim C7. The whole run touches nothing else: a file whose content differs after
  \<open>unused_asm_main\<close> (whether it ends normally or raises) is a C file of the listing, or
  an \<open>eu\<close> asm file of the \<open>.s\<close> listing or its destination under \<open>eu/\<close>.
\<close>

theorem unused_asm_main_frame:
  assumes "unused_asm_main c_files nonmatchings t = (r, t')" and "t_files t' f \<noteq> t_files t f"
  shows "f \<in> set c_files \<or> (\<exists>n \<in> set nonmatchings. is_eu_asm n \<and> (f = n \<or> f = eu_dest n))"
  using assms
proof (induction nonmatchings arbitrary: t)
  case Nil
  then show ?case by simp
next
  case (Cons n rest)
  obtain r1 t1 where s: "unused_asm_step c_files n t = (r1, t1)" by fastforce
  show ?case
  proof (cases r1)
    case (Inl e)
    with Cons.prems s have "t' = t1" by simp
    with unused_asm_step_frame [OF s] Cons.prems(2) show ?thesis by auto
  next
    case (Inr u)
    with Cons.prems s have m: "unused_asm_main c_files rest t1 = (r, t')" by simp
    show ?thesis
    proof (cases "t_files t1 f = t_files t f")
      case True
      with Cons.prems(2) have "t_files t' f \<noteq> t_files t1 f" by simp
      with Cons.IH [OF m] show ?thesis by auto
    next
      case False
      with unused_asm_step_frame [OF s] show ?thesis by auto
    qed
  qed
qed

theorem unused_asm_main_frame_witness:
  "''asm/non_matchings/eu/foo.s'' \<in> set [''src/a.c''] \<or>
   (\<exists>n \<in> set [''asm/non_matchings/foo_eu.s'', ''asm/non_matchings/bar.s''].
      is_eu_asm n \<and> (''asm/non_matchings/eu/foo.s'' = n \<or> ''asm/non_matchings/eu/foo.s'' = eu_dest n))"
proof -
  let ?t = "\<lparr>t_files = [''asm/non_matchings/foo_eu.s'' \<mapsto> ''glabel foo'', ''asm/non_matchings/bar.s'' \<mapsto> ''glabel bar'',
         ''src/a.c'' \<mapsto> ''GLOBAL_ASM(\"asm/non_matchings/foo_eu.s\")''], t_out = []\<rparr>"
  let ?run = "unused_asm_main [''src/a.c''] [''asm/non_matchings/foo_eu.s'', ''asm/non_matchings/bar.s''] ?t"
  have run: "?run = (fst ?run, snd ?run)" by simp
  have "t_files (snd ?run) ''asm/non_matchings/eu/foo.s'' = Some ''glabel foo''"
    by code_simp
  then have "t_files (snd ?run) ''asm/non_matchings/eu/foo.s'' \<noteq> t_files ?t ''asm/non_matchings/eu/foo.s''"
    by simp
  from unused_asm_main_frame [OF run this] show ?thesis .
qed

end
