(* ===== verification/Spec2Isabelle.thy ===== *)
theory Spec2Isabelle
  imports FileOrder AddNonmatching BehaviorsHeaders UnusedAsm
begin

text \<open>
  \<^bold>\<open>A verification development of the sm64 match helper scripts.\<close>

  The repository holds Python scripts used while matching the Super Mario 64 decompilation.
  The two largest, \<open>src/order_bss.py\<close> and \<open>src/order_data.py\<close>, recover the order of a
  translation unit's \<open>.bss\<close> (or \<open>.data\<close>) symbols: for each symbol they find the
  \<open>R_MIPS_HI16\<close>/\<open>R_MIPS_LO16\<close> relocation pair in \<open>objdump -rd\<close> of an object file, read the
  \<open>lui\<close> and the \<open>addiu\<close>/load/store immediates at those places of the base ROM (and the built
  ROM) with \<open>mipsdisasm\<close>, rebuild the RAM address the pair addresses, and print the symbols
  sorted by it. The object files and their ROM offsets come from the linker map.

  \<^bold>\<open>Theories, in import order.\<close>
  \<^item> \<open>Prelude\<close>: exceptions as values (\<open>error\<close>, \<open>'a result = error + 'a\<close>) and printing
    computations (\<open>'a io\<close>: the lines printed and the outcome), with \<open>ebind\<close>/\<open>iobind\<close>,
    Python indexing (\<open>py_index\<close>, \<open>py_last\<close>) and raising comprehensions (\<open>map_res\<close>).
  \<^item> \<open>PyStr\<close>: the Python builtins the scripts use, written from Python's semantics:
    \<open>str.strip\<close>, \<open>str.split()\<close>, \<open>str.split(sep)\<close> (a \<open>function\<close> with a measure),
    \<open>str.replace\<close>, \<open>int(s, 16)\<close> (sign, \<open>0x\<close> prefix, underscores), \<open>hex()\<close>, and the
    pathlib joins. Main results: \<open>py_int16 (py_hex i) = Inr i\<close>, the shape of
    \<open>split\<close> around a separator, and the hex digit lemmas.
  \<^item> \<open>Disasm\<close> (Address Reconstructor, \<open>order_bss.py\<close> lines 10-39 and 70-91,
    \<open>order_data.py\<close> 9-23): \<open>get_asm_line\<close> over an oracle \<open>disasm\<close> for \<open>mipsdisasm\<close>,
    the operand readers \<open>hi_operand\<close>/\<open>lo_operand\<close>, \<open>ram_addr_of\<close> and \<open>real_ram_addr\<close>.
    The abstract specification is \<open>lui_addiu\<close>, the 32-bit word the MIPS pair computes
    (\<open>push_bit 16 hi + scast lo\<close>). \<open>real_ram_addr_reconstructs\<close> is the functional
    statement on any disassembly text of the expected shape; \<open>ram_addr_of_bounds\<close> the
    range and the relation to \<open>lui_addiu\<close>: the Python sum is congruent to it modulo
    \<open>2^32\<close> but never wraps, so an address with \<open>hi = 0\<close> and a negative \<open>lo\<close> comes out
    negative.
  \<^item> \<open>Reloc\<close> (Relocation Locator, \<open>order_bss.py\<close> 42-93, \<open>order_data.py\<close> 26-69): the
    scan \<open>scan_relocs\<close>/\<open>find_hi_lo\<close> over an oracle \<open>objdump\<close>, its equivalence with the
    declarative \<open>reloc_spec\<close> (last entry of each kind), and the outcomes: a pair, one half
    (\<open>RelocShape\<close>), absent, substring matches; \<open>get_real_ram_addrs\<close> over both ROMs and
    \<open>order_data.py\<close>'s \<open>get_real_ram_addr\<close>, the base-ROM pass alone.
  \<^item> \<open>Symbols\<close> (Symbol Enumerator, \<open>order_bss.py\<close> 96-106, \<open>order_data.py\<close> 72-82):
    \<open>get_symbols\<close> over an oracle for \<open>objdump -t\<close>; total for every tag the scripts pass.
  \<^item> \<open>LinkerMap\<close> (Linker-Map Reader, \<open>order_bss.py\<close> 109-171, \<open>order_data.py\<close> 85-129):
    both copies of \<open>get_o_files_and_offsets\<close> as recursion over the enumerated lines, with
    the map text and \<open>Path.is_file\<close> as parameters; equivalence with \<open>map_spec\<close>
    (\<open>takeWhile\<close>/\<open>dropWhile\<close> between the landmarks, \<open>map_filter\<close> of the entries);
    the two copies agree on every map without \<open>*.o\<close> patterns and \<open>libgoddard.a\<close>
    members; a map ending in an entry line makes the reader raise.
  \<^item> \<open>Report\<close> (Ordering Report, \<open>order_bss.py\<close> 174-235): \<open>print_symbol_position_diff\<close>
    and the \<open>__main__\<close> block, \<open>symbol_positions\<close> being an association list in insertion
    order. The invariant \<open>table_ok\<close> (distinct keys, parseable base addresses) holds along
    the scan, which only appends (first observation wins); a conflict prints one warning
    and changes nothing; any exception ends the run; the report is the table sorted stably
    by base-ROM address. An example build (\<open>example_map\<close>, \<open>example_symtab\<close>,
    \<open>example_objdump\<close>, \<open>example_disasm\<close>) is run end to end.
  \<^item> \<open>FileOrder\<close> (File Ordering, \<open>order_data.py\<close> 132-165): the \<open>__main__\<close> of
    \<open>order_data.py\<close>, with the per-object loop state as the record \<open>file_scan\<close>
    (\<open>min_symbol\<close>, \<open>None\<close> for \<open>float("inf")\<close>, and \<open>max_symbol\<close>, \<open>-1\<close> at the start)
    and \<open>file_order\<close> as an association list updated by \<open>AList.update\<close> (Python's dict
    assignment). Exceptions of one symbol are caught (\<open>whatever...\<close>); the object loop
    equals the declarative \<open>record_file\<close> fold, and with distinct objects a
    \<open>map_filter\<close> over \<open>file_max\<close>; the output is sorted by the largest address;
    \<open>-1\<close> doubles as sentinel and address.
  \<^item> \<open>Regex\<close>: Python's \<open>re.match\<close> for the patterns the scripts use (literals, \<open>.\<close>,
    greedy \<open>.*\<close>, groups) as a backtracking matcher \<open>rmatch\<close> that tries the longest
    run of \<open>.*\<close> first; recursion through the candidate list is justified by the
    congruence rule \<open>first_some_cong\<close>.
  \<^item> \<open>AddNonmatching\<close> (Non-matching function workflow, \<open>src/add_nonmatching.py\<close>):
    every function as an action \<open>'a act\<close> on the record \<open>world\<close> (standard input and
    output, files, working directory, \<open>SM64_TOOLS\<close>, the value of \<open>random.randint\<close>,
    and \<open>first-diff.py\<close>, \<open>make\<close>, \<open>mipsdisasm\<close> as functions of the files).
    \<open>replace_function\<close> is the line loop \<open>rf_loop\<close> with its \<open>inside\<close> flag,
    \<open>write_asm\<close> the loop \<open>write_asm_loop\<close> that stops one line after a confirmed
    \<open>jr $ra\<close>, \<open>prompt\<close> a \<open>function\<close> terminating on the length of standard input.
    The lemmas show the wrap of a well-formed function, that the pattern matches every
    line naming the function before a \<open> {\<close> (call sites included),
    that \<open>prompt\<close> returns the first valid answer and only valid ones and ends on every
    input (\<open>prompt_terminates\<close>: one prompt per line read, \<open>EOFError\<close> exactly when no
    line is accepted), the content of the asm file, and that a relative
    \<open>sm64_source\<close> breaks the run after \<open>os.chdir\<close>. A failed \<open>make\<close> prints the
    \<open>repr\<close> of its standard output bytes (\<open>py_bytes_repr\<close>). Paths are joined as strings,
    not normalised.
  \<^item> \<open>TextExtract\<close> (Text table decoder, \<open>src/text_extract.py\<close>): bytes as lists of
    8-bit words, the text of \<open>charmap.txt\<close> as code points; \<open>chunks\<close>, \<open>parse\<close>,
    \<open>charmap\<close> (last matching line wins, \<open>@\<close> by default), \<open>translate\<close>,
    \<open>print_triplet\<close>, \<open>ezcopy\<close> and the hex dump of \<open>__main__\<close>. The lemmas show that
    \<open>parse\<close> is undone by joining with \<open>0xFF\<close> (up to the deleted \<open>0x00\<close>), that the
    dump loop with its \<open>i % 8\<close> test prints rows of eight bytes of the whole file tail
    (the length argument is ignored), that each byte prints as two upper-case hex
    digits that read back to its value, and that \<open>charmap\<close> refines \<open>charmap_hits\<close>,
    the declarative list of matching entries: the last hit wins, \<open>@\<close> by default.
  \<^item> \<open>UnusedAsm\<close> (Non-matching asm mover, \<open>src/unused_asm.py\<close>): the top-level loop over
    a record \<open>tree\<close> of files and printed lines; a moved file is rewritten in the first
    C file that mentions it only, and a whole run changes only C files of the listing,
    \<open>_eu\<close> asm files and their \<open>eu/\<close> destinations.
  \<^item> \<open>BehaviorsHeaders\<close> (Behaviour header fixer, \<open>src/behaviors_headers.py\<close>): the
    names quoted in \<open>gcc\<close>'s diagnostics (\<open>quoted_names\<close>), the header lookups
    \<open>find_symbol\<close> (fixed prefixes, then three \<open>grep -P\<close> patterns in order) and
    \<open>find_function\<close>, the accumulation of the header set (\<open>collect_files\<close>), and one file of
    the \<open>__main__\<close> loop (\<open>bhv_file_step\<close>) on a record \<open>bhv_world\<close> of files and printed
    lines. Strings are code points, sorted as Python sorts them. The lemmas show that the
    names quoted between U+2018 and U+2019 are extracted, that the first pattern with a
    header hit decides the header of a symbol, and that a processed file gets
    the sorted, duplicate-free include block with \<open>object_fields.h\<close> in front of its
    unchanged text while no other file changes.

  \<^bold>\<open>External programs.\<close> \<open>mipsdisasm\<close>, \<open>mips-linux-gnu-objdump -rd\<close> and \<open>-t\<close> are
  functions from their argument to their standard output (\<open>disasm\<close>, \<open>objdump\<close>,
  \<open>symtab\<close>), and so are \<open>gcc\<close> (to its decoded standard error) and
  \<open>grep -r -P\<close> (from the pattern the script builds to its output); the linker map is
  its text; \<open>Path.is_file\<close> is a predicate. Theorems hold for every such oracle, and
  the witnesses fix concrete ones. \<open>argparse\<close>, \<open>os.environ\<close> and the file reads are
  the parameters of the main functions.

  \<^bold>\<open>Loops and termination.\<close> Every loop of the modelled code runs over a finite list
  (lines, symbols, objects, ROM images), so each is structural recursion or, for
  \<open>str.split(sep)\<close> and \<open>chunks\<close>, a \<open>function\<close> with the measure of the remaining
  input. The one
  \<open>while\<close> loop, \<open>prompt\<close>, reads a line per round; standard input is a finite list
  (its end raises \<open>EOFError\<close>), so it terminates by the length of what is left. No fuel
  is needed and every model is total.

  \<^bold>\<open>Not modelled.\<close> What the external programs compute: \<open>gcc\<close>'s diagnostics,
  the matching of the Perl-compatible patterns by \<open>grep -P\<close> (the patterns are built
  exactly and passed on), \<open>make\<close>, \<open>first-diff.py\<close> and the disassemblers. The order in
  which Python iterates over a \<open>set\<close> or a directory listing is a parameter (a list),
  and pathlib's normalisation of paths is not modelled.
\<close>

end
